theory Spec2Isabelle
  imports Complex_Main "HOL-Library.Word" "HOL-Library.Stream"
begin

unbundle bit_operations_syntax

section \<open>Machine integers of the target\<close>

text \<open>
  The driver is Go code for \<^verbatim>\<open>GOOS=tamago GOARCH=arm\<close> (see \<^verbatim>\<open>arm/arm.go\<close>), so the
  Go type \<^verbatim>\<open>int\<close> has 32 bits.  Both \<^verbatim>\<open>uint32\<close> and \<^verbatim>\<open>int\<close> are 32-bit words:
  arithmetic wraps, \<open>unat\<close> reads an \<^verbatim>\<open>uint32\<close> and \<open>sint\<close> reads an \<^verbatim>\<open>int\<close>.
  A conversion between the two keeps the bits.  A Go shift \<^verbatim>\<open>x << s\<close> with an unsigned
  count \<open>s\<close> not below the width is 0, which is what \<open>push_bit\<close> does on words.
\<close>

type_synonym uint32 = "32 word"
type_synonym go_int = "32 word"

section \<open>Package bits\<close>

text \<open>
  Modelled from the spec: package \<^verbatim>\<open>bits\<close> (the bit-field codec) is not among the
  sources.  \<^verbatim>\<open>Get\<close> reads and right-shifts the bits under the mask, \<^verbatim>\<open>SetN\<close> clears
  the mask window and writes \<open>value AND mask\<close> shifted by the offset, \<^verbatim>\<open>Set\<close> sets one bit.
\<close>

definition Get :: "uint32 \<Rightarrow> nat \<Rightarrow> uint32 \<Rightarrow> uint32" where
  "Get w pos msk = drop_bit pos w AND msk"

definition SetN :: "uint32 \<Rightarrow> nat \<Rightarrow> uint32 \<Rightarrow> uint32 \<Rightarrow> uint32" where
  "SetN w pos msk val = (w AND NOT (push_bit pos msk)) OR push_bit pos (val AND msk)"

definition Set_bit :: "uint32 \<Rightarrow> nat \<Rightarrow> uint32" where
  "Set_bit w pos = w OR push_bit pos 1"

section \<open>The controller and its simulated hardware\<close>

text \<open>The card descriptor \<^verbatim>\<open>hw.card\<close>: the four fields the drivers write.\<close>

record CardInfo =
  BlockSize :: go_int
  Blocks :: go_int
  HS :: bool
  DDR :: bool

text \<open>
  Modelled from the spec: the arguments of the command primitive that are named constants
  of the absent file \<^verbatim>\<open>usdhc.go\<close> (data direction and response kind).
\<close>

datatype direction = WRITE | READ

datatype rsp_kind = RSP_NONE | RSP_136 | RSP_48 | RSP_48_CHECK_BUSY

text \<open>
  What the hardware answers to one call of a primitive (\<^verbatim>\<open>cmd\<close>, \<^verbatim>\<open>transfer\<close>,
  \<^verbatim>\<open>waitState\<close>): the error it returns (\<open>None\<close> is Go's \<^verbatim>\<open>nil\<close>), the response
  registers it latches, the nanoseconds the call takes on the monotonic clock, and the
  bytes a data transfer delivers.
\<close>

record reply =
  fault :: "nat option"
  response :: "128 word"
  elapsed :: nat
  payload :: "8 word list"

text \<open>Every call of a primitive is recorded, with its arguments and its result.\<close>

datatype event =
    Cmd nat direction uint32 rsp_kind bool bool bool nat "nat option"
  | Transfer nat direction nat nat uint32 "nat option"
  | WaitState uint32 nat "nat option"
  | SetClock int int
  | Sleep nat

text \<open>
  The receiver \<^verbatim>\<open>hw *USDHC\<close>: the fields the drivers use (\<^verbatim>\<open>n\<close>, \<^verbatim>\<open>width\<close>,
  \<^verbatim>\<open>rca\<close>, \<^verbatim>\<open>card\<close>) and the simulated controller behind the primitives: the latched
  response registers, the monotonic clock in nanoseconds, the answers the hardware will
  give to the calls to come (the head of the stream is the next one), and the calls made
  so far.
\<close>

record USDHC =
  hw_n :: go_int
  hw_width :: go_int
  hw_rca :: uint32
  hw_card :: CardInfo
  sim_rsp :: "128 word"
  sim_now :: nat
  sim_future :: "reply stream"
  sim_trace :: "event list"

text \<open>
  Errors a driver returns: an error of a primitive, passed on as it is, the drivers' own
  \<^verbatim>\<open>fmt.Errorf\<close> and \<^verbatim>\<open>errors.New\<close> values, and a run-time panic of Go.
\<close>

datatype error =
    Primitive nat
  | UnsupportedCSDVersion uint32
  | NotIdentState uint32
  | NotExpectingAppCmd
  | UnsupportedSDBusWidth
  | UnsupportedMMCBusWidth
  | UnexpectedTranSpeed uint32
  | RuntimePanic

text \<open>
  Modelled from the spec: the primitives of the absent file \<^verbatim>\<open>usdhc.go\<close>.
  \<^verbatim>\<open>cmd\<close> issues one command and returns the hardware's error; \<^verbatim>\<open>rsp i\<close> is word
  \<open>i\<close> of the latched response; \<^verbatim>\<open>rspVal\<close> is a bit field of the whole latched
  response; \<^verbatim>\<open>waitState\<close> polls for a card state within a timeout; \<^verbatim>\<open>setClock\<close>
  reprograms the clock; \<^verbatim>\<open>transfer\<close> is a command with a block transfer into a buffer:
  the bytes delivered overwrite the buffer from its start, and the buffer keeps its length.
\<close>

definition next_reply :: "USDHC \<Rightarrow> reply" where
  "next_reply hw = shd (sim_future hw)"

definition answered :: "event \<Rightarrow> USDHC \<Rightarrow> USDHC" where
  "answered ev hw =
     hw\<lparr>sim_rsp := response (next_reply hw),
        sim_now := sim_now hw + elapsed (next_reply hw),
        sim_future := stl (sim_future hw),
        sim_trace := sim_trace hw @ [ev]\<rparr>"

definition cmd ::
  "nat \<Rightarrow> direction \<Rightarrow> uint32 \<Rightarrow> rsp_kind \<Rightarrow> bool \<Rightarrow> bool \<Rightarrow> bool \<Rightarrow> nat \<Rightarrow> USDHC
     \<Rightarrow> nat option \<times> USDHC" where
  "cmd index dtd arg res cic ccc dma blocks hw =
     (fault (next_reply hw),
      answered (Cmd index dtd arg res cic ccc dma blocks (fault (next_reply hw))) hw)"

definition rsp :: "USDHC \<Rightarrow> nat \<Rightarrow> uint32" where
  "rsp hw i = ucast (drop_bit (32 * i) (sim_rsp hw))"

definition bit_field :: "128 word \<Rightarrow> int \<Rightarrow> uint32 \<Rightarrow> uint32" where
  "bit_field r pos msk = ucast (drop_bit (nat pos) r) AND msk"

definition rspVal :: "USDHC \<Rightarrow> int \<Rightarrow> uint32 \<Rightarrow> uint32" where
  "rspVal hw pos msk = bit_field (sim_rsp hw) pos msk"

definition waitState :: "uint32 \<Rightarrow> nat \<Rightarrow> USDHC \<Rightarrow> nat option \<times> USDHC" where
  "waitState state timeout hw =
     (fault (next_reply hw), answered (WaitState state timeout (fault (next_reply hw))) hw)"

definition setClock :: "int \<Rightarrow> int \<Rightarrow> USDHC \<Rightarrow> USDHC" where
  "setClock dvs sdclkfs hw = hw\<lparr>sim_trace := sim_trace hw @ [SetClock dvs sdclkfs]\<rparr>"

definition filled :: "8 word list \<Rightarrow> reply \<Rightarrow> 8 word list" where
  "filled buf r = take (length buf) (payload r @ drop (length (payload r)) buf)"

definition transfer ::
  "nat \<Rightarrow> direction \<Rightarrow> nat \<Rightarrow> nat \<Rightarrow> uint32 \<Rightarrow> 8 word list \<Rightarrow> USDHC
     \<Rightarrow> (nat option \<times> 8 word list) \<times> USDHC" where
  "transfer index dtd offset blocks blockSize buf hw =
     ((fault (next_reply hw), filled buf (next_reply hw)),
      answered (Transfer index dtd offset blocks blockSize (fault (next_reply hw))) hw)"

text \<open>\<^verbatim>\<open>time.Sleep\<close> advances the clock.\<close>

definition sleep :: "nat \<Rightarrow> USDHC \<Rightarrow> USDHC" where
  "sleep d hw = hw\<lparr>sim_now := sim_now hw + d, sim_trace := sim_trace hw @ [Sleep d]\<rparr>"

text \<open>
  Modelled from the spec: constants of the absent file \<^verbatim>\<open>usdhc.go\<close> that the spec
  fixes.  The bias of a long response is the stripped 8-bit prefix; the relative card
  address is the high 16 bits of a command argument.
\<close>

definition CSD_RSP_OFF :: int where "CSD_RSP_OFF = - 8"
definition RCA_ADDR :: nat where "RCA_ADDR = 16"

text \<open>
  The other constants of \<^verbatim>\<open>usdhc.go\<close> are parameters: the position of the current-state
  field and of the application-command bit in the card status, the codes of the states,
  and the clock divisors.
\<close>

record usdhc_consts =
  STATUS_CURRENT_STATE :: nat
  STATUS_APP_CMD :: nat
  CURRENT_STATE_IDENT :: uint32
  CURRENT_STATE_TRAN :: uint32
  DVS_OP :: int
  SDCLKFS_OP :: int
  DVS_HS :: int
  SDCLKFS_HS_SDR :: int
  SDCLKFS_HS_DDR :: int

section \<open>SD: constants of sd.go\<close>

definition CMD8_ARG_VHS :: nat where "CMD8_ARG_VHS = 8"
definition CMD8_ARG_CHECK_PATTERN :: nat where "CMD8_ARG_CHECK_PATTERN = 0"
definition VHS_HIGH :: uint32 where "VHS_HIGH = 0b0001"
definition VHS_LOW :: uint32 where "VHS_LOW = 0b0010"
definition CHECK_PATTERN :: uint32 where "CHECK_PATTERN = 0b10101010"

definition SD_OCR_BUSY :: nat where "SD_OCR_BUSY = 31"
definition SD_OCR_HCS :: nat where "SD_OCR_HCS = 30"
definition SD_OCR_XPC :: nat where "SD_OCR_XPC = 28"
definition SD_OCR_VDD_HV_MIN :: nat where "SD_OCR_VDD_HV_MIN = 15"
definition SD_OCR_VDD_LV :: nat where "SD_OCR_VDD_LV = 7"

definition SD_SWITCH_MODE :: nat where "SD_SWITCH_MODE = 0"
definition SD_SWITCH_ACCESS_MODE :: nat where "SD_SWITCH_ACCESS_MODE = 0"
definition MODE_SWITCH :: uint32 where "MODE_SWITCH = 1"
definition ACCESS_MODE_HS :: uint32 where "ACCESS_MODE_HS = 0x1"

definition SD_CSD_STRUCTURE :: int where "SD_CSD_STRUCTURE = 126 + CSD_RSP_OFF"
definition SD_CSD_C_SIZE_MULT_1 :: int where "SD_CSD_C_SIZE_MULT_1 = 47 + CSD_RSP_OFF"
definition SD_CSD_C_SIZE_1 :: int where "SD_CSD_C_SIZE_1 = 62 + CSD_RSP_OFF"
definition SD_CSD_READ_BL_LEN_1 :: int where "SD_CSD_READ_BL_LEN_1 = 80 + CSD_RSP_OFF"
definition SD_CSD_C_SIZE_2 :: int where "SD_CSD_C_SIZE_2 = 48 + CSD_RSP_OFF"
definition SD_CSD_READ_BL_LEN_2 :: int where "SD_CSD_READ_BL_LEN_2 = 80 + CSD_RSP_OFF"

text \<open>Durations are nanoseconds, as \<^verbatim>\<open>time.Duration\<close> is.\<close>

definition Millisecond :: nat where "Millisecond = 1000000"
definition Second :: nat where "Second = 1000000000"

definition SD_DETECT_TIMEOUT :: nat where "SD_DETECT_TIMEOUT = 1 * Second"
definition SD_DEFAULT_BLOCK_SIZE :: uint32 where "SD_DEFAULT_BLOCK_SIZE = 512"

section \<open>SD: capacity\<close>

text \<open>
  \<^verbatim>\<open>detectCapacitySD\<close>.  In \<^verbatim>\<open>2 << (read_bl_len - 1)\<close> the constant takes the type of
  \<^verbatim>\<open>hw.card.BlockSize\<close> (\<^verbatim>\<open>int\<close>) and the count is an \<^verbatim>\<open>uint32\<close>, whose subtraction
  wraps.  In version 0 the product is computed in \<^verbatim>\<open>uint32\<close> and converted; in versions
  1 and 2 the sum is converted and the product computed in \<^verbatim>\<open>int\<close>.
\<close>

definition detectCapacitySD :: "uint32 \<Rightarrow> USDHC \<Rightarrow> error option \<times> USDHC" where
  "detectCapacitySD blockSize hw0 =
     (case cmd 9 READ (hw_rca hw0) RSP_136 False True False 0 hw0 of
        (Some e, hw) \<Rightarrow> (Some (Primitive e), hw)
      | (None, hw) \<Rightarrow>
          (let ver = rspVal hw SD_CSD_STRUCTURE 0b11 in
           if ver = 0 then
             (let c_size_mult = rspVal hw SD_CSD_C_SIZE_MULT_1 0b111;
                  c_size = rspVal hw SD_CSD_C_SIZE_1 0xfff;
                  read_bl_len = rspVal hw SD_CSD_READ_BL_LEN_1 0xf
              in (None, hw\<lparr>hw_card := (hw_card hw)
                    \<lparr>BlockSize := push_bit (unat (read_bl_len - 1)) 2,
                     Blocks := (c_size + 1) * push_bit (unat (c_size_mult + 2)) 2\<rparr>\<rparr>))
           else if ver = 1 then
             (let c_size = rspVal hw SD_CSD_C_SIZE_2 0x3fffff;
                  read_bl_len = rspVal hw SD_CSD_READ_BL_LEN_2 0xf
              in (None, hw\<lparr>hw_card := (hw_card hw)
                    \<lparr>BlockSize := push_bit (unat (read_bl_len - 1)) 2,
                     Blocks := (c_size + 1) * 1024\<rparr>\<rparr>))
           else if ver = 2 then
             (let c_size = rspVal hw SD_CSD_C_SIZE_2 0xfffffff;
                  read_bl_len = rspVal hw SD_CSD_READ_BL_LEN_2 0xf
              in (None, hw\<lparr>hw_card := (hw_card hw)
                    \<lparr>BlockSize := push_bit (unat (read_bl_len - 1)) 2,
                     Blocks := (c_size + 1) * 1024\<rparr>\<rparr>))
           else (Some (UnsupportedCSDVersion ver), hw)))"

section \<open>SD: voltage validation\<close>

text \<open>
  \<^verbatim>\<open>voltageValidationSD\<close>, first part: the two CMD8 probes, which set \<open>hc\<close> and
  \<open>hv\<close>.  The result is \<open>((hc, hv), hw)\<close>.
\<close>

definition probeSD :: "USDHC \<Rightarrow> (bool \<times> bool) \<times> USDHC" where
  "probeSD hw0 =
     (let arg = SetN (SetN 0 CMD8_ARG_VHS 0b1111 VHS_HIGH)
                  CMD8_ARG_CHECK_PATTERN 0xff CHECK_PATTERN
      in case cmd 8 READ arg RSP_48 True True False 0 hw0 of (e1, hw1) \<Rightarrow>
           if e1 = None \<and> rsp hw1 0 = arg then ((True, True), hw1)
           else
             (let arg2 = push_bit CMD8_ARG_VHS VHS_LOW OR CHECK_PATTERN
              in case cmd 8 READ arg2 RSP_48 True True False 0 hw1 of (e2, hw2) \<Rightarrow>
                   if e2 = None \<and> rsp hw2 0 = arg2 then ((True, False), hw2)
                   else ((False, True), hw2)))"

text \<open>Second part: the argument of ACMD41, built from \<open>hc\<close> and \<open>hv\<close>.\<close>

definition ocrSD :: "bool \<Rightarrow> bool \<Rightarrow> uint32" where
  "ocrSD hc hv =
     (let arg = 0;
          arg = (if hc then Set_bit (Set_bit arg SD_OCR_HCS) SD_OCR_XPC else arg)
      in if hv then SetN arg SD_OCR_VDD_HV_MIN 0x1ff 0x1ff else Set_bit arg SD_OCR_VDD_LV)"

text \<open>
  Third part: the loop \<^verbatim>\<open>for time.Since(start) <= SD_DETECT_TIMEOUT\<close>.  Nothing in the
  loop bounds the number of rounds but the clock, so the loop is a partial function:
  \<open>None\<close> is a run that never returns.
\<close>

partial_function (option) pollSD ::
  "uint32 \<Rightarrow> bool \<Rightarrow> nat \<Rightarrow> USDHC \<Rightarrow> ((bool \<times> bool) \<times> USDHC) option" where
  "pollSD arg hc start hw =
     (if sim_now hw - start \<le> SD_DETECT_TIMEOUT then
        (case cmd 55 READ 0 RSP_48 True True False 0 hw of
           (Some e, hw1) \<Rightarrow> Some ((False, False), hw1)
         | (None, hw1) \<Rightarrow>
             (case cmd 41 READ arg RSP_48 False False False 0 hw1 of
                (Some e, hw2) \<Rightarrow> Some ((False, False), hw2)
              | (None, hw2) \<Rightarrow>
                  if Get (rsp hw2 0) SD_OCR_BUSY 1 = 0 then pollSD arg hc start hw2
                  else Some ((True, (if Get (rsp hw2 0) SD_OCR_HCS 1 = 1 then True else hc)),
                             hw2)))
      else Some ((False, False), hw))"

definition voltageValidationSD :: "USDHC \<Rightarrow> ((bool \<times> bool) \<times> USDHC) option" where
  "voltageValidationSD hw0 =
     (case probeSD hw0 of ((hc, hv), hw) \<Rightarrow> pollSD (ocrSD hc hv) hc (sim_now hw) hw)"

section \<open>SD: initialization\<close>

text \<open>\<^verbatim>\<open>initSD\<close>; \<open>K\<close> holds the constants of \<^verbatim>\<open>usdhc.go\<close>.\<close>

definition initSD :: "usdhc_consts \<Rightarrow> USDHC \<Rightarrow> error option \<times> USDHC" where
  "initSD K hw0 =
     (case cmd 2 READ 0 RSP_136 False True False 0 hw0 of
        (Some e, hw) \<Rightarrow> (Some (Primitive e), hw)
      | (None, hw) \<Rightarrow>
     (case cmd 3 READ 0 RSP_48 True True False 0 hw of
        (Some e, hw) \<Rightarrow> (Some (Primitive e), hw)
      | (None, hw) \<Rightarrow>
     (let state = drop_bit (STATUS_CURRENT_STATE K) (rsp hw 0) AND 0b1111 in
      if state \<noteq> CURRENT_STATE_IDENT K then (Some (NotIdentState state), hw)
      else
     (let hw = setClock 0 0 hw;
          hw = setClock (DVS_OP K) (SDCLKFS_OP K) hw;
          hw = hw\<lparr>hw_rca := rsp hw 0 AND push_bit RCA_ADDR 0xffff\<rparr>
      in
     (case detectCapacitySD SD_DEFAULT_BLOCK_SIZE hw of
        (Some e, hw) \<Rightarrow> (Some e, hw)
      | (None, hw) \<Rightarrow>
     (case cmd 7 READ (hw_rca hw) RSP_48_CHECK_BUSY True True False 0 hw of
        (Some e, hw) \<Rightarrow> (Some (Primitive e), hw)
      | (None, hw) \<Rightarrow>
     (case waitState (CURRENT_STATE_TRAN K) (1 * Millisecond) hw of
        (Some e, hw) \<Rightarrow> (Some (Primitive e), hw)
      | (None, hw) \<Rightarrow>
     (case cmd 55 READ (hw_rca hw) RSP_48 True True False 0 hw of
        (Some e, hw) \<Rightarrow> (Some (Primitive e), hw)
      | (None, hw) \<Rightarrow>
      if drop_bit (STATUS_APP_CMD K) (rsp hw 0) AND 1 \<noteq> 1
      then (Some NotExpectingAppCmd, hw)
      else if hw_width hw \<noteq> 1 \<and> hw_width hw \<noteq> 4
      then (Some UnsupportedSDBusWidth, hw)
      else
     (let bus_width = (if hw_width hw = 1 then 0b00 else 0b10) in
     (case cmd 6 READ bus_width RSP_48 True True False 0 hw of
        (Some e, hw) \<Rightarrow> (Some (Primitive e), hw)
      | (None, hw) \<Rightarrow>
     (let arg = 0xffffffff;
          arg = SetN arg SD_SWITCH_MODE 1 MODE_SWITCH;
          arg = SetN arg SD_SWITCH_ACCESS_MODE 0b1111 ACCESS_MODE_HS
      in
     (case cmd 6 READ arg RSP_48 True True False 0 hw of
        (Some e, hw) \<Rightarrow> (Some (Primitive e), hw)
      | (None, hw) \<Rightarrow>
     (case waitState (CURRENT_STATE_TRAN K) (500 * Millisecond) hw of
        (err, hw) \<Rightarrow>
     (let hw = setClock 0 0 hw;
          hw = setClock (DVS_HS K) (SDCLKFS_HS_SDR K) hw;
          hw = hw\<lparr>hw_card := (hw_card hw)\<lparr>HS := True\<rparr>\<rparr>
      in (map_option Primitive err, hw)))))))))))))))"

section \<open>SD: the parts of initSD\<close>

text \<open>
  The body of \<^verbatim>\<open>initSD\<close> in consecutive parts, for the proofs: the high-speed switch
  (CMD6 to the end), the bus width (the \<^verbatim>\<open>switch\<close> on \<^verbatim>\<open>hw.width\<close> and ACMD6), and the
  selection (CMD7, the wait for the transfer state, CMD55 and its check).
\<close>

definition sd_switch :: "usdhc_consts \<Rightarrow> USDHC \<Rightarrow> error option \<times> USDHC" where
  "sd_switch K hw =
     (let arg = 0xffffffff;
          arg = SetN arg SD_SWITCH_MODE 1 MODE_SWITCH;
          arg = SetN arg SD_SWITCH_ACCESS_MODE 0b1111 ACCESS_MODE_HS
      in
     (case cmd 6 READ arg RSP_48 True True False 0 hw of
        (Some e, hw) \<Rightarrow> (Some (Primitive e), hw)
      | (None, hw) \<Rightarrow>
     (case waitState (CURRENT_STATE_TRAN K) (500 * Millisecond) hw of
        (err, hw) \<Rightarrow>
     (let hw = setClock 0 0 hw;
          hw = setClock (DVS_HS K) (SDCLKFS_HS_SDR K) hw;
          hw = hw\<lparr>hw_card := (hw_card hw)\<lparr>HS := True\<rparr>\<rparr>
      in (map_option Primitive err, hw)))))"

definition sd_width :: "usdhc_consts \<Rightarrow> USDHC \<Rightarrow> error option \<times> USDHC" where
  "sd_width K hw =
     (if hw_width hw \<noteq> 1 \<and> hw_width hw \<noteq> 4
      then (Some UnsupportedSDBusWidth, hw)
      else
     (let bus_width = (if hw_width hw = 1 then 0b00 else 0b10) in
     (case cmd 6 READ bus_width RSP_48 True True False 0 hw of
        (Some e, hw) \<Rightarrow> (Some (Primitive e), hw)
      | (None, hw) \<Rightarrow> sd_switch K hw)))"

definition sd_select :: "usdhc_consts \<Rightarrow> USDHC \<Rightarrow> error option \<times> USDHC" where
  "sd_select K hw =
     (case cmd 7 READ (hw_rca hw) RSP_48_CHECK_BUSY True True False 0 hw of
        (Some e, hw) \<Rightarrow> (Some (Primitive e), hw)
      | (None, hw) \<Rightarrow>
     (case waitState (CURRENT_STATE_TRAN K) (1 * Millisecond) hw of
        (Some e, hw) \<Rightarrow> (Some (Primitive e), hw)
      | (None, hw) \<Rightarrow>
     (case cmd 55 READ (hw_rca hw) RSP_48 True True False 0 hw of
        (Some e, hw) \<Rightarrow> (Some (Primitive e), hw)
      | (None, hw) \<Rightarrow>
      if drop_bit (STATUS_APP_CMD K) (rsp hw 0) AND 1 \<noteq> 1
      then (Some NotExpectingAppCmd, hw)
      else sd_width K hw)))"

section \<open>MMC: constants of mmc.go\<close>

definition MMC_OCR_BUSY :: nat where "MMC_OCR_BUSY = 31"
definition MMC_OCR_ACCESS_MODE :: nat where "MMC_OCR_ACCESS_MODE = 29"
definition MMC_OCR_VDD_HV_MIN :: nat where "MMC_OCR_VDD_HV_MIN = 15"
definition ACCESS_MODE_SECTOR :: uint32 where "ACCESS_MODE_SECTOR = 0b10"

definition MMC_SWITCH_ACCESS :: nat where "MMC_SWITCH_ACCESS = 24"
definition MMC_SWITCH_INDEX :: nat where "MMC_SWITCH_INDEX = 16"
definition MMC_SWITCH_VALUE :: nat where "MMC_SWITCH_VALUE = 8"
definition ACCESS_WRITE_BYTE :: uint32 where "ACCESS_WRITE_BYTE = 0b11"

definition MMC_CSD_C_SIZE_MULT :: int where "MMC_CSD_C_SIZE_MULT = 47 + CSD_RSP_OFF"
definition MMC_CSD_C_SIZE :: int where "MMC_CSD_C_SIZE = 62 + CSD_RSP_OFF"
definition MMC_CSD_READ_BL_LEN :: int where "MMC_CSD_READ_BL_LEN = 80 + CSD_RSP_OFF"
definition MMC_CSD_TRAN_SPEED :: int where "MMC_CSD_TRAN_SPEED = 96 + CSD_RSP_OFF"
definition MMC_CSD_SPEC_VERS :: int where "MMC_CSD_SPEC_VERS = 122 + CSD_RSP_OFF"

definition TRAN_SPEED_26MHZ :: uint32 where "TRAN_SPEED_26MHZ = 0x32"

definition EXT_CSD_BUS_WIDTH :: nat where "EXT_CSD_BUS_WIDTH = 183"
definition EXT_CSD_HS_TIMING :: nat where "EXT_CSD_HS_TIMING = 185"
definition EXT_CSD_SEC_COUNT :: nat where "EXT_CSD_SEC_COUNT = 212"

definition HS_TIMING_HS :: uint32 where "HS_TIMING_HS = 0x1"

definition MMC_DETECT_TIMEOUT :: nat where "MMC_DETECT_TIMEOUT = 1 * Second"
definition MMC_DEFAULT_BLOCK_SIZE :: go_int where "MMC_DEFAULT_BLOCK_SIZE = 512"

section \<open>MMC: voltage validation\<close>

text \<open>The loop of \<^verbatim>\<open>voltageValidationMMC\<close>; \<open>hc\<close> starts as \<^verbatim>\<open>false\<close>.\<close>

partial_function (option) pollMMC ::
  "uint32 \<Rightarrow> nat \<Rightarrow> USDHC \<Rightarrow> ((bool \<times> bool) \<times> USDHC) option" where
  "pollMMC arg start hw =
     (if sim_now hw - start \<le> MMC_DETECT_TIMEOUT then
        (case cmd 1 READ arg RSP_48 False False False 0 hw of
           (Some e, hw1) \<Rightarrow> Some ((False, False), hw1)
         | (None, hw1) \<Rightarrow>
             if Get (rsp hw1 0) MMC_OCR_BUSY 1 = 0 then pollMMC arg start hw1
             else Some ((True,
                         (if Get (rsp hw1 0) MMC_OCR_ACCESS_MODE 0b11 = ACCESS_MODE_SECTOR
                          then True else False)),
                        hw1))
      else Some ((False, False), hw))"

definition voltageValidationMMC :: "USDHC \<Rightarrow> ((bool \<times> bool) \<times> USDHC) option" where
  "voltageValidationMMC hw0 =
     (let arg = SetN 0 MMC_OCR_ACCESS_MODE 0b11 ACCESS_MODE_SECTOR;
          arg = SetN arg MMC_OCR_VDD_HV_MIN 0x1ff 0x1ff;
          hw = sleep (1 * Millisecond) hw0
      in pollMMC arg (sim_now hw) hw)"

section \<open>MMC: card registers and capacity\<close>

definition writeCardRegisterMMC ::
  "usdhc_consts \<Rightarrow> uint32 \<Rightarrow> uint32 \<Rightarrow> USDHC \<Rightarrow> error option \<times> USDHC" where
  "writeCardRegisterMMC K reg val hw0 =
     (let arg = SetN 0 MMC_SWITCH_ACCESS 0b11 ACCESS_WRITE_BYTE;
          arg = SetN arg MMC_SWITCH_INDEX 0xff reg;
          arg = SetN arg MMC_SWITCH_VALUE 0xff val
      in case cmd 6 READ arg RSP_48 True True False 0 hw0 of
           (Some e, hw) \<Rightarrow> (Some (Primitive e), hw)
         | (None, hw) \<Rightarrow>
             (case waitState (CURRENT_STATE_TRAN K) (500 * Millisecond) hw of
                (err, hw) \<Rightarrow> (map_option Primitive err, hw)))"

text \<open>\<^verbatim>\<open>binary.LittleEndian.Uint32\<close> on a slice of at least four bytes.\<close>

definition LittleEndian_Uint32 :: "8 word list \<Rightarrow> uint32" where
  "LittleEndian_Uint32 b =
     ucast (b ! 0) OR push_bit 8 (ucast (b ! 1)) OR push_bit 16 (ucast (b ! 2))
       OR push_bit 24 (ucast (b ! 3))"

text \<open>
  \<^verbatim>\<open>detectCapacityMMC\<close>.  Go panics in \<^verbatim>\<open>make\<close> on a negative length, in the slice
  \<^verbatim>\<open>extCSD[EXT_CSD_SEC_COUNT:]\<close> when the buffer is shorter than the offset, and in
  \<^verbatim>\<open>Uint32\<close> when fewer than four bytes are left.
\<close>

definition detectCapacityMMC ::
  "go_int \<Rightarrow> uint32 \<Rightarrow> uint32 \<Rightarrow> uint32 \<Rightarrow> USDHC \<Rightarrow> error option \<times> USDHC" where
  "detectCapacityMMC blockSize c_size_mult c_size read_bl_len hw0 =
     (if c_size > 0xff then
        (let hw = hw0\<lparr>hw_card := (hw_card hw0)\<lparr>BlockSize := blockSize\<rparr>\<rparr> in
         if sint blockSize < 0 then (Some RuntimePanic, hw)
         else
           (case transfer 8 READ 0 1 blockSize (replicate (unat blockSize) 0) hw of
              ((Some e, extCSD), hw) \<Rightarrow> (Some (Primitive e), hw)
            | ((None, extCSD), hw) \<Rightarrow>
                if length extCSD < EXT_CSD_SEC_COUNT + 4 then (Some RuntimePanic, hw)
                else (None, hw\<lparr>hw_card := (hw_card hw)
                        \<lparr>Blocks := LittleEndian_Uint32 (drop EXT_CSD_SEC_COUNT extCSD)\<rparr>\<rparr>)))
      else
        (None, hw0\<lparr>hw_card := (hw_card hw0)
           \<lparr>BlockSize := push_bit (unat (read_bl_len - 1)) 2,
            Blocks := (c_size + 1) * push_bit (unat (c_size_mult + 2)) 2\<rparr>\<rparr>))"

section \<open>MMC: initialization\<close>

definition initMMC :: "usdhc_consts \<Rightarrow> USDHC \<Rightarrow> error option \<times> USDHC" where
  "initMMC K hw0 =
     (case cmd 2 READ 0 RSP_136 False True False 0 hw0 of
        (Some e, hw) \<Rightarrow> (Some (Primitive e), hw)
      | (None, hw) \<Rightarrow>
     (let hw = hw\<lparr>hw_rca := push_bit RCA_ADDR (hw_n hw + 1)\<rparr> in
     (case cmd 3 READ (hw_rca hw) RSP_48 True True False 0 hw of
        (Some e, hw) \<Rightarrow> (Some (Primitive e), hw)
      | (None, hw) \<Rightarrow>
     (let state = drop_bit (STATUS_CURRENT_STATE K) (rsp hw 0) AND 0b1111 in
      if state \<noteq> CURRENT_STATE_IDENT K then (Some (NotIdentState state), hw)
      else
     (case cmd 9 READ (hw_rca hw) RSP_136 False True False 0 hw of
        (Some e, hw) \<Rightarrow> (Some (Primitive e), hw)
      | (None, hw) \<Rightarrow>
     (let c_size_mult = rspVal hw MMC_CSD_C_SIZE_MULT 0b111;
          c_size = rspVal hw MMC_CSD_C_SIZE 0xfff;
          read_bl_len = rspVal hw MMC_CSD_READ_BL_LEN 0xf;
          mhz = rspVal hw MMC_CSD_TRAN_SPEED 0xff;
          ver = rspVal hw MMC_CSD_SPEC_VERS 0xf
      in
      if mhz \<noteq> TRAN_SPEED_26MHZ then (Some (UnexpectedTranSpeed mhz), hw)
      else
     (let hw = setClock 0 0 hw;
          hw = setClock (DVS_OP K) (SDCLKFS_OP K) hw
      in
     (case cmd 7 READ (hw_rca hw) RSP_48_CHECK_BUSY True True False 0 hw of
        (Some e, hw) \<Rightarrow> (Some (Primitive e), hw)
      | (None, hw) \<Rightarrow>
     (case waitState (CURRENT_STATE_TRAN K) (1 * Millisecond) hw of
        (Some e, hw) \<Rightarrow> (Some (Primitive e), hw)
      | (None, hw) \<Rightarrow>
      if hw_width hw \<noteq> 4 \<and> hw_width hw \<noteq> 8
      then (Some UnsupportedMMCBusWidth, hw)
      else
     (let bus_width = (if hw_width hw = 4 then 1 else 2) in
     (case writeCardRegisterMMC K (of_nat EXT_CSD_BUS_WIDTH) bus_width hw of
        (Some e, hw) \<Rightarrow> (Some e, hw)
      | (None, hw) \<Rightarrow>
     (case detectCapacityMMC MMC_DEFAULT_BLOCK_SIZE c_size_mult c_size read_bl_len hw of
        (Some e, hw) \<Rightarrow> (Some e, hw)
      | (None, hw) \<Rightarrow>
      if ver < 4 then (None, hw)
      else
     (case writeCardRegisterMMC K (of_nat EXT_CSD_HS_TIMING) HS_TIMING_HS hw of
        (Some e, hw) \<Rightarrow> (Some e, hw)
      | (None, hw) \<Rightarrow>
     (let bus_width = (if hw_width hw = 4 then 5 else if hw_width hw = 8 then 6 else bus_width) in
     (case writeCardRegisterMMC K (of_nat EXT_CSD_BUS_WIDTH) bus_width hw of
        (Some e, hw) \<Rightarrow> (Some e, hw)
      | (None, hw) \<Rightarrow>
     (let hw = setClock 0 0 hw;
          hw = setClock (DVS_HS K) (SDCLKFS_HS_DDR K) hw;
          hw = hw\<lparr>hw_card := (hw_card hw)\<lparr>DDR := True\<rparr>\<rparr>;
          hw = hw\<lparr>hw_card := (hw_card hw)\<lparr>HS := True\<rparr>\<rparr>
      in (None, hw)))))))))))))))))"

section \<open>MMC: the parts of initMMC\<close>

text \<open>
  The body of \<^verbatim>\<open>initMMC\<close> in consecutive parts, for the proofs: the high-speed and DDR
  stage (after the version check), the bus width with the capacity decode and the version
  check, and the clock with the selection (CMD7 and the wait for the transfer state).
\<close>

definition mmc_ddr :: "usdhc_consts \<Rightarrow> uint32 \<Rightarrow> USDHC \<Rightarrow> error option \<times> USDHC" where
  "mmc_ddr K bus_width hw =
     (case writeCardRegisterMMC K (of_nat EXT_CSD_HS_TIMING) HS_TIMING_HS hw of
        (Some e, hw) \<Rightarrow> (Some e, hw)
      | (None, hw) \<Rightarrow>
     (let bus_width = (if hw_width hw = 4 then 5 else if hw_width hw = 8 then 6 else bus_width) in
     (case writeCardRegisterMMC K (of_nat EXT_CSD_BUS_WIDTH) bus_width hw of
        (Some e, hw) \<Rightarrow> (Some e, hw)
      | (None, hw) \<Rightarrow>
     (let hw = setClock 0 0 hw;
          hw = setClock (DVS_HS K) (SDCLKFS_HS_DDR K) hw;
          hw = hw\<lparr>hw_card := (hw_card hw)\<lparr>DDR := True\<rparr>\<rparr>;
          hw = hw\<lparr>hw_card := (hw_card hw)\<lparr>HS := True\<rparr>\<rparr>
      in (None, hw)))))"

definition mmc_width ::
  "usdhc_consts \<Rightarrow> uint32 \<Rightarrow> uint32 \<Rightarrow> uint32 \<Rightarrow> uint32 \<Rightarrow> USDHC \<Rightarrow> error option \<times> USDHC" where
  "mmc_width K c_size_mult c_size read_bl_len ver hw =
     (if hw_width hw \<noteq> 4 \<and> hw_width hw \<noteq> 8
      then (Some UnsupportedMMCBusWidth, hw)
      else
     (let bus_width = (if hw_width hw = 4 then 1 else 2) in
     (case writeCardRegisterMMC K (of_nat EXT_CSD_BUS_WIDTH) bus_width hw of
        (Some e, hw) \<Rightarrow> (Some e, hw)
      | (None, hw) \<Rightarrow>
     (case detectCapacityMMC MMC_DEFAULT_BLOCK_SIZE c_size_mult c_size read_bl_len hw of
        (Some e, hw) \<Rightarrow> (Some e, hw)
      | (None, hw) \<Rightarrow>
      if ver < 4 then (None, hw)
      else mmc_ddr K bus_width hw))))"

definition mmc_select ::
  "usdhc_consts \<Rightarrow> uint32 \<Rightarrow> uint32 \<Rightarrow> uint32 \<Rightarrow> uint32 \<Rightarrow> USDHC \<Rightarrow> error option \<times> USDHC" where
  "mmc_select K c_size_mult c_size read_bl_len ver hw =
     (let hw = setClock 0 0 hw;
          hw = setClock (DVS_OP K) (SDCLKFS_OP K) hw
      in
     (case cmd 7 READ (hw_rca hw) RSP_48_CHECK_BUSY True True False 0 hw of
        (Some e, hw) \<Rightarrow> (Some (Primitive e), hw)
      | (None, hw) \<Rightarrow>
     (case waitState (CURRENT_STATE_TRAN K) (1 * Millisecond) hw of
        (Some e, hw) \<Rightarrow> (Some (Primitive e), hw)
      | (None, hw) \<Rightarrow> mmc_width K c_size_mult c_size read_bl_len ver hw)))"

section \<open>Formulas and sample hardware\<close>

text \<open>The calls a driver made: the trace after the run without the trace before it.\<close>

definition issued :: "USDHC \<Rightarrow> USDHC \<Rightarrow> event list" where
  "issued hw0 hw = drop (length (sim_trace hw0)) (sim_trace hw)"

text \<open>
  The block count \<^verbatim>\<open>detectCapacitySD\<close> computes from a CSD, over the natural numbers:
  \<open>(c_size + 1) * 2 ^ (c_size_mult + 3)\<close> for structure version 0 and
  \<open>(c_size + 1) * 1024\<close> for versions 1 (22-bit size) and 2 (28-bit size).
\<close>

definition csd_block_count :: "128 word \<Rightarrow> nat" where
  "csd_block_count csd =
     (if bit_field csd SD_CSD_STRUCTURE 0b11 = 0 then
        (unat (bit_field csd SD_CSD_C_SIZE_1 0xfff) + 1)
          * 2 ^ (unat (bit_field csd SD_CSD_C_SIZE_MULT_1 0b111) + 3)
      else if bit_field csd SD_CSD_STRUCTURE 0b11 = 1 then
        (unat (bit_field csd SD_CSD_C_SIZE_2 0x3fffff) + 1) * 1024
      else (unat (bit_field csd SD_CSD_C_SIZE_2 0xfffffff) + 1) * 1024)"


definition claimed_block_count_v0 :: "nat \<Rightarrow> nat \<Rightarrow> int" where
  "claimed_block_count_v0 c_size c_size_mult = (int c_size + 1) * 2 ^ (c_size_mult + 2)"

text \<open>
  A controller that has made no call yet, with an empty descriptor; an answer without an
  error; the answer of hardware that does not respond; hardware that gives the listed
  answers and then stops responding.
\<close>

definition controller :: "go_int \<Rightarrow> go_int \<Rightarrow> reply stream \<Rightarrow> USDHC" where
  "controller n w f =
     \<lparr>hw_n = n, hw_width = w, hw_rca = 0,
      hw_card = \<lparr>BlockSize = 0, Blocks = 0, HS = False, DDR = False\<rparr>,
      sim_rsp = 0, sim_now = 0, sim_future = f, sim_trace = []\<rparr>"

definition ok_reply :: "128 word \<Rightarrow> reply" where
  "ok_reply r = \<lparr>fault = None, response = r, elapsed = 1000, payload = []\<rparr>"

definition no_reply :: reply where
  "no_reply = \<lparr>fault = Some 0, response = 0, elapsed = 1000, payload = []\<rparr>"

definition script :: "reply list \<Rightarrow> reply stream" where
  "script rs = rs @- sconst no_reply"

text \<open>
  An SD card with a version-0 CSD: \<open>READ_BL_LEN = 9\<close>, \<open>C_SIZE = 3751\<close>,
  \<open>C_SIZE_MULT = 7\<close>.
\<close>

definition sd_csd_v0 :: "128 word" where
  "sd_csd_v0 = push_bit 72 9 + push_bit 54 3751 + push_bit 39 7"

definition sd_v0_card :: USDHC where
  "sd_v0_card = controller 0 4 (script [ok_reply sd_csd_v0])"





text \<open>
  The block size of the legacy eMMC path as the specification words it,
  \<open>2 ^ (read_bl_len - 1) * 2\<close>, a rational number: 1 for \<open>read_bl_len = 0\<close>.
\<close>

definition claimed_mmc_block_size :: "nat \<Rightarrow> rat" where
  "claimed_mmc_block_size read_bl_len = 2 powi (int read_bl_len - 1) * 2"

text \<open>
  An answer to the Extended CSD read, and two eMMC devices: one whose Extended CSD is all
  zero, one whose \<open>SEC_COUNT\<close> bytes are \<open>00 00 75 00\<close>.
\<close>

definition ext_csd_reply :: "8 word list \<Rightarrow> reply" where
  "ext_csd_reply bytes = \<lparr>fault = None, response = 0, elapsed = 1000, payload = bytes\<rparr>"

definition emmc_zero_sectors :: USDHC where
  "emmc_zero_sectors = controller 0 8 (script [ext_csd_reply (replicate 512 0)])"

definition emmc_4gb :: USDHC where
  "emmc_4gb = controller 0 8 (script [ext_csd_reply (replicate 212 0 @ [0x00, 0x00, 0x75, 0x00])])"

text \<open>
  For the polling loops.  Word 0 of the response an answer latches; the answers of a list
  of CMD55/ACMD41 rounds, in the order the hardware gives them; the time a list of answers
  takes; a round (SD) or an answer (eMMC) without error whose busy bit is clear, and one
  whose busy bit is set; the calls of \<open>n\<close> rounds without error.
\<close>

definition ocr_word :: "reply \<Rightarrow> uint32" where
  "ocr_word r = ucast (response r)"

definition rounds :: "(reply \<times> reply) list \<Rightarrow> reply list" where
  "rounds ps = concat (map (\<lambda>p. [fst p, snd p]) ps)"

definition duration :: "reply list \<Rightarrow> nat" where
  "duration rs = sum_list (map elapsed rs)"

definition sd_busy_round :: "reply \<times> reply \<Rightarrow> bool" where
  "sd_busy_round p \<longleftrightarrow>
     fault (fst p) = None \<and> fault (snd p) = None \<and> Get (ocr_word (snd p)) SD_OCR_BUSY 1 = 0"

definition sd_ready_round :: "reply \<times> reply \<Rightarrow> bool" where
  "sd_ready_round p \<longleftrightarrow>
     fault (fst p) = None \<and> fault (snd p) = None \<and> Get (ocr_word (snd p)) SD_OCR_BUSY 1 = 1"

definition mmc_busy_reply :: "reply \<Rightarrow> bool" where
  "mmc_busy_reply r \<longleftrightarrow> fault r = None \<and> Get (ocr_word r) MMC_OCR_BUSY 1 = 0"

definition mmc_ready_reply :: "reply \<Rightarrow> bool" where
  "mmc_ready_reply r \<longleftrightarrow> fault r = None \<and> Get (ocr_word r) MMC_OCR_BUSY 1 = 1"

definition sd_polls :: "uint32 \<Rightarrow> nat \<Rightarrow> event list" where
  "sd_polls arg n =
     concat (replicate n [Cmd 55 READ 0 RSP_48 True True False 0 None,
                          Cmd 41 READ arg RSP_48 False False False 0 None])"

definition mmc_polls :: "uint32 \<Rightarrow> nat \<Rightarrow> event list" where
  "mmc_polls arg n = replicate n (Cmd 1 READ arg RSP_48 False False False 0 None)"

text \<open>The argument of CMD1 that \<^verbatim>\<open>voltageValidationMMC\<close> builds.\<close>

definition ocrMMC :: uint32 where
  "ocrMMC = SetN (SetN 0 MMC_OCR_ACCESS_MODE 0b11 ACCESS_MODE_SECTOR)
              MMC_OCR_VDD_HV_MIN 0x1ff 0x1ff"

text \<open>
  Answers of a card during voltage validation: the echo of the first CMD8 argument, the
  status after CMD55, an operating-condition register with the busy bit clear, with busy
  and capacity bits set, with the busy bit set and the capacity bit clear, and with the
  busy bit set and sector access mode (eMMC); an answer that takes 0.6 seconds.
\<close>

definition cmd8_echo :: reply where "cmd8_echo = ok_reply 0x1aa"
definition app_cmd_ok :: reply where "app_cmd_ok = ok_reply 0x120"
definition ocr_busy :: reply where "ocr_busy = ok_reply 0x00ff8000"
definition ocr_ready_hc :: reply where "ocr_ready_hc = ok_reply 0xc0ff8000"
definition ocr_ready_sc :: reply where "ocr_ready_sc = ok_reply 0x80ff8000"
definition ocr_ready_sector :: reply where "ocr_ready_sector = ok_reply 0xc0ff8080"

definition slow :: "reply \<Rightarrow> reply" where
  "slow r = r\<lparr>elapsed := 600000000\<rparr>"

text \<open>
  Cards: an SD card and an eMMC device that are ready at the third poll; an SD card and an
  eMMC device that stay busy past the deadline; an SD 2.x card of standard capacity, which
  echoes CMD8 and reports the capacity bit clear; an SD card that stops responding after
  CMD8.
\<close>

definition sd_two_waits :: USDHC where
  "sd_two_waits = controller 0 4
     (script [cmd8_echo, app_cmd_ok, ocr_busy, app_cmd_ok, ocr_busy, app_cmd_ok, ocr_ready_hc])"

definition mmc_two_waits :: USDHC where
  "mmc_two_waits = controller 0 8 (script [ocr_busy, ocr_busy, ocr_ready_sector])"

definition sd_never_ready :: USDHC where
  "sd_never_ready = controller 0 4
     (script [cmd8_echo, slow app_cmd_ok, slow ocr_busy, app_cmd_ok, ocr_busy])"

definition mmc_never_ready :: USDHC where
  "mmc_never_ready = controller 0 8 (script [slow ocr_busy, slow ocr_busy, ocr_busy])"

definition sd_standard_capacity :: USDHC where
  "sd_standard_capacity = controller 0 4 (script [cmd8_echo, app_cmd_ok, ocr_ready_sc])"

definition sd_silent :: USDHC where
  "sd_silent = controller 0 4 (script [cmd8_echo])"

text \<open>Hardware that never responds, and an SD card that answers CMD55 and nothing else.\<close>

definition dead_card :: USDHC where
  "dead_card = controller 0 4 (script [])"

definition sd_half_round :: USDHC where
  "sd_half_round = controller 0 4 (script [app_cmd_ok])"

text \<open>The calls of a trace that returned an error.\<close>

fun failed :: "event \<Rightarrow> bool" where
  "failed (Cmd index dtd arg res cic ccc dma blocks (Some e)) = True"
| "failed (Transfer index dtd offset blocks blockSize (Some e)) = True"
| "failed (WaitState state timeout (Some e)) = True"
| "failed ev = False"

text \<open>
  For the high-speed switch of \<^verbatim>\<open>initSD\<close>: the CMD6 switch command that returned
  success, the wait for the transfer state after it, and what a run that issued the events
  \<open>evs\<close>, from a descriptor whose flag was \<open>h\<close>, must satisfy.
\<close>

definition sd_switch_ok :: event where
  "sd_switch_ok = Cmd 6 READ 0xfffffff1 RSP_48 True True False 0 None"

definition sd_switch_wait :: "usdhc_consts \<Rightarrow> nat option \<Rightarrow> event" where
  "sd_switch_wait K err = WaitState (CURRENT_STATE_TRAN K) (500 * Millisecond) err"

definition hs_outcome ::
  "usdhc_consts \<Rightarrow> bool \<Rightarrow> error option \<Rightarrow> CardInfo \<Rightarrow> event list \<Rightarrow> bool" where
  "hs_outcome K h r c evs \<longleftrightarrow>
     (HS c \<longleftrightarrow> h \<or> sd_switch_ok \<in> set evs) \<and>
     (\<forall>e. sd_switch_wait K (Some e) \<in> set evs \<longrightarrow>
        r = Some (Primitive e) \<and> HS c \<and>
        (\<exists>pre. evs = pre @ [sd_switch_wait K (Some e), SetClock 0 0,
                              SetClock (DVS_HS K) (SDCLKFS_HS_SDR K)]))"

definition before_switch :: "event list \<Rightarrow> bool" where
  "before_switch P \<longleftrightarrow>
     sd_switch_ok \<notin> set P \<and> (\<forall>K e. sd_switch_wait K (Some e) \<notin> set P)"

text \<open>
  Sample constants of \<^verbatim>\<open>usdhc.go\<close>, an answer with an error, and an SD card whose
  initialization goes well until the wait after the CMD6 switch fails.
\<close>

definition K0 :: usdhc_consts where
  "K0 = \<lparr>STATUS_CURRENT_STATE = 9, STATUS_APP_CMD = 5, CURRENT_STATE_IDENT = 2,
          CURRENT_STATE_TRAN = 4, DVS_OP = 3, SDCLKFS_OP = 1, DVS_HS = 1,
          SDCLKFS_HS_SDR = 2, SDCLKFS_HS_DDR = 1\<rparr>"

definition failing :: "nat \<Rightarrow> reply" where
  "failing e = \<lparr>fault = Some e, response = 0, elapsed = 1000, payload = []\<rparr>"

definition sd_wait_fails :: USDHC where
  "sd_wait_fails = controller 0 4
     (script [ok_reply 0, ok_reply 0x12340400, ok_reply sd_csd_v0, ok_reply 0, ok_reply 0,
              ok_reply 0x120, ok_reply 0, ok_reply 0, failing 7])"

text \<open>
  For the bus width and the eMMC mode switch: the arguments of the commands with a given
  index in a trace, in order; the CMD6 argument that \<^verbatim>\<open>writeCardRegisterMMC\<close> builds for a
  register and a value; the codes of the two bus-width switches of \<^verbatim>\<open>initMMC\<close>; and what
  the CMD6 arguments \<open>as\<close> of a run of \<^verbatim>\<open>initMMC\<close> must be, with the descriptor before
  and after.
\<close>

fun cmd_args :: "nat \<Rightarrow> event list \<Rightarrow> uint32 list" where
  "cmd_args i [] = []"
| "cmd_args i (Cmd j dtd arg res cic ccc dma blocks r # evs) =
     (if i = j then arg # cmd_args i evs else cmd_args i evs)"
| "cmd_args i (ev # evs) = cmd_args i evs"

definition switch_arg :: "uint32 \<Rightarrow> uint32 \<Rightarrow> uint32" where
  "switch_arg reg val =
     SetN (SetN (SetN 0 MMC_SWITCH_ACCESS 0b11 ACCESS_WRITE_BYTE) MMC_SWITCH_INDEX 0xff reg)
       MMC_SWITCH_VALUE 0xff val"

definition sdr_code :: "go_int \<Rightarrow> uint32" where
  "sdr_code w = (if w = 4 then 1 else 2)"

definition ddr_code :: "go_int \<Rightarrow> uint32" where
  "ddr_code w = (if w = 4 then 5 else 6)"

definition mmc_outcome :: "go_int \<Rightarrow> uint32 \<Rightarrow> CardInfo \<Rightarrow> CardInfo \<Rightarrow> uint32 list \<Rightarrow> bool" where
  "mmc_outcome w ver c c' as \<longleftrightarrow>
     (as = [] \<and> c' = c)
     \<or> ((w = 4 \<or> w = 8) \<and> HS c' = HS c \<and> DDR c' = DDR c \<and>
         (as = [switch_arg (of_nat EXT_CSD_BUS_WIDTH) (sdr_code w)]
          \<or> 4 \<le> ver \<and> as = [switch_arg (of_nat EXT_CSD_BUS_WIDTH) (sdr_code w),
                               switch_arg (of_nat EXT_CSD_HS_TIMING) HS_TIMING_HS]))
     \<or> ((w = 4 \<or> w = 8) \<and> 4 \<le> ver \<and>
         as = [switch_arg (of_nat EXT_CSD_BUS_WIDTH) (sdr_code w),
               switch_arg (of_nat EXT_CSD_HS_TIMING) HS_TIMING_HS,
               switch_arg (of_nat EXT_CSD_BUS_WIDTH) (ddr_code w)])"

text \<open>
  The first eight answers have no error, the answer to CMD3 reports the identification
  state and the CSD the 26 MHz code: the run of \<^verbatim>\<open>initMMC\<close> gets through the capacity
  decode when the width is supported.  With twelve answers without error it gets through
  the high-speed stage too.
\<close>

definition mmc_card_ok :: "usdhc_consts \<Rightarrow> USDHC \<Rightarrow> bool" where
  "mmc_card_ok K hw \<longleftrightarrow>
     list_all (\<lambda>r. fault r = None) (stake 8 (sim_future hw))
     \<and> drop_bit (STATUS_CURRENT_STATE K) (ocr_word (shd (stl (sim_future hw)))) AND 0b1111
         = CURRENT_STATE_IDENT K
     \<and> bit_field (response (shd (stl (stl (sim_future hw))))) MMC_CSD_TRAN_SPEED 0xff
         = TRAN_SPEED_26MHZ"

text \<open>
  eMMC devices with specification version 3 and 4 (\<open>TRAN_SPEED = 0x32\<close>,
  \<open>READ_BL_LEN = 9\<close>, \<open>C_SIZE = 0x40\<close>, \<open>C_SIZE_MULT = 7\<close>) that answer every call
  without error.
\<close>

definition mmc_upgrade_ok :: "usdhc_consts \<Rightarrow> USDHC \<Rightarrow> bool" where
  "mmc_upgrade_ok K hw \<longleftrightarrow>
     list_all (\<lambda>r. fault r = None) (stake 12 (sim_future hw))
     \<and> drop_bit (STATUS_CURRENT_STATE K) (ocr_word (shd (stl (sim_future hw)))) AND 0b1111
         = CURRENT_STATE_IDENT K
     \<and> bit_field (response (shd (stl (stl (sim_future hw))))) MMC_CSD_TRAN_SPEED 0xff
         = TRAN_SPEED_26MHZ"

definition mmc_csd_v3 :: "128 word" where
  "mmc_csd_v3 = push_bit 114 3 + push_bit 88 0x32 + push_bit 72 9 + push_bit 54 0x40
                  + push_bit 39 7"

definition mmc_csd_v4 :: "128 word" where
  "mmc_csd_v4 = push_bit 114 4 + push_bit 88 0x32 + push_bit 72 9 + push_bit 54 0x40
                  + push_bit 39 7"

definition emmc_v3 :: USDHC where
  "emmc_v3 = controller 0 4
     (script [ok_reply 0, ok_reply 0x400, ok_reply mmc_csd_v3, ok_reply 0, ok_reply 0,
              ok_reply 0, ok_reply 0, ok_reply 0])"

definition emmc_v4 :: USDHC where
  "emmc_v4 = controller 0 8
     (script [ok_reply 0, ok_reply 0x400, ok_reply mmc_csd_v4, ok_reply 0, ok_reply 0,
              ok_reply 0, ok_reply 0, ok_reply 0, ok_reply 0, ok_reply 0, ok_reply 0])"

text \<open>
  An eMMC device with specification version 4 and \<open>C_SIZE = 0xfff\<close>, whose Extended CSD
  has the \<open>SEC_COUNT\<close> bytes \<open>00 00 75 00\<close>, and which answers every call without error.
\<close>

definition mmc_csd_v4_sectors :: "128 word" where
  "mmc_csd_v4_sectors = push_bit 114 4 + push_bit 88 0x32 + push_bit 72 9 + push_bit 54 0xfff
                  + push_bit 39 7"

definition emmc_v4_sectors :: USDHC where
  "emmc_v4_sectors = controller 0 4
     (script [ok_reply 0, ok_reply 0x400, ok_reply mmc_csd_v4_sectors, ok_reply 0, ok_reply 0,
              ok_reply 0, ok_reply 0, ext_csd_reply (replicate 212 0 @ [0x00, 0x00, 0x75, 0x00]),
              ok_reply 0, ok_reply 0, ok_reply 0, ok_reply 0])"

text \<open>
  The calls of a complete run of \<^verbatim>\<open>initMMC\<close>.  The clock settings among the calls of a
  trace, in order; the two calls of a register write that succeeds; the calls up to and
  including the first bus-width write; the call of the capacity decode (none on the legacy
  path); the calls of the high-speed stage.
\<close>

fun clock_calls :: "event list \<Rightarrow> (int \<times> int) list" where
  "clock_calls [] = []"
| "clock_calls (SetClock dvs sdclkfs # evs) = (dvs, sdclkfs) # clock_calls evs"
| "clock_calls (ev # evs) = clock_calls evs"

definition register_write :: "usdhc_consts \<Rightarrow> uint32 \<Rightarrow> uint32 \<Rightarrow> event list" where
  "register_write K reg val =
     [Cmd 6 READ (switch_arg reg val) RSP_48 True True False 0 None,
      WaitState (CURRENT_STATE_TRAN K) (500 * Millisecond) None]"

definition mmc_bring_up :: "usdhc_consts \<Rightarrow> USDHC \<Rightarrow> event list" where
  "mmc_bring_up K hw =
     [Cmd 2 READ 0 RSP_136 False True False 0 None,
      Cmd 3 READ (push_bit RCA_ADDR (hw_n hw + 1)) RSP_48 True True False 0 None,
      Cmd 9 READ (push_bit RCA_ADDR (hw_n hw + 1)) RSP_136 False True False 0 None,
      SetClock 0 0,
      SetClock (DVS_OP K) (SDCLKFS_OP K),
      Cmd 7 READ (push_bit RCA_ADDR (hw_n hw + 1)) RSP_48_CHECK_BUSY True True False 0 None,
      WaitState (CURRENT_STATE_TRAN K) (1 * Millisecond) None]
     @ register_write K (of_nat EXT_CSD_BUS_WIDTH) (sdr_code (hw_width hw))"

definition decode_calls :: "uint32 \<Rightarrow> event list" where
  "decode_calls c_size = (if c_size > 0xff then [Transfer 8 READ 0 1 512 None] else [])"

definition ddr_upgrade :: "usdhc_consts \<Rightarrow> USDHC \<Rightarrow> event list" where
  "ddr_upgrade K hw =
     register_write K (of_nat EXT_CSD_HS_TIMING) HS_TIMING_HS
     @ register_write K (of_nat EXT_CSD_BUS_WIDTH) (ddr_code (hw_width hw))
     @ [SetClock 0 0, SetClock (DVS_HS K) (SDCLKFS_HS_DDR K)]"

text \<open>
  The answers that take a run of \<^verbatim>\<open>initSD\<close> and of \<^verbatim>\<open>initMMC\<close> to the \<^verbatim>\<open>switch\<close>
  on \<^verbatim>\<open>hw.width\<close>: no error in the calls before it, the identification state after CMD3,
  an accepted CSD version and the application-command bit after CMD55 (SD), the 26 MHz
  code (eMMC).
\<close>

definition sd_reaches_width :: "usdhc_consts \<Rightarrow> USDHC \<Rightarrow> bool" where
  "sd_reaches_width K hw \<longleftrightarrow>
     list_all (\<lambda>r. fault r = None) (stake 6 (sim_future hw))
     \<and> drop_bit (STATUS_CURRENT_STATE K) (ocr_word (shd (stl (sim_future hw)))) AND 0b1111
         = CURRENT_STATE_IDENT K
     \<and> bit_field (response (shd (stl (stl (sim_future hw))))) SD_CSD_STRUCTURE 0b11 \<in> {0, 1, 2}
     \<and> drop_bit (STATUS_APP_CMD K)
           (ocr_word (shd (stl (stl (stl (stl (stl (sim_future hw)))))))) AND 1 = 1"

definition mmc_reaches_width :: "usdhc_consts \<Rightarrow> USDHC \<Rightarrow> bool" where
  "mmc_reaches_width K hw \<longleftrightarrow>
     list_all (\<lambda>r. fault r = None) (stake 5 (sim_future hw))
     \<and> drop_bit (STATUS_CURRENT_STATE K) (ocr_word (shd (stl (sim_future hw)))) AND 0b1111
         = CURRENT_STATE_IDENT K
     \<and> bit_field (response (shd (stl (stl (sim_future hw))))) MMC_CSD_TRAN_SPEED 0xff
         = TRAN_SPEED_26MHZ"

text \<open>An SD card on a controller configured for 8 lines, an eMMC device on one for 1 line.\<close>

definition sd_eight_lines :: USDHC where
  "sd_eight_lines = controller 0 8
     (script [ok_reply 0, ok_reply 0x12340400, ok_reply sd_csd_v0, ok_reply 0, ok_reply 0,
              ok_reply 0x120])"

definition emmc_one_line :: USDHC where
  "emmc_one_line = controller 0 1
     (script [ok_reply 0, ok_reply 0x400, ok_reply mmc_csd_v4, ok_reply 0, ok_reply 0])"

section \<open>Arithmetic of the target\<close>

lemma sint_small: "n < 2 ^ 31 \<Longrightarrow> sint (word_of_nat n :: 32 word) = int n"
proof -
  assume a: "n < 2 ^ 31"
  have u: "uint (word_of_nat n :: 32 word) = int n"
    using a by (simp add: uint_nat unat_of_nat take_bit_nat_eq_self)
  have "int n < 2 ^ 31" using a by (metis of_nat_less_iff of_nat_numeral of_nat_power)
  then show ?thesis
    by (simp add: sint_uint u signed_take_bit_int_eq_self)
qed


lemma bit_field_le: "unat (bit_field r pos m) \<le> unat m"
  unfolding bit_field_def by (rule word_and_le1 [THEN word_le_nat_alt [THEN iffD1]])

lemma unat_pred: "1 \<le> unat (r::32 word) \<Longrightarrow> unat (r - 1) = unat r - 1"
  by (simp add: unat_sub word_le_nat_alt)

lemma shl_two: "push_bit n (2::32 word) = word_of_nat (2 ^ Suc n)"
  by (simp add: push_bit_eq_mult)

text \<open>\<^verbatim>\<open>2 << (read_bl_len - 1)\<close> for a block-length exponent from 1 to 15, and for 0.\<close>

lemma go_block_size:
  assumes "1 \<le> unat (r::32 word)" "unat r \<le> 15"
  shows "sint (push_bit (unat (r - 1)) (2::32 word)) = 2 ^ unat r"
proof -
  have e: "Suc (unat r - 1) = unat r" using assms by simp
  have "(2::nat) ^ unat r \<le> 2 ^ 15" by (rule power_increasing) (use assms in simp_all)
  then have b: "(2::nat) ^ unat r < 2 ^ 31" by simp
  have "push_bit (unat (r - 1)) (2::32 word) = word_of_nat (2 ^ unat r)"
    using assms e by (simp add: unat_pred shl_two del: of_nat_power)
  then show ?thesis using sint_small [OF b] by simp
qed

lemma go_block_size_zero: "push_bit (unat (- 1 :: 32 word)) (2::32 word) = 0"
  by (rule push_bit_word_beyond) (simp add: unsigned_minus_1_eq_mask mask_eq_exp_minus_1)

text \<open>\<^verbatim>\<open>(c_size + 1) * (2 << (c_size_mult + 2))\<close> in \<^verbatim>\<open>uint32\<close>.\<close>

lemma go_blocks_legacy_word:
  assumes "unat (m::32 word) \<le> 7"
  shows "(c + 1) * push_bit (unat (m + 2)) (2::32 word)
           = word_of_nat ((unat c + 1) * 2 ^ (unat m + 3))"
proof -
  have m2: "unat (m + 2) = unat m + 2"
    using assms by (simp add: unat_word_ariths)
  have "Suc (unat m + 2) = unat m + 3" by simp
  then have p: "push_bit (unat (m + 2)) (2::32 word) = word_of_nat (2 ^ (unat m + 3))"
    unfolding m2 shl_two by (simp only:)
  have q: "c + 1 = word_of_nat (unat c + 1)" by simp
  show ?thesis unfolding p by (subst q) (simp only: of_nat_mult)
qed

lemma legacy_count_small:
  assumes "unat (c::32 word) \<le> 4095" "unat (m::32 word) \<le> 7"
  shows "(unat c + 1) * 2 ^ (unat m + 3) < 2 ^ 31"
proof -
  have "(2::nat) ^ (unat m + 3) \<le> 2 ^ 10" by (rule power_increasing) (use assms in simp_all)
  then have "(unat c + 1) * 2 ^ (unat m + 3) \<le> 4096 * 2 ^ 10"
    using assms by (intro mult_mono) simp_all
  then show ?thesis by simp
qed

lemma sint_nonneg_iff: "0 \<le> sint (w::32 word) \<longleftrightarrow> unat w < 2 ^ 31"
proof
  assume p: "0 \<le> sint w"
  have lt: "sint w < 2147483648" using sint_lt [of w] by simp
  then have lt': "sint w < 2 ^ 32" by simp
  have "uint w = take_bit 32 (sint w)" using uint_sint [of w] by simp
  also have "\<dots> = sint w" using p lt' by (rule take_bit_int_eq_self)
  finally have "uint w = sint w" .
  then have "int (unat w) < int 2147483648" using lt by (simp only: uint_nat of_nat_numeral)
  then have "unat w < 2147483648" by (simp only: of_nat_less_iff)
  then show "unat w < 2 ^ 31" by simp
next
  assume a: "unat w < 2 ^ 31"
  have "sint (word_of_nat (unat w) :: 32 word) = int (unat w)" by (rule sint_small [OF a])
  then show "0 \<le> sint w" by simp
qed

lemma sint_pos_iff: "0 < sint (w::32 word) \<longleftrightarrow> 0 < unat w \<and> unat w < 2 ^ 31"
proof (cases "unat w < 2 ^ 31")
  case True
  have "sint (word_of_nat (unat w) :: 32 word) = int (unat w)" by (rule sint_small [OF True])
  then have "sint w = int (unat w)" by simp
  then show ?thesis using True by (simp only: of_nat_0_less_iff simp_thms)
next
  case False
  then have "\<not> 0 \<le> sint w" by (simp only: sint_nonneg_iff not_False_eq_True)
  then show ?thesis using False by simp
qed

lemma go_block_size_mmc:
  assumes "1 \<le> unat (r::32 word)" "unat r \<le> 15"
  shows "sint (push_bit (unat (r - 1)) (2::32 word)) = 2 ^ (unat r - 1) * 2"
proof -
  have "(2::int) ^ unat r = 2 ^ Suc (unat r - 1)" using assms by simp
  then show ?thesis using go_block_size [OF assms] by simp
qed

lemma go_blocks_legacy:
  assumes "unat (c::32 word) \<le> 4095" "unat (m::32 word) \<le> 7"
  shows "sint ((c + 1) * push_bit (unat (m + 2)) 2) = (uint c + 1) * 2 ^ (unat m + 3)"
proof -
  have "sint ((c + 1) * push_bit (unat (m + 2)) 2) = int ((unat c + 1) * 2 ^ (unat m + 3))"
    using sint_small [OF legacy_count_small [OF assms]]
    by (simp only: go_blocks_legacy_word [OF assms(2)])
  also have "\<dots> = (uint c + 1) * 2 ^ (unat m + 3)" by (simp add: algebra_simps)
  finally show ?thesis .
qed

section \<open>Effects of the primitives\<close>

lemma answered_sel [simp]:
  "hw_n (answered ev hw) = hw_n hw"
  "hw_width (answered ev hw) = hw_width hw"
  "hw_rca (answered ev hw) = hw_rca hw"
  "hw_card (answered ev hw) = hw_card hw"
  "sim_rsp (answered ev hw) = response (next_reply hw)"
  "sim_now (answered ev hw) = sim_now hw + elapsed (next_reply hw)"
  "sim_future (answered ev hw) = stl (sim_future hw)"
  "sim_trace (answered ev hw) = sim_trace hw @ [ev]"
  by (simp_all add: answered_def)

lemma next_reply_upd [simp]:
  "next_reply (hw\<lparr>hw_card := c\<rparr>) = next_reply hw"
  "next_reply (hw\<lparr>hw_rca := a\<rparr>) = next_reply hw"
  "next_reply (hw\<lparr>sim_trace := t\<rparr>) = next_reply hw"
  "next_reply (answered ev hw) = shd (stl (sim_future hw))"
  by (simp_all add: next_reply_def)

lemma answered_upd [simp]:
  "answered ev (hw\<lparr>hw_card := c\<rparr>) = (answered ev hw)\<lparr>hw_card := c\<rparr>"
  "answered ev (hw\<lparr>hw_rca := a\<rparr>) = (answered ev hw)\<lparr>hw_rca := a\<rparr>"
  by (simp_all add: answered_def next_reply_def)

lemma rspVal_answered [simp]:
  "rspVal (answered ev hw) p m = bit_field (response (next_reply hw)) p m"
  by (simp add: rspVal_def)

lemma rspVal_upd [simp]:
  "rspVal (hw\<lparr>hw_card := c\<rparr>) p m = rspVal hw p m"
  "rspVal (hw\<lparr>hw_rca := a\<rparr>) p m = rspVal hw p m"
  "rspVal (hw\<lparr>sim_trace := t\<rparr>) p m = rspVal hw p m"
  by (simp_all add: rspVal_def)

lemma rsp_upd [simp]:
  "rsp (hw\<lparr>hw_card := c\<rparr>) i = rsp hw i"
  "rsp (hw\<lparr>hw_rca := a\<rparr>) i = rsp hw i"
  "rsp (hw\<lparr>sim_trace := t\<rparr>) i = rsp hw i"
  by (simp_all add: rsp_def)

lemma length_filled [simp]: "length (filled buf r) = length buf"
  by (simp add: filled_def)

section \<open>SD capacity decode\<close>

lemma detectCapacitySD_result:
  assumes ok: "fault (next_reply hw0) = None"
    and csd: "csd = response (next_reply hw0)"
    and ver: "bit_field csd SD_CSD_STRUCTURE 0b11 \<in> {0, 1, 2}"
  shows "detectCapacitySD b hw0 =
    (None, (answered (Cmd 9 READ (hw_rca hw0) RSP_136 False True False 0 None) hw0)
       \<lparr>hw_card := (hw_card hw0)
          \<lparr>BlockSize := push_bit (unat (bit_field csd SD_CSD_READ_BL_LEN_1 0xf - 1)) 2,
           Blocks := word_of_nat (csd_block_count csd)\<rparr>\<rparr>)"
proof -
  have "unat (bit_field csd SD_CSD_C_SIZE_MULT_1 0b111) \<le> unat (0b111 :: 32 word)"
    by (rule bit_field_le)
  then have m: "unat (bit_field csd SD_CSD_C_SIZE_MULT_1 0b111) \<le> 7" by simp
  note w0 = go_blocks_legacy_word [OF m]
  consider (v0) "bit_field csd SD_CSD_STRUCTURE 0b11 = 0"
    | (v1) "bit_field csd SD_CSD_STRUCTURE 0b11 = 1"
    | (v2) "bit_field csd SD_CSD_STRUCTURE 0b11 = 2"
    using ver by auto
  then show ?thesis
  proof cases
    case v0
    then show ?thesis using ok csd [symmetric]
      by (simp add: detectCapacitySD_def cmd_def Let_def csd_block_count_def w0
          SD_CSD_READ_BL_LEN_1_def del: of_nat_power of_nat_mult of_nat_add)
  next
    case v1
    then show ?thesis using ok csd [symmetric]
      by (simp add: detectCapacitySD_def cmd_def Let_def csd_block_count_def
          SD_CSD_READ_BL_LEN_1_def SD_CSD_READ_BL_LEN_2_def)
  next
    case v2
    then show ?thesis using ok csd [symmetric]
      by (simp add: detectCapacitySD_def cmd_def Let_def csd_block_count_def
          SD_CSD_READ_BL_LEN_1_def SD_CSD_READ_BL_LEN_2_def)
  qed
qed

lemma sd_v0_card_reply: "next_reply sd_v0_card = ok_reply sd_csd_v0"
  by (simp add: sd_v0_card_def controller_def script_def next_reply_def)

lemma sd_csd_v0_fields:
  "bit_field sd_csd_v0 SD_CSD_STRUCTURE 0b11 = 0"
  "bit_field sd_csd_v0 SD_CSD_READ_BL_LEN_1 0xf = 9"
  "bit_field sd_csd_v0 SD_CSD_C_SIZE_1 0xfff = 3751"
  "bit_field sd_csd_v0 SD_CSD_C_SIZE_MULT_1 0b111 = 7"
  by (simp_all add: bit_field_def sd_csd_v0_def SD_CSD_STRUCTURE_def SD_CSD_READ_BL_LEN_1_def
      SD_CSD_C_SIZE_1_def SD_CSD_C_SIZE_MULT_1_def CSD_RSP_OFF_def)







lemma sd_v0_decode:
  "fst (detectCapacitySD 512 sd_v0_card) = None"
  "BlockSize (hw_card (snd (detectCapacitySD 512 sd_v0_card))) = 512"
  "Blocks (hw_card (snd (detectCapacitySD 512 sd_v0_card))) = 3842048"
proof -
  have a: "fault (next_reply sd_v0_card) = None" "sd_csd_v0 = response (next_reply sd_v0_card)"
    by (simp_all add: sd_v0_card_reply ok_reply_def)
  have v: "bit_field sd_csd_v0 SD_CSD_STRUCTURE 0b11 \<in> {0, 1, 2}"
    by (simp add: sd_csd_v0_fields)
  note r = detectCapacitySD_result [OF a v, of 512]
  show "fst (detectCapacitySD 512 sd_v0_card) = None" by (simp add: r)
  show "BlockSize (hw_card (snd (detectCapacitySD 512 sd_v0_card))) = 512"
    by (simp add: r sd_csd_v0_fields)
  show "Blocks (hw_card (snd (detectCapacitySD 512 sd_v0_card))) = 3842048"
    by (simp add: r csd_block_count_def sd_csd_v0_fields)
qed



text \<open>
  The block count of structure version 0.  The shift \<^verbatim>\<open>2 << (c_size_mult + 2)\<close> is one
  more than the multiplier \<open>2 ^ (C_SIZE_MULT + 2)\<close> of the formula the comment in the code
  cites, while the shift of the block size beside it is reduced by one: on the version-0
  card the stored count is twice \<open>(c_size + 1) * 2 ^ (c_size_mult + 2)\<close>.
\<close>

lemma detectCapacitySD_v0_count_doubled:
  "bit_field (response (next_reply sd_v0_card)) SD_CSD_STRUCTURE 0b11 = 0
   \<and> unat (bit_field (response (next_reply sd_v0_card)) SD_CSD_C_SIZE_1 0xfff) = 3751
   \<and> unat (bit_field (response (next_reply sd_v0_card)) SD_CSD_C_SIZE_MULT_1 0b111) = 7
   \<and> claimed_block_count_v0 3751 7 = 1921024
   \<and> sint (Blocks (hw_card (snd (detectCapacitySD 512 sd_v0_card))))
       = 2 * claimed_block_count_v0 3751 7"
  by (simp add: sd_v0_decode sd_v0_card_reply ok_reply_def sd_csd_v0_fields
      claimed_block_count_v0_def)

section \<open>MMC capacity decode\<close>

lemma detectCapacityMMC_legacy:
  assumes "c \<le> 0xff"
  shows "detectCapacityMMC bs m c r hw =
     (None, hw\<lparr>hw_card := (hw_card hw)
           \<lparr>BlockSize := push_bit (unat (r - 1)) 2,
            Blocks := (c + 1) * push_bit (unat (m + 2)) 2\<rparr>\<rparr>)"
  using assms by (simp add: detectCapacityMMC_def not_less [symmetric])

lemma LittleEndian_Uint32_drop:
  assumes "n + 4 \<le> length b"
  shows "LittleEndian_Uint32 (drop n b) = LittleEndian_Uint32 [b ! n, b ! (n + 1), b ! (n + 2), b ! (n + 3)]"
  using assms by (simp add: LittleEndian_Uint32_def)

lemma detectCapacityMMC_emulation:
  assumes c: "0xff < c"
    and ok: "fault (next_reply hw) = None"
    and buf: "extCSD = filled (replicate 512 0) (next_reply hw)"
  shows "detectCapacityMMC MMC_DEFAULT_BLOCK_SIZE m c r hw =
     (None, (answered (Transfer 8 READ 0 1 512 None) hw)
        \<lparr>hw_card := (hw_card hw)
           \<lparr>BlockSize := 512,
            Blocks := LittleEndian_Uint32 [extCSD ! 212, extCSD ! 213, extCSD ! 214, extCSD ! 215]\<rparr>\<rparr>)"
proof -
  have l: "length extCSD = 512" by (simp add: buf)
  show ?thesis using c ok l
    by (simp add: detectCapacityMMC_def MMC_DEFAULT_BLOCK_SIZE_def transfer_def Let_def
        EXT_CSD_SEC_COUNT_def buf [symmetric] LittleEndian_Uint32_drop)
qed

lemma detectCapacityMMC_emulation_ok:
  assumes "0xff < c" "fst (detectCapacityMMC bs m c r hw) = None"
  shows "0 \<le> sint bs \<and> 216 \<le> unat bs
    \<and> BlockSize (hw_card (snd (detectCapacityMMC bs m c r hw))) = bs
    \<and> Blocks (hw_card (snd (detectCapacityMMC bs m c r hw)))
        = LittleEndian_Uint32 (drop EXT_CSD_SEC_COUNT (filled (replicate (unat bs) 0) (next_reply hw)))"
  using assms
  by (auto simp: detectCapacityMMC_def transfer_def Let_def EXT_CSD_SEC_COUNT_def
      split: if_splits option.splits)

lemma detectCapacityMMC_emulation_fault:
  assumes c: "0xff < c" and f: "fault (next_reply hw) = Some e"
  shows "detectCapacityMMC MMC_DEFAULT_BLOCK_SIZE m c r hw =
     (Some (Primitive e), (answered (Transfer 8 READ 0 1 512 (Some e)) hw)
        \<lparr>hw_card := (hw_card hw)\<lparr>BlockSize := 512\<rparr>\<rparr>)"
  using c f by (simp add: detectCapacityMMC_def MMC_DEFAULT_BLOCK_SIZE_def transfer_def Let_def)

text \<open>
  C2, as amended.  For every eMMC CSD with \<open>c_size \<le> 0xff\<close>, a 3-bit \<open>c_size_mult\<close> and
  \<open>read_bl_len\<close> from 1 to 15, \<^verbatim>\<open>detectCapacityMMC\<close> issues no command, returns no error
  and computes block size \<open>2 ^ (read_bl_len - 1) * 2\<close> and block count
  \<open>(c_size + 1) * 2 ^ (c_size_mult + 3)\<close> from the legacy fields alone, whatever the
  hardware would answer.  For every CSD with \<open>c_size > 0xff\<close>, called with the default
  block size 512, it sets the block size to 512 and issues exactly one CMD8 read of one
  block, whatever the legacy fields are.  When that transfer succeeds it returns no error
  and sets the block count to the little-endian 32-bit value of bytes 212 to 215 of the
  block; when the transfer fails it returns the error of the transfer and leaves the block
  count as it was.
\<close>

theorem detectCapacityMMC_capacity:
  assumes legacy: "c_size \<le> 0xff" "unat c_size_mult \<le> 7"
      "1 \<le> unat read_bl_len" "unat read_bl_len \<le> 15"
    and L: "L = detectCapacityMMC blockSize c_size_mult c_size read_bl_len hwL"
    and emulation: "0xff < c_size'"
    and E: "E = detectCapacityMMC MMC_DEFAULT_BLOCK_SIZE c_size_mult' c_size' read_bl_len' hwE"
    and buf: "extCSD = filled (replicate 512 0) (next_reply hwE)"
  shows "fst L = None \<and> issued hwL (snd L) = []
    \<and> sint (BlockSize (hw_card (snd L))) = 2 ^ (unat read_bl_len - 1) * 2
    \<and> sint (Blocks (hw_card (snd L))) = (uint c_size + 1) * 2 ^ (unat c_size_mult + 3)
    \<and> issued hwE (snd E) = [Transfer 8 READ 0 1 512 (fault (next_reply hwE))]
    \<and> sint (BlockSize (hw_card (snd E))) = 512
    \<and> (fault (next_reply hwE) = None \<longrightarrow>
         fst E = None
         \<and> Blocks (hw_card (snd E))
             = LittleEndian_Uint32 [extCSD ! 212, extCSD ! 213, extCSD ! 214, extCSD ! 215])
    \<and> (\<forall>e. fault (next_reply hwE) = Some e \<longrightarrow>
         fst E = Some (Primitive e) \<and> Blocks (hw_card (snd E)) = Blocks (hw_card hwE))"
proof -
  have "unat c_size \<le> unat (0xff :: 32 word)" using legacy(1) by (simp only: word_le_nat_alt)
  then have c: "unat c_size \<le> 4095" by simp
  note l = detectCapacityMMC_legacy [OF legacy(1), of blockSize c_size_mult read_bl_len hwL]
  have 1: "fst L = None" "issued hwL (snd L) = []" by (simp_all add: L l issued_def)
  have 2: "sint (BlockSize (hw_card (snd L))) = 2 ^ (unat read_bl_len - 1) * 2"
    using go_block_size_mmc [OF legacy(3,4)] by (simp add: L l)
  have 3: "sint (Blocks (hw_card (snd L))) = (uint c_size + 1) * 2 ^ (unat c_size_mult + 3)"
    using go_blocks_legacy [OF c legacy(2)] by (simp add: L l)
  have 4: "fst E = None \<and> issued hwE (snd E) = [Transfer 8 READ 0 1 512 None]
      \<and> sint (BlockSize (hw_card (snd E))) = 512
      \<and> Blocks (hw_card (snd E))
        = LittleEndian_Uint32 [extCSD ! 212, extCSD ! 213, extCSD ! 214, extCSD ! 215]"
    if "fault (next_reply hwE) = None"
    using detectCapacityMMC_emulation [OF emulation that buf, of c_size_mult' read_bl_len']
    by (simp add: E issued_def)
  have 5: "fst E = Some (Primitive e) \<and> issued hwE (snd E) = [Transfer 8 READ 0 1 512 (Some e)]
      \<and> sint (BlockSize (hw_card (snd E))) = 512
      \<and> Blocks (hw_card (snd E)) = Blocks (hw_card hwE)"
    if "fault (next_reply hwE) = Some e" for e
    using detectCapacityMMC_emulation_fault [OF emulation that, of c_size_mult' read_bl_len']
    by (simp add: E issued_def)
  have 6: "issued hwE (snd E) = [Transfer 8 READ 0 1 512 (fault (next_reply hwE))]
      \<and> sint (BlockSize (hw_card (snd E))) = 512"
    using 4 5 by (cases "fault (next_reply hwE)") simp_all
  from 1 2 3 4 5 6 show ?thesis by blast
qed

lemma emmc_4gb_reply:
  "next_reply emmc_4gb = ext_csd_reply (replicate 212 0 @ [0x00, 0x00, 0x75, 0x00])"
  by (simp add: emmc_4gb_def controller_def script_def next_reply_def)

lemma emmc_4gb_bytes:
  "filled (replicate 512 0) (next_reply emmc_4gb) ! 212 = 0"
  "filled (replicate 512 0) (next_reply emmc_4gb) ! 213 = 0"
  "filled (replicate 512 0) (next_reply emmc_4gb) ! 214 = 0x75"
  "filled (replicate 512 0) (next_reply emmc_4gb) ! 215 = 0"
  by (simp_all add: emmc_4gb_reply ext_csd_reply_def filled_def nth_append)

lemma dead_card_reply: "next_reply dead_card = no_reply"
  by (simp add: dead_card_def controller_def script_def next_reply_def)

theorem detectCapacityMMC_capacity_witness:
  "(0x40 :: 32 word) \<le> 0xff \<and> (0xff :: 32 word) < 0xfff
   \<and> fst (detectCapacityMMC 512 7 0x40 9 dead_card) = None
   \<and> issued dead_card (snd (detectCapacityMMC 512 7 0x40 9 dead_card)) = []
   \<and> sint (BlockSize (hw_card (snd (detectCapacityMMC 512 7 0x40 9 dead_card)))) = 512
   \<and> sint (Blocks (hw_card (snd (detectCapacityMMC 512 7 0x40 9 dead_card)))) = 66560
   \<and> fault (next_reply emmc_4gb) = None
   \<and> fst (detectCapacityMMC MMC_DEFAULT_BLOCK_SIZE 7 0xfff 9 emmc_4gb) = None
   \<and> issued emmc_4gb (snd (detectCapacityMMC MMC_DEFAULT_BLOCK_SIZE 7 0xfff 9 emmc_4gb))
       = [Transfer 8 READ 0 1 512 None]
   \<and> sint (BlockSize (hw_card (snd (detectCapacityMMC MMC_DEFAULT_BLOCK_SIZE 7 0xfff 9 emmc_4gb))))
       = 512
   \<and> Blocks (hw_card (snd (detectCapacityMMC MMC_DEFAULT_BLOCK_SIZE 7 0xfff 9 emmc_4gb)))
       = 7667712
   \<and> fault (next_reply dead_card) = Some 0
   \<and> fst (detectCapacityMMC MMC_DEFAULT_BLOCK_SIZE 7 0xfff 9 dead_card) = Some (Primitive 0)
   \<and> issued dead_card (snd (detectCapacityMMC MMC_DEFAULT_BLOCK_SIZE 7 0xfff 9 dead_card))
       = [Transfer 8 READ 0 1 512 (Some 0)]
   \<and> sint (BlockSize (hw_card (snd (detectCapacityMMC MMC_DEFAULT_BLOCK_SIZE 7 0xfff 9 dead_card))))
       = 512
   \<and> Blocks (hw_card (snd (detectCapacityMMC MMC_DEFAULT_BLOCK_SIZE 7 0xfff 9 dead_card))) = 0"
proof -
  have l: "(0x40 :: 32 word) \<le> 0xff" "unat (7 :: 32 word) \<le> 7"
    "1 \<le> unat (9 :: 32 word)" "unat (9 :: 32 word) \<le> 15"
    by simp_all
  have e: "(0xff :: 32 word) < 0xfff" by simp
  have f1: "fault (next_reply emmc_4gb) = None" by (simp add: emmc_4gb_reply ext_csd_reply_def)
  have f2: "fault (next_reply dead_card) = Some 0" by (simp add: dead_card_reply no_reply_def)
  have c: "Blocks (hw_card dead_card) = 0" by (simp add: dead_card_def controller_def)
  note t1 = detectCapacityMMC_capacity [OF l refl e refl refl, where blockSize = 512
      and hwL = dead_card and c_size_mult' = 7 and read_bl_len' = 9 and hwE = emmc_4gb]
  note t2 = detectCapacityMMC_capacity [OF l refl e refl refl, where blockSize = 512
      and hwL = dead_card and c_size_mult' = 7 and read_bl_len' = 9 and hwE = dead_card]
  from t1 t2 l(1) e f1 f2 c show ?thesis
    by (simp add: emmc_4gb_bytes LittleEndian_Uint32_def)
qed

text \<open>
  C2 as the specification states it fails for \<open>read_bl_len = 0\<close>: the subtraction wraps,
  the shift count exceeds the width, and the block size is 0, where
  \<open>2 ^ (0 - 1) * 2\<close> is 1.
\<close>

theorem detectCapacityMMC_block_size_zero:
  "(0 :: 32 word) \<le> 0xff
   \<and> fst (detectCapacityMMC 512 0 0 0 emmc_4gb) = None
   \<and> sint (BlockSize (hw_card (snd (detectCapacityMMC 512 0 0 0 emmc_4gb)))) = 0
   \<and> claimed_mmc_block_size 0 = 1
   \<and> rat_of_int (sint (BlockSize (hw_card (snd (detectCapacityMMC 512 0 0 0 emmc_4gb)))))
       \<noteq> claimed_mmc_block_size 0"
  by (simp add: detectCapacityMMC_legacy go_block_size_zero claimed_mmc_block_size_def)


section \<open>Positive capacity\<close>

text \<open>
  C9, as amended.  After \<^verbatim>\<open>detectCapacitySD\<close> on an accepted CSD with \<open>read_bl_len\<close> at
  least 1 and a block count below \<open>2 ^ 31\<close>, and after the legacy path of
  \<^verbatim>\<open>detectCapacityMMC\<close> with \<open>read_bl_len\<close> from 1 to 15, block size and block count are
  positive.  After the Extended CSD path of \<^verbatim>\<open>detectCapacityMMC\<close> without error the block
  size is positive, and the block count is positive exactly when the sector-count word is
  between 1 and \<open>2 ^ 31 - 1\<close>.
\<close>

theorem capacity_positive:
  assumes sd: "fault (next_reply hw1) = None" "csd = response (next_reply hw1)"
      "bit_field csd SD_CSD_STRUCTURE 0b11 \<in> {0, 1, 2}"
      "1 \<le> unat (bit_field csd SD_CSD_READ_BL_LEN_1 0xf)"
      "csd_block_count csd < 2 ^ 31"
    and S: "S = hw_card (snd (detectCapacitySD b hw1))"
    and legacy: "c_size \<le> 0xff" "unat c_size_mult \<le> 7"
      "1 \<le> unat read_bl_len" "unat read_bl_len \<le> 15"
    and L: "L = hw_card (snd (detectCapacityMMC blockSize c_size_mult c_size read_bl_len hw2))"
    and emulation: "0xff < c_size'"
      "fst (detectCapacityMMC blockSize' c_size_mult' c_size' read_bl_len' hw3) = None"
    and E: "E = hw_card (snd (detectCapacityMMC blockSize' c_size_mult' c_size' read_bl_len' hw3))"
    and sec: "sec_count = LittleEndian_Uint32
        (drop EXT_CSD_SEC_COUNT (filled (replicate (unat blockSize') 0) (next_reply hw3)))"
  shows "0 < sint (BlockSize S) \<and> 0 < sint (Blocks S)
    \<and> 0 < sint (BlockSize L) \<and> 0 < sint (Blocks L)
    \<and> 0 < sint (BlockSize E)
    \<and> (0 < sint (Blocks E) \<longleftrightarrow> 0 < unat sec_count \<and> unat sec_count < 2 ^ 31)"
proof -
  note res = detectCapacitySD_result [OF sd(1,2,3), of b]
  have "unat (bit_field csd SD_CSD_READ_BL_LEN_1 0xf) \<le> unat (0xf :: 32 word)"
    by (rule bit_field_le)
  then have r15: "unat (bit_field csd SD_CSD_READ_BL_LEN_1 0xf) \<le> 15" by simp
  have 1: "0 < sint (BlockSize S)"
    using go_block_size [OF sd(4) r15] by (simp add: S res)
  have pos: "0 < csd_block_count csd" by (simp add: csd_block_count_def)
  have "sint (Blocks S) = int (csd_block_count csd)"
    using sint_small [OF sd(5)] by (simp add: S res)
  then have 2: "0 < sint (Blocks S)" using pos by simp
  have "unat c_size \<le> unat (0xff :: 32 word)" using legacy(1) by (simp only: word_le_nat_alt)
  then have c: "unat c_size \<le> 4095" by simp
  note l = detectCapacityMMC_legacy [OF legacy(1), of blockSize c_size_mult read_bl_len hw2]
  have 3: "0 < sint (BlockSize L)"
    using go_block_size [OF legacy(3,4)] by (simp add: L l)
  have "0 < (uint c_size + 1) * 2 ^ (unat c_size_mult + 3)" by simp
  then have 4: "0 < sint (Blocks L)"
    using go_blocks_legacy [OF c legacy(2)] by (simp add: L l)
  note e = detectCapacityMMC_emulation_ok [OF emulation]
  have "unat blockSize' < 2 ^ 31" using e by (simp add: sint_nonneg_iff)
  moreover have "0 < unat blockSize'" using e by simp
  ultimately have 5: "0 < sint (BlockSize E)" using e by (simp add: E sint_pos_iff)
  have 6: "0 < sint (Blocks E) \<longleftrightarrow> 0 < unat sec_count \<and> unat sec_count < 2 ^ 31"
    using e by (simp add: E sec sint_pos_iff)
  from 1 2 3 4 5 6 show ?thesis by blast
qed


lemma emmc_zero_sectors_reply:
  "next_reply emmc_zero_sectors = ext_csd_reply (replicate 512 0)"
  by (simp add: emmc_zero_sectors_def controller_def script_def next_reply_def)

lemma emmc_4gb_decode:
  "detectCapacityMMC 512 7 0xfff 9 emmc_4gb =
     (None, (answered (Transfer 8 READ 0 1 512 None) emmc_4gb)
        \<lparr>hw_card := (hw_card emmc_4gb)\<lparr>BlockSize := 512, Blocks := 7667712\<rparr>\<rparr>)"
proof -
  have "fault (next_reply emmc_4gb) = None" by (simp add: emmc_4gb_reply ext_csd_reply_def)
  from detectCapacityMMC_emulation [OF _ this refl, of "0xfff" 7 9]
  show ?thesis by (simp add: MMC_DEFAULT_BLOCK_SIZE_def emmc_4gb_bytes LittleEndian_Uint32_def)
qed

text \<open>
  C9 as the specification states it fails on the device whose Extended CSD is all zero:
  the decode completes without error and the block count is 0.
\<close>

theorem capacity_zero_sector_count:
  "fst (detectCapacityMMC 512 7 0xfff 9 emmc_zero_sectors) = None
   \<and> \<not> 0 < sint (Blocks (hw_card (snd (detectCapacityMMC 512 7 0xfff 9 emmc_zero_sectors))))"
proof -
  have "fault (next_reply emmc_zero_sectors) = None"
    by (simp add: emmc_zero_sectors_reply ext_csd_reply_def)
  from detectCapacityMMC_emulation [OF _ this refl, of "0xfff" 7 9]
  show ?thesis
    by (simp add: MMC_DEFAULT_BLOCK_SIZE_def emmc_zero_sectors_reply ext_csd_reply_def
        filled_def LittleEndian_Uint32_def)
qed


lemma emmc_4gb_legacy_decode:
  "detectCapacityMMC 512 7 0x40 9 emmc_4gb =
     (None, emmc_4gb\<lparr>hw_card := (hw_card emmc_4gb)\<lparr>BlockSize := 512, Blocks := 66560\<rparr>\<rparr>)"
  by (simp add: detectCapacityMMC_legacy)

theorem capacity_positive_witness:
  "fault (next_reply sd_v0_card) = None
   \<and> bit_field sd_csd_v0 SD_CSD_STRUCTURE 0b11 = 0
   \<and> bit_field sd_csd_v0 SD_CSD_READ_BL_LEN_1 0xf = 9
   \<and> csd_block_count sd_csd_v0 = 3842048
   \<and> fst (detectCapacityMMC 512 7 0xfff 9 emmc_4gb) = None
   \<and> 0 < sint (BlockSize (hw_card (snd (detectCapacitySD 512 sd_v0_card))))
   \<and> 0 < sint (Blocks (hw_card (snd (detectCapacitySD 512 sd_v0_card))))
   \<and> 0 < sint (BlockSize (hw_card (snd (detectCapacityMMC 512 7 0x40 9 emmc_4gb))))
   \<and> 0 < sint (Blocks (hw_card (snd (detectCapacityMMC 512 7 0x40 9 emmc_4gb))))
   \<and> 0 < sint (BlockSize (hw_card (snd (detectCapacityMMC 512 7 0xfff 9 emmc_4gb))))
   \<and> 0 < sint (Blocks (hw_card (snd (detectCapacityMMC 512 7 0xfff 9 emmc_4gb))))"
proof -
  have s1: "fault (next_reply sd_v0_card) = None"
    and s2: "sd_csd_v0 = response (next_reply sd_v0_card)"
    by (simp_all add: sd_v0_card_reply ok_reply_def)
  have s3: "bit_field sd_csd_v0 SD_CSD_STRUCTURE 0b11 \<in> {0, 1, 2}"
    and s4: "1 \<le> unat (bit_field sd_csd_v0 SD_CSD_READ_BL_LEN_1 0xf)"
    by (simp_all add: sd_csd_v0_fields)
  have n: "csd_block_count sd_csd_v0 = 3842048"
    by (simp add: csd_block_count_def sd_csd_v0_fields)
  have s5: "csd_block_count sd_csd_v0 < 2 ^ 31" by (simp add: n)
  have l: "(0x40 :: 32 word) \<le> 0xff" "unat (7 :: 32 word) \<le> 7"
    "1 \<le> unat (9 :: 32 word)" "unat (9 :: 32 word) \<le> 15"
    by simp_all
  have e1: "(0xff :: 32 word) < 0xfff" by simp
  have e2: "fst (detectCapacityMMC 512 7 0xfff 9 emmc_4gb) = None"
    by (simp add: emmc_4gb_decode)
  note t = capacity_positive [OF s1 s2 s3 s4 s5 refl l refl e1 e2 refl refl, of 512 512]
  have b: "0 < sint (Blocks (hw_card (snd (detectCapacityMMC 512 7 0xfff 9 emmc_4gb))))"
    by (simp add: emmc_4gb_decode)
  from t s1 n e2 b show ?thesis by (simp add: sd_csd_v0_fields)
qed

section \<open>Voltage validation: the polling loops\<close>

lemma rsp0_answered [simp]: "rsp (answered ev hw) 0 = ocr_word (next_reply hw)"
  by (simp add: rsp_def ocr_word_def)

lemma pollSD_timeout:
  "SD_DETECT_TIMEOUT < sim_now hw - start \<Longrightarrow> pollSD arg hc start hw = Some ((False, False), hw)"
  by (subst pollSD.simps) simp

lemma pollSD_wait:
  "sim_now hw - start \<le> SD_DETECT_TIMEOUT \<Longrightarrow> sim_future hw = a ## b ## s \<Longrightarrow>
   sd_busy_round (a, b) \<Longrightarrow>
   pollSD arg hc start hw = pollSD arg hc start
     (answered (Cmd 41 READ arg RSP_48 False False False 0 None)
       (answered (Cmd 55 READ 0 RSP_48 True True False 0 None) hw))"
  by (subst pollSD.simps) (simp add: cmd_def sd_busy_round_def next_reply_def)

lemma pollSD_ready:
  "sim_now hw - start \<le> SD_DETECT_TIMEOUT \<Longrightarrow> sim_future hw = a ## b ## s \<Longrightarrow>
   sd_ready_round (a, b) \<Longrightarrow>
   pollSD arg hc start hw = Some ((True, hc \<or> Get (ocr_word b) SD_OCR_HCS 1 = 1),
     (answered (Cmd 41 READ arg RSP_48 False False False 0 None)
       (answered (Cmd 55 READ 0 RSP_48 True True False 0 None) hw)))"
  by (subst pollSD.simps) (simp add: cmd_def sd_ready_round_def next_reply_def)

lemma sd_polls_Suc:
  "sd_polls arg (Suc n) = Cmd 55 READ 0 RSP_48 True True False 0 None
     # Cmd 41 READ arg RSP_48 False False False 0 None # sd_polls arg n"
  by (simp add: sd_polls_def)

lemma rounds_simps [simp]:
  "rounds [] = []" "rounds (p # ps) = fst p # snd p # rounds ps"
  by (simp_all add: rounds_def)

lemma duration_simps [simp]:
  "duration [] = 0" "duration (r # rs) = elapsed r + duration rs"
  by (simp_all add: duration_def)

lemma pollSD_rounds:
  assumes "\<forall>p\<in>set ps. sd_busy_round p" and "sd_ready_round q"
    and "sim_future hw = rounds ps @- fst q ## snd q ## rest"
    and "start \<le> sim_now hw"
    and "sim_now hw - start + duration (rounds ps) \<le> SD_DETECT_TIMEOUT"
  shows "\<exists>hw'. pollSD arg hc start hw
           = Some ((True, hc \<or> Get (ocr_word (snd q)) SD_OCR_HCS 1 = 1), hw')
         \<and> sim_trace hw' = sim_trace hw @ sd_polls arg (Suc (length ps))
         \<and> sim_future hw' = rest \<and> hw_card hw' = hw_card hw"
  using assms
proof (induction ps arbitrary: hw)
  case Nil
  then have "sd_ready_round (fst q, snd q)" by simp
  from pollSD_ready [OF _ _ this, of hw start rest arg hc] Nil
  show ?case by (simp add: sd_polls_def)
next
  case (Cons p ps)
  let ?hw2 = "answered (Cmd 41 READ arg RSP_48 False False False 0 None)
       (answered (Cmd 55 READ 0 RSP_48 True True False 0 None) hw)"
  have b: "sd_busy_round (fst p, snd p)" using Cons.prems(1) by simp
  have t: "sim_now hw - start \<le> SD_DETECT_TIMEOUT" using Cons.prems(5) by simp
  have f: "sim_future hw = fst p ## snd p ## (rounds ps @- fst q ## snd q ## rest)"
    using Cons.prems(3) by simp
  have step: "pollSD arg hc start hw = pollSD arg hc start ?hw2"
    by (rule pollSD_wait [OF t f b])
  have n: "sim_now ?hw2 = sim_now hw + elapsed (fst p) + elapsed (snd p)"
    using f by (simp add: next_reply_def)
  have "\<exists>hw'. pollSD arg hc start ?hw2
           = Some ((True, hc \<or> Get (ocr_word (snd q)) SD_OCR_HCS 1 = 1), hw')
         \<and> sim_trace hw' = sim_trace ?hw2 @ sd_polls arg (Suc (length ps))
         \<and> sim_future hw' = rest \<and> hw_card hw' = hw_card ?hw2"
  proof (rule Cons.IH)
    show "\<forall>p\<in>set ps. sd_busy_round p" using Cons.prems(1) by simp
    show "sd_ready_round q" by (rule Cons.prems(2))
    show "sim_future ?hw2 = rounds ps @- fst q ## snd q ## rest" using f by simp
    show "start \<le> sim_now ?hw2" using Cons.prems(4) n by simp
    show "sim_now ?hw2 - start + duration (rounds ps) \<le> SD_DETECT_TIMEOUT"
      using Cons.prems(4,5) n by simp
  qed
  then show ?case unfolding step by (simp add: sd_polls_Suc)
qed

lemma pollSD_expires:
  assumes "\<forall>p\<in>set ps. sd_busy_round p"
    and "sim_future hw = rounds ps @- rest"
    and "start \<le> sim_now hw"
    and "SD_DETECT_TIMEOUT < sim_now hw - start + duration (rounds ps)"
  shows "\<exists>hw'. pollSD arg hc start hw = Some ((False, False), hw')"
  using assms
proof (induction ps arbitrary: hw)
  case Nil
  then show ?case by (simp add: pollSD_timeout)
next
  case (Cons p ps)
  show ?case
  proof (cases "sim_now hw - start \<le> SD_DETECT_TIMEOUT")
    case False
    then show ?thesis by (simp add: pollSD_timeout)
  next
    case True
    let ?hw2 = "answered (Cmd 41 READ arg RSP_48 False False False 0 None)
       (answered (Cmd 55 READ 0 RSP_48 True True False 0 None) hw)"
    have b: "sd_busy_round (fst p, snd p)" using Cons.prems(1) by simp
    have f: "sim_future hw = fst p ## snd p ## (rounds ps @- rest)"
      using Cons.prems(2) by simp
    have step: "pollSD arg hc start hw = pollSD arg hc start ?hw2"
      by (rule pollSD_wait [OF True f b])
    have n: "sim_now ?hw2 = sim_now hw + elapsed (fst p) + elapsed (snd p)"
      using f by (simp add: next_reply_def)
    have "\<exists>hw'. pollSD arg hc start ?hw2 = Some ((False, False), hw')"
    proof (rule Cons.IH)
      show "\<forall>p\<in>set ps. sd_busy_round p" using Cons.prems(1) by simp
      show "sim_future ?hw2 = rounds ps @- rest" using f by simp
      show "start \<le> sim_now ?hw2" using Cons.prems(3) n by simp
      show "SD_DETECT_TIMEOUT < sim_now ?hw2 - start + duration (rounds ps)"
        using Cons.prems(3,4) n by simp
    qed
    then show ?thesis unfolding step .
  qed
qed


lemma pollMMC_timeout:
  "MMC_DETECT_TIMEOUT < sim_now hw - start \<Longrightarrow>
   pollMMC arg start hw = Some ((False, False), hw)"
  by (subst pollMMC.simps) simp

lemma pollMMC_wait:
  "sim_now hw - start \<le> MMC_DETECT_TIMEOUT \<Longrightarrow> sim_future hw = a ## s \<Longrightarrow>
   mmc_busy_reply a \<Longrightarrow>
   pollMMC arg start hw = pollMMC arg start
     (answered (Cmd 1 READ arg RSP_48 False False False 0 None) hw)"
  by (subst pollMMC.simps) (simp add: cmd_def mmc_busy_reply_def next_reply_def)

lemma pollMMC_ready:
  "sim_now hw - start \<le> MMC_DETECT_TIMEOUT \<Longrightarrow> sim_future hw = a ## s \<Longrightarrow>
   mmc_ready_reply a \<Longrightarrow>
   pollMMC arg start hw
     = Some ((True, Get (ocr_word a) MMC_OCR_ACCESS_MODE 0b11 = ACCESS_MODE_SECTOR),
             answered (Cmd 1 READ arg RSP_48 False False False 0 None) hw)"
  by (subst pollMMC.simps) (simp add: cmd_def mmc_ready_reply_def next_reply_def)

lemma pollMMC_rounds:
  assumes "\<forall>x\<in>set rs. mmc_busy_reply x" and "mmc_ready_reply r"
    and "sim_future hw = rs @- r ## rest"
    and "start \<le> sim_now hw"
    and "sim_now hw - start + duration rs \<le> MMC_DETECT_TIMEOUT"
  shows "\<exists>hw'. pollMMC arg start hw
           = Some ((True, Get (ocr_word r) MMC_OCR_ACCESS_MODE 0b11 = ACCESS_MODE_SECTOR), hw')
         \<and> sim_trace hw' = sim_trace hw @ mmc_polls arg (Suc (length rs))
         \<and> sim_future hw' = rest \<and> hw_card hw' = hw_card hw"
  using assms
proof (induction rs arbitrary: hw)
  case Nil
  from pollMMC_ready [OF _ _ Nil(2), of hw start rest arg] Nil
  show ?case by (simp add: mmc_polls_def)
next
  case (Cons x rs)
  let ?hw2 = "answered (Cmd 1 READ arg RSP_48 False False False 0 None) hw"
  have b: "mmc_busy_reply x" using Cons.prems(1) by simp
  have t: "sim_now hw - start \<le> MMC_DETECT_TIMEOUT" using Cons.prems(5) by simp
  have f: "sim_future hw = x ## (rs @- r ## rest)" using Cons.prems(3) by simp
  have step: "pollMMC arg start hw = pollMMC arg start ?hw2"
    by (rule pollMMC_wait [OF t f b])
  have n: "sim_now ?hw2 = sim_now hw + elapsed x"
    using f by (simp add: next_reply_def)
  have "\<exists>hw'. pollMMC arg start ?hw2
           = Some ((True, Get (ocr_word r) MMC_OCR_ACCESS_MODE 0b11 = ACCESS_MODE_SECTOR), hw')
         \<and> sim_trace hw' = sim_trace ?hw2 @ mmc_polls arg (Suc (length rs))
         \<and> sim_future hw' = rest \<and> hw_card hw' = hw_card ?hw2"
  proof (rule Cons.IH)
    show "\<forall>x\<in>set rs. mmc_busy_reply x" using Cons.prems(1) by simp
    show "mmc_ready_reply r" by (rule Cons.prems(2))
    show "sim_future ?hw2 = rs @- r ## rest" using f by simp
    show "start \<le> sim_now ?hw2" using Cons.prems(4) n by simp
    show "sim_now ?hw2 - start + duration rs \<le> MMC_DETECT_TIMEOUT"
      using Cons.prems(4,5) n by simp
  qed
  then show ?case unfolding step by (simp add: mmc_polls_def)
qed

lemma pollMMC_expires:
  assumes "\<forall>x\<in>set rs. mmc_busy_reply x"
    and "sim_future hw = rs @- rest"
    and "start \<le> sim_now hw"
    and "MMC_DETECT_TIMEOUT < sim_now hw - start + duration rs"
  shows "\<exists>hw'. pollMMC arg start hw = Some ((False, False), hw')"
  using assms
proof (induction rs arbitrary: hw)
  case Nil
  then show ?case by (simp add: pollMMC_timeout)
next
  case (Cons x rs)
  show ?case
  proof (cases "sim_now hw - start \<le> MMC_DETECT_TIMEOUT")
    case False
    then show ?thesis by (simp add: pollMMC_timeout)
  next
    case True
    let ?hw2 = "answered (Cmd 1 READ arg RSP_48 False False False 0 None) hw"
    have b: "mmc_busy_reply x" using Cons.prems(1) by simp
    have f: "sim_future hw = x ## (rs @- rest)" using Cons.prems(2) by simp
    have step: "pollMMC arg start hw = pollMMC arg start ?hw2"
      by (rule pollMMC_wait [OF True f b])
    have n: "sim_now ?hw2 = sim_now hw + elapsed x"
      using f by (simp add: next_reply_def)
    have "\<exists>hw'. pollMMC arg start ?hw2 = Some ((False, False), hw')"
    proof (rule Cons.IH)
      show "\<forall>x\<in>set rs. mmc_busy_reply x" using Cons.prems(1) by simp
      show "sim_future ?hw2 = rs @- rest" using f by simp
      show "start \<le> sim_now ?hw2" using Cons.prems(3) n by simp
      show "MMC_DETECT_TIMEOUT < sim_now ?hw2 - start + duration rs"
        using Cons.prems(3,4) n by simp
    qed
    then show ?thesis unfolding step .
  qed
qed

lemma voltageValidationMMC_poll:
  "voltageValidationMMC hw0
     = pollMMC ocrMMC (sim_now (sleep (1 * Millisecond) hw0)) (sleep (1 * Millisecond) hw0)"
  by (simp add: voltageValidationMMC_def ocrMMC_def Let_def)

lemma sleep_sel [simp]:
  "sim_future (sleep d hw) = sim_future hw"
  "sim_trace (sleep d hw) = sim_trace hw @ [Sleep d]"
  "hw_card (sleep d hw) = hw_card hw"
  by (simp_all add: sleep_def)

text \<open>
  C5.  Let the card answer \<open>N\<close> rounds of CMD55 and ACMD41 (\<open>N\<close> answers to CMD1 for eMMC)
  without error and with the busy bit clear, and the next round with the busy bit set, and
  let round \<open>N + 1\<close> start no later than one second after loop entry.  Then
  \<^verbatim>\<open>voltageValidationSD\<close> returns success after exactly \<open>N + 1\<close> CMD55/ACMD41 pairs, and
  \<^verbatim>\<open>voltageValidationMMC\<close> after its sleep and exactly \<open>N + 1\<close> CMD1 commands.  If the
  card answers with the busy bit clear until more than one second has passed, both return
  \<open>(False, False)\<close>; in particular they return.
\<close>

theorem voltageValidation_polling:
  assumes A: "probeSD hwa = ((hc, hv), hwa1)"
      "sim_future hwa1 = rounds ps @- fst q ## snd q ## resta"
      "\<forall>p\<in>set ps. sd_busy_round p" "sd_ready_round q"
      "duration (rounds ps) \<le> SD_DETECT_TIMEOUT"
    and B: "sim_future hwb = rs @- r ## restb"
      "\<forall>x\<in>set rs. mmc_busy_reply x" "mmc_ready_reply r"
      "duration rs \<le> MMC_DETECT_TIMEOUT"
    and C: "probeSD hwc = ((hc', hv'), hwc1)"
      "sim_future hwc1 = rounds ps' @- restc"
      "\<forall>p\<in>set ps'. sd_busy_round p"
      "SD_DETECT_TIMEOUT < duration (rounds ps')"
    and D: "sim_future hwd = rs' @- restd"
      "\<forall>x\<in>set rs'. mmc_busy_reply x"
      "MMC_DETECT_TIMEOUT < duration rs'"
  shows "(\<exists>hw'. voltageValidationSD hwa
             = Some ((True, hc \<or> Get (ocr_word (snd q)) SD_OCR_HCS 1 = 1), hw')
           \<and> issued hwa1 hw' = sd_polls (ocrSD hc hv) (length ps + 1))
    \<and> (\<exists>hw'. voltageValidationMMC hwb
             = Some ((True, Get (ocr_word r) MMC_OCR_ACCESS_MODE 0b11 = ACCESS_MODE_SECTOR), hw')
           \<and> issued hwb hw' = Sleep (1 * Millisecond) # mmc_polls ocrMMC (length rs + 1))
    \<and> (\<exists>hw'. voltageValidationSD hwc = Some ((False, False), hw'))
    \<and> (\<exists>hw'. voltageValidationMMC hwd = Some ((False, False), hw'))"
proof -
  have a: "voltageValidationSD hwa = pollSD (ocrSD hc hv) hc (sim_now hwa1) hwa1"
    by (simp add: voltageValidationSD_def A(1))
  from pollSD_rounds [OF A(3,4,2), of "sim_now hwa1" "ocrSD hc hv" hc] A(5)
  have 1: "\<exists>hw'. voltageValidationSD hwa
             = Some ((True, hc \<or> Get (ocr_word (snd q)) SD_OCR_HCS 1 = 1), hw')
           \<and> issued hwa1 hw' = sd_polls (ocrSD hc hv) (length ps + 1)"
    unfolding a by (auto simp: issued_def)
  let ?hwb = "sleep (1 * Millisecond) hwb"
  have fb: "sim_future ?hwb = rs @- r ## restb" using B(1) by simp
  from pollMMC_rounds [OF B(2,3) fb, of "sim_now ?hwb" ocrMMC] B(4)
  have 2: "\<exists>hw'. voltageValidationMMC hwb
             = Some ((True, Get (ocr_word r) MMC_OCR_ACCESS_MODE 0b11 = ACCESS_MODE_SECTOR), hw')
           \<and> issued hwb hw' = Sleep (1 * Millisecond) # mmc_polls ocrMMC (length rs + 1)"
    unfolding voltageValidationMMC_poll by (auto simp: issued_def)
  have c: "voltageValidationSD hwc = pollSD (ocrSD hc' hv') hc' (sim_now hwc1) hwc1"
    by (simp add: voltageValidationSD_def C(1))
  from pollSD_expires [OF C(3,2), of "sim_now hwc1" "ocrSD hc' hv'" hc'] C(4)
  have 3: "\<exists>hw'. voltageValidationSD hwc = Some ((False, False), hw')"
    unfolding c by simp
  let ?hwd = "sleep (1 * Millisecond) hwd"
  have fd: "sim_future ?hwd = rs' @- restd" using D(1) by simp
  from pollMMC_expires [OF D(2) fd, of "sim_now ?hwd" ocrMMC] D(3)
  have 4: "\<exists>hw'. voltageValidationMMC hwd = Some ((False, False), hw')"
    unfolding voltageValidationMMC_poll by simp
  from 1 2 3 4 show ?thesis by blast
qed

lemma replies_ok [simp]:
  "fault cmd8_echo = None" "fault app_cmd_ok = None" "fault ocr_busy = None"
  "fault ocr_ready_hc = None" "fault ocr_ready_sc = None" "fault ocr_ready_sector = None"
  "fault (slow r) = fault r" "response (slow r) = response r"
  "elapsed (slow r) = 600000000" "elapsed (ok_reply w) = 1000"
  "elapsed cmd8_echo = 1000" "elapsed app_cmd_ok = 1000" "elapsed ocr_busy = 1000"
  "elapsed ocr_ready_hc = 1000" "elapsed ocr_ready_sc = 1000" "elapsed ocr_ready_sector = 1000"
  by (simp_all add: cmd8_echo_def app_cmd_ok_def ocr_busy_def ocr_ready_hc_def ocr_ready_sc_def
      ocr_ready_sector_def ok_reply_def slow_def)

lemma ocr_word_slow [simp]: "ocr_word (slow r) = ocr_word r"
  by (simp add: ocr_word_def)

lemma sample_rounds [simp]:
  "sd_busy_round (app_cmd_ok, ocr_busy)"
  "sd_busy_round (slow app_cmd_ok, slow ocr_busy)"
  "sd_ready_round (app_cmd_ok, ocr_ready_hc)"
  "sd_ready_round (app_cmd_ok, ocr_ready_sc)"
  "mmc_busy_reply ocr_busy" "mmc_busy_reply (slow ocr_busy)"
  "mmc_ready_reply ocr_ready_sector"
  by (simp_all add: sd_busy_round_def sd_ready_round_def mmc_busy_reply_def mmc_ready_reply_def)
     (simp_all add: ocr_word_def ocr_busy_def ocr_ready_hc_def ocr_ready_sc_def
      ocr_ready_sector_def ok_reply_def Get_def SD_OCR_BUSY_def MMC_OCR_BUSY_def)

lemma sample_bits:
  "Get (ocr_word ocr_ready_hc) SD_OCR_HCS 1 = 1"
  "Get (ocr_word ocr_ready_sc) SD_OCR_HCS 1 = 0"
  "Get (ocr_word ocr_ready_sector) MMC_OCR_ACCESS_MODE 0b11 = ACCESS_MODE_SECTOR"
  by (simp_all add: ocr_word_def ocr_ready_hc_def ocr_ready_sc_def ocr_ready_sector_def
      ok_reply_def Get_def SD_OCR_HCS_def MMC_OCR_ACCESS_MODE_def ACCESS_MODE_SECTOR_def)

lemma probeSD_echo:
  assumes "sim_future hw = cmd8_echo ## s"
  shows "probeSD hw = ((True, True),
    answered (Cmd 8 READ 0x1aa RSP_48 True True False 0 None) hw)"
  using assms
  by (simp add: probeSD_def Let_def cmd_def next_reply_def SetN_def CMD8_ARG_VHS_def
      VHS_HIGH_def CMD8_ARG_CHECK_PATTERN_def CHECK_PATTERN_def ocr_word_def cmd8_echo_def
      ok_reply_def)


lemma script_future [simp]: "sim_future (controller n w (script rs)) = rs @- sconst no_reply"
  by (simp add: controller_def script_def)

lemma controller_sel [simp]:
  "sim_trace (controller n w f) = []" "sim_now (controller n w f) = 0"
  by (simp_all add: controller_def)

theorem voltageValidation_polling_witness:
  "(\<exists>hw'. voltageValidationSD sd_two_waits = Some ((True, True), hw')
         \<and> issued (snd (probeSD sd_two_waits)) hw' = sd_polls (ocrSD True True) 3)
   \<and> (\<exists>hw'. voltageValidationMMC mmc_two_waits = Some ((True, True), hw')
         \<and> issued mmc_two_waits hw' = Sleep (1 * Millisecond) # mmc_polls ocrMMC 3)
   \<and> (\<exists>hw'. voltageValidationSD sd_never_ready = Some ((False, False), hw'))
   \<and> (\<exists>hw'. voltageValidationMMC mmc_never_ready = Some ((False, False), hw'))"
proof -
  have a1: "probeSD sd_two_waits = ((True, True), snd (probeSD sd_two_waits))"
    by (simp add: probeSD_echo sd_two_waits_def)
  have a2: "sim_future (snd (probeSD sd_two_waits))
      = rounds [(app_cmd_ok, ocr_busy), (app_cmd_ok, ocr_busy)]
          @- fst (app_cmd_ok, ocr_ready_hc) ## snd (app_cmd_ok, ocr_ready_hc) ## sconst no_reply"
    by (simp add: probeSD_echo sd_two_waits_def)
  have a3: "\<forall>p\<in>set [(app_cmd_ok, ocr_busy), (app_cmd_ok, ocr_busy)]. sd_busy_round p"
    by simp
  have a4: "sd_ready_round (app_cmd_ok, ocr_ready_hc)" by simp
  have a5: "duration (rounds [(app_cmd_ok, ocr_busy), (app_cmd_ok, ocr_busy)]) \<le> SD_DETECT_TIMEOUT"
    by (simp add: SD_DETECT_TIMEOUT_def Second_def app_cmd_ok_def ocr_busy_def)
  have b1: "sim_future mmc_two_waits = [ocr_busy, ocr_busy] @- ocr_ready_sector ## sconst no_reply"
    by (simp add: mmc_two_waits_def)
  have b2: "\<forall>x\<in>set [ocr_busy, ocr_busy]. mmc_busy_reply x" by simp
  have b3: "mmc_ready_reply ocr_ready_sector" by simp
  have b4: "duration [ocr_busy, ocr_busy] \<le> MMC_DETECT_TIMEOUT"
    by (simp add: MMC_DETECT_TIMEOUT_def Second_def ocr_busy_def)
  have c1: "probeSD sd_never_ready = ((True, True), snd (probeSD sd_never_ready))"
    by (simp add: probeSD_echo sd_never_ready_def)
  have c2: "sim_future (snd (probeSD sd_never_ready))
      = rounds [(slow app_cmd_ok, slow ocr_busy)] @- [app_cmd_ok, ocr_busy] @- sconst no_reply"
    by (simp add: probeSD_echo sd_never_ready_def)
  have c3: "\<forall>p\<in>set [(slow app_cmd_ok, slow ocr_busy)]. sd_busy_round p" by simp
  have c4: "SD_DETECT_TIMEOUT < duration (rounds [(slow app_cmd_ok, slow ocr_busy)])"
    by (simp add: SD_DETECT_TIMEOUT_def Second_def)
  have d1: "sim_future mmc_never_ready
      = [slow ocr_busy, slow ocr_busy] @- [ocr_busy] @- sconst no_reply"
    by (simp add: mmc_never_ready_def)
  have d2: "\<forall>x\<in>set [slow ocr_busy, slow ocr_busy]. mmc_busy_reply x" by simp
  have d3: "MMC_DETECT_TIMEOUT < duration [slow ocr_busy, slow ocr_busy]"
    by (simp add: MMC_DETECT_TIMEOUT_def Second_def)
  from voltageValidation_polling [OF a1 a2 a3 a4 a5 b1 b2 b3 b4 c1 c2 c3 c4 d1 d2 d3]
  show ?thesis by (simp add: sample_bits numeral_3_eq_3)
qed


lemma voltageValidationSD_echo:
  assumes "sim_future hw = cmd8_echo ## s"
  shows "voltageValidationSD hw = pollSD (ocrSD True True) True (sim_now hw + 1000)
           (answered (Cmd 8 READ 0x1aa RSP_48 True True False 0 None) hw)"
  using assms by (simp add: voltageValidationSD_def probeSD_echo next_reply_def)

text \<open>
  C7 on an SD 2.x card of standard capacity: the card echoes CMD8, so the probe sets
  \<open>hc\<close>; its ACMD41 response has the busy bit set and the capacity bit clear; the loop
  ends with success and returns \<open>hc = True\<close>, not the capacity bit of that response.
\<close>

theorem voltageValidationSD_standard_capacity:
  "sd_ready_round (app_cmd_ok, ocr_ready_sc)
   \<and> Get (ocr_word ocr_ready_sc) SD_OCR_HCS 1 = 0
   \<and> (\<exists>hw'. voltageValidationSD sd_standard_capacity = Some ((True, True), hw'))"
proof -
  let ?hw = "answered (Cmd 8 READ 0x1aa RSP_48 True True False 0 None) sd_standard_capacity"
  have f: "sim_future ?hw = rounds [] @- fst (app_cmd_ok, ocr_ready_sc)
      ## snd (app_cmd_ok, ocr_ready_sc) ## sconst no_reply"
    by (simp add: sd_standard_capacity_def)
  have v: "voltageValidationSD sd_standard_capacity = pollSD (ocrSD True True) True 1000 ?hw"
    by (simp add: voltageValidationSD_echo sd_standard_capacity_def)
  have n: "sim_now ?hw = 1000"
    by (simp add: sd_standard_capacity_def next_reply_def)
  from pollSD_rounds [OF _ _ f, of 1000 "ocrSD True True" True] n
  have "\<exists>hw'. pollSD (ocrSD True True) True 1000 ?hw = Some ((True, True), hw')"
    by (auto simp: SD_DETECT_TIMEOUT_def Second_def)
  then show ?thesis unfolding v by (simp add: sample_bits)
qed

lemma pollSD_failure:
  assumes "pollSD arg hc start hw = Some y"
  shows "\<not> fst (fst y) \<longrightarrow> \<not> snd (fst y)"
  by (rule pollSD.raw_induct [rotated 1, OF assms])
     (auto split: if_splits prod.splits option.splits)

lemma pollMMC_failure:
  assumes "pollMMC arg start hw = Some y"
  shows "\<not> fst (fst y) \<longrightarrow> \<not> snd (fst y)"
  by (rule pollMMC.raw_induct [rotated 1, OF assms])
     (auto split: if_splits prod.splits option.splits)

lemma pollSD_fault55:
  "sim_now hw - start \<le> SD_DETECT_TIMEOUT \<Longrightarrow> fault (next_reply hw) = Some e \<Longrightarrow>
   pollSD arg hc start hw
     = Some ((False, False), answered (Cmd 55 READ 0 RSP_48 True True False 0 (Some e)) hw)"
  by (subst pollSD.simps) (simp add: cmd_def)

lemma pollSD_fault41:
  "sim_now hw - start \<le> SD_DETECT_TIMEOUT \<Longrightarrow> fault (next_reply hw) = None \<Longrightarrow>
   fault (shd (stl (sim_future hw))) = Some e \<Longrightarrow>
   pollSD arg hc start hw = Some ((False, False),
     answered (Cmd 41 READ arg RSP_48 False False False 0 (Some e))
       (answered (Cmd 55 READ 0 RSP_48 True True False 0 None) hw))"
  by (subst pollSD.simps) (simp add: cmd_def)

lemma pollMMC_fault:
  "sim_now hw - start \<le> MMC_DETECT_TIMEOUT \<Longrightarrow> fault (next_reply hw) = Some e \<Longrightarrow>
   pollMMC arg start hw
     = Some ((False, False), answered (Cmd 1 READ arg RSP_48 False False False 0 (Some e)) hw)"
  by (subst pollMMC.simps) (simp add: cmd_def)


text \<open>
  C8, as amended.  In the loops of both drivers a deadline that has passed, a failed CMD55,
  a failed ACMD41 and a failed CMD1 all give the result \<open>(False, False)\<close>, and every
  failing result of \<^verbatim>\<open>voltageValidationSD\<close> and \<^verbatim>\<open>voltageValidationMMC\<close> is
  \<open>(False, False)\<close>: the result does not tell a deadline expiry from a command failure.
\<close>

theorem polling_failures_alike:
  assumes T: "SD_DETECT_TIMEOUT < sim_now hw1 - start1"
    and F: "sim_now hw2 - start2 \<le> SD_DETECT_TIMEOUT" "fault (next_reply hw2) = Some e2"
    and G: "sim_now hw3 - start3 \<le> SD_DETECT_TIMEOUT" "fault (next_reply hw3) = None"
      "fault (shd (stl (sim_future hw3))) = Some e3"
    and T': "MMC_DETECT_TIMEOUT < sim_now hw4 - start4"
    and F': "sim_now hw5 - start5 \<le> MMC_DETECT_TIMEOUT" "fault (next_reply hw5) = Some e5"
    and S: "voltageValidationSD hw6 = Some ((sd, hc6), hw6')" "\<not> sd"
    and M: "voltageValidationMMC hw7 = Some ((mmc, hc7), hw7')" "\<not> mmc"
  shows "map_option fst (pollSD a1 h1 start1 hw1) = Some (False, False)
    \<and> map_option fst (pollSD a2 h2 start2 hw2) = Some (False, False)
    \<and> map_option fst (pollSD a3 h3 start3 hw3) = Some (False, False)
    \<and> map_option fst (pollMMC a4 start4 hw4) = Some (False, False)
    \<and> map_option fst (pollMMC a5 start5 hw5) = Some (False, False)
    \<and> \<not> hc6 \<and> \<not> hc7"
proof -
  have 1: "map_option fst (pollSD a1 h1 start1 hw1) = Some (False, False)"
    by (simp add: pollSD_timeout [OF T])
  have 2: "map_option fst (pollSD a2 h2 start2 hw2) = Some (False, False)"
    by (simp add: pollSD_fault55 [OF F])
  have 3: "map_option fst (pollSD a3 h3 start3 hw3) = Some (False, False)"
    by (simp add: pollSD_fault41 [OF G])
  have 4: "map_option fst (pollMMC a4 start4 hw4) = Some (False, False)"
    by (simp add: pollMMC_timeout [OF T'])
  have 5: "map_option fst (pollMMC a5 start5 hw5) = Some (False, False)"
    by (simp add: pollMMC_fault [OF F'])
  obtain h v hw where p: "probeSD hw6 = ((h, v), hw)" by (metis prod.exhaust)
  have "pollSD (ocrSD h v) h (sim_now hw) hw = Some ((sd, hc6), hw6')"
    using S(1) by (simp add: voltageValidationSD_def p)
  from pollSD_failure [OF this] S(2) have 6: "\<not> hc6" by simp
  from pollMMC_failure [OF M(1) [unfolded voltageValidationMMC_poll]] M(2)
  have 7: "\<not> hc7" by simp
  from 1 2 3 4 5 6 7 show ?thesis by blast
qed

lemma sd_silent_run:
  "voltageValidationSD sd_silent = Some ((False, False),
     answered (Cmd 55 READ 0 RSP_48 True True False 0 (Some 0))
       (answered (Cmd 8 READ 0x1aa RSP_48 True True False 0 None) sd_silent))"
proof -
  have "voltageValidationSD sd_silent = pollSD (ocrSD True True) True 1000
           (answered (Cmd 8 READ 0x1aa RSP_48 True True False 0 None) sd_silent)"
    by (simp add: voltageValidationSD_echo sd_silent_def)
  also have "\<dots> = Some ((False, False),
     answered (Cmd 55 READ 0 RSP_48 True True False 0 (Some 0))
       (answered (Cmd 8 READ 0x1aa RSP_48 True True False 0 None) sd_silent))"
    by (rule pollSD_fault55)
       (simp_all add: sd_silent_def next_reply_def SD_DETECT_TIMEOUT_def Second_def no_reply_def)
  finally show ?thesis .
qed

lemma sd_never_ready_run:
  "voltageValidationSD sd_never_ready = Some ((False, False),
     answered (Cmd 41 READ (ocrSD True True) RSP_48 False False False 0 None)
       (answered (Cmd 55 READ 0 RSP_48 True True False 0 None)
         (answered (Cmd 8 READ 0x1aa RSP_48 True True False 0 None) sd_never_ready)))"
proof -
  let ?hw1 = "answered (Cmd 8 READ 0x1aa RSP_48 True True False 0 None) sd_never_ready"
  let ?hw2 = "answered (Cmd 41 READ (ocrSD True True) RSP_48 False False False 0 None)
       (answered (Cmd 55 READ 0 RSP_48 True True False 0 None) ?hw1)"
  have "voltageValidationSD sd_never_ready = pollSD (ocrSD True True) True 1000 ?hw1"
    by (simp add: voltageValidationSD_echo sd_never_ready_def)
  also have "\<dots> = pollSD (ocrSD True True) True 1000 ?hw2"
    by (rule pollSD_wait [where a = "slow app_cmd_ok" and b = "slow ocr_busy"])
       (simp_all add: sd_never_ready_def next_reply_def SD_DETECT_TIMEOUT_def Second_def)
  also have "\<dots> = Some ((False, False), ?hw2)"
    by (rule pollSD_timeout)
       (simp add: sd_never_ready_def next_reply_def SD_DETECT_TIMEOUT_def Second_def)
  finally show ?thesis .
qed

text \<open>
  C8 as the specification states it fails: a card that stays busy until 1.2 seconds have
  passed, with no failed call, and a card that stops responding at the first CMD55 after
  2 microseconds give the same result.
\<close>

theorem voltageValidationSD_failures_indistinguishable:
  "map_option fst (voltageValidationSD sd_never_ready) = Some (False, False)
   \<and> map_option (filter failed \<circ> sim_trace \<circ> snd) (voltageValidationSD sd_never_ready) = Some []
   \<and> map_option (sim_now \<circ> snd) (voltageValidationSD sd_never_ready) = Some 1200001000
   \<and> map_option fst (voltageValidationSD sd_silent) = Some (False, False)
   \<and> map_option (filter failed \<circ> sim_trace \<circ> snd) (voltageValidationSD sd_silent)
       = Some [Cmd 55 READ 0 RSP_48 True True False 0 (Some 0)]
   \<and> map_option (sim_now \<circ> snd) (voltageValidationSD sd_silent) = Some 2000"
  by (simp add: sd_never_ready_run sd_silent_run)
     (simp add: sd_never_ready_def sd_silent_def next_reply_def no_reply_def)

lemma dead_card_run:
  "voltageValidationMMC dead_card = Some ((False, False),
     answered (Cmd 1 READ ocrMMC RSP_48 False False False 0 (Some 0))
       (sleep (1 * Millisecond) dead_card))"
  unfolding voltageValidationMMC_poll
  by (rule pollMMC_fault)
     (simp_all add: dead_card_def next_reply_def MMC_DETECT_TIMEOUT_def Second_def no_reply_def
        sleep_def controller_def script_def)

theorem polling_failures_alike_witness:
  "map_option fst (pollSD 0 True 0 (sleep (2 * Second) dead_card)) = Some (False, False)
   \<and> map_option fst (pollSD 0 True 0 dead_card) = Some (False, False)
   \<and> map_option fst (pollSD 0 True 0 sd_half_round) = Some (False, False)
   \<and> map_option fst (pollMMC 0 0 (sleep (2 * Second) dead_card)) = Some (False, False)
   \<and> map_option fst (pollMMC 0 0 dead_card) = Some (False, False)
   \<and> map_option fst (voltageValidationSD sd_silent) = Some (False, False)
   \<and> map_option fst (voltageValidationMMC dead_card) = Some (False, False)"
proof -
  have T: "SD_DETECT_TIMEOUT < sim_now (sleep (2 * Second) dead_card) - 0"
    and T': "MMC_DETECT_TIMEOUT < sim_now (sleep (2 * Second) dead_card) - 0"
    by (simp_all add: sleep_def dead_card_def SD_DETECT_TIMEOUT_def MMC_DETECT_TIMEOUT_def
        Second_def)
  have F: "sim_now dead_card - 0 \<le> SD_DETECT_TIMEOUT" "fault (next_reply dead_card) = Some 0"
    and F': "sim_now dead_card - 0 \<le> MMC_DETECT_TIMEOUT" "fault (next_reply dead_card) = Some 0"
    by (simp_all add: dead_card_def next_reply_def no_reply_def)
  have G: "sim_now sd_half_round - 0 \<le> SD_DETECT_TIMEOUT"
    "fault (next_reply sd_half_round) = None"
    "fault (shd (stl (sim_future sd_half_round))) = Some 0"
    by (simp_all add: sd_half_round_def next_reply_def no_reply_def)
  have n: "\<not> False" by simp
  from polling_failures_alike [OF T F G T' F' sd_silent_run n dead_card_run n,
      of 0 True 0 True 0 True 0 0]
  show ?thesis by (simp add: sd_silent_run dead_card_run)
qed

section \<open>SD initialization: the high-speed switch\<close>

lemma initSD_staged:
  "initSD K hw0 =
     (case cmd 2 READ 0 RSP_136 False True False 0 hw0 of
        (Some e, hw) \<Rightarrow> (Some (Primitive e), hw)
      | (None, hw) \<Rightarrow>
     (case cmd 3 READ 0 RSP_48 True True False 0 hw of
        (Some e, hw) \<Rightarrow> (Some (Primitive e), hw)
      | (None, hw) \<Rightarrow>
     (let state = drop_bit (STATUS_CURRENT_STATE K) (rsp hw 0) AND 0b1111 in
      if state \<noteq> CURRENT_STATE_IDENT K then (Some (NotIdentState state), hw)
      else
     (let hw = setClock 0 0 hw;
          hw = setClock (DVS_OP K) (SDCLKFS_OP K) hw;
          hw = hw\<lparr>hw_rca := rsp hw 0 AND push_bit RCA_ADDR 0xffff\<rparr>
      in
     (case detectCapacitySD SD_DEFAULT_BLOCK_SIZE hw of
        (Some e, hw) \<Rightarrow> (Some e, hw)
      | (None, hw) \<Rightarrow> sd_select K hw)))))"
  unfolding initSD_def sd_select_def sd_width_def sd_switch_def by (rule refl)


lemma setClock_sel [simp]:
  "hw_n (setClock a b hw) = hw_n hw"
  "hw_width (setClock a b hw) = hw_width hw"
  "hw_rca (setClock a b hw) = hw_rca hw"
  "hw_card (setClock a b hw) = hw_card hw"
  "sim_rsp (setClock a b hw) = sim_rsp hw"
  "sim_now (setClock a b hw) = sim_now hw"
  "sim_future (setClock a b hw) = sim_future hw"
  "sim_trace (setClock a b hw) = sim_trace hw @ [SetClock a b]"
  "next_reply (setClock a b hw) = next_reply hw"
  "rsp (setClock a b hw) i = rsp hw i"
  "rspVal (setClock a b hw) p m = rspVal hw p m"
  by (simp_all add: setClock_def next_reply_def rsp_def rspVal_def)

lemma sd_switch_arg:
  "SetN (SetN 0xffffffff SD_SWITCH_MODE 1 MODE_SWITCH) SD_SWITCH_ACCESS_MODE 0b1111 ACCESS_MODE_HS
     = 0xfffffff1"
  by (simp add: SetN_def SD_SWITCH_MODE_def MODE_SWITCH_def SD_SWITCH_ACCESS_MODE_def
      ACCESS_MODE_HS_def)

lemma hs_outcome_stop: "before_switch P \<Longrightarrow> HS c = h \<Longrightarrow> hs_outcome K h r c P"
  by (auto simp: hs_outcome_def before_switch_def)

lemma hs_outcome_prefix:
  assumes "hs_outcome K h r c evs" "before_switch P"
  shows "hs_outcome K h r c (P @ evs)"
proof -
  have "\<exists>pre. P @ evs = pre @ [sd_switch_wait K (Some e), SetClock 0 0,
                              SetClock (DVS_HS K) (SDCLKFS_HS_SDR K)]"
    if "evs = pre' @ [sd_switch_wait K (Some e), SetClock 0 0,
                              SetClock (DVS_HS K) (SDCLKFS_HS_SDR K)]" for e pre'
    using that by (intro exI [of _ "P @ pre'"]) simp
  then show ?thesis using assms
    by (auto simp: hs_outcome_def before_switch_def)
qed

lemma sd_switch_run:
  "\<exists>evs. sim_trace (snd (sd_switch K hw)) = sim_trace hw @ evs
     \<and> hs_outcome K (HS (hw_card hw)) (fst (sd_switch K hw)) (hw_card (snd (sd_switch K hw))) evs"
proof (cases "fault (next_reply hw)")
  case (Some e)
  then show ?thesis
    by (simp add: sd_switch_def sd_switch_arg cmd_def hs_outcome_def sd_switch_ok_def
        sd_switch_wait_def)
next
  case None
  show ?thesis
  proof (cases "fault (shd (stl (sim_future hw)))")
    case n: None
    with None show ?thesis
      by (simp add: sd_switch_def sd_switch_arg cmd_def waitState_def hs_outcome_def
          sd_switch_ok_def sd_switch_wait_def)
  next
    case (Some e)
    with None show ?thesis
      by (simp add: sd_switch_def sd_switch_arg cmd_def waitState_def hs_outcome_def
          sd_switch_ok_def sd_switch_wait_def)
  qed
qed


lemma hs_continue:
  assumes "sim_trace hw1 = sim_trace hw @ P" "before_switch P"
    and "HS (hw_card hw1) = HS (hw_card hw)"
    and "\<exists>evs. sim_trace (snd res) = sim_trace hw1 @ evs
           \<and> hs_outcome K (HS (hw_card hw1)) (fst res) (hw_card (snd res)) evs"
  shows "\<exists>evs. sim_trace (snd res) = sim_trace hw @ evs
           \<and> hs_outcome K (HS (hw_card hw)) (fst res) (hw_card (snd res)) evs"
proof -
  from assms(4) obtain evs where e: "sim_trace (snd res) = sim_trace hw1 @ evs"
    "hs_outcome K (HS (hw_card hw1)) (fst res) (hw_card (snd res)) evs" by blast
  have "sim_trace (snd res) = sim_trace hw @ (P @ evs)" using e(1) assms(1) by simp
  moreover have "hs_outcome K (HS (hw_card hw)) (fst res) (hw_card (snd res)) (P @ evs)"
    using hs_outcome_prefix [OF e(2) assms(2)] assms(3) by simp
  ultimately show ?thesis by blast
qed

lemma hs_stop:
  assumes "sim_trace hw1 = sim_trace hw @ P" "before_switch P"
    and "HS (hw_card hw1) = HS (hw_card hw)"
  shows "\<exists>evs. sim_trace (snd (r, hw1)) = sim_trace hw @ evs
           \<and> hs_outcome K (HS (hw_card hw)) (fst (r, hw1)) (hw_card (snd (r, hw1))) evs"
  using assms hs_outcome_stop [OF assms(2), of "hw_card hw1" "HS (hw_card hw)" K r] by auto

lemma before_switch_simps [simp]:
  "before_switch []"
  "before_switch (Cmd i d a k b1 b2 b3 n (Some e) # P) = before_switch P"
  "i \<noteq> 6 \<Longrightarrow> before_switch (Cmd i d a k b1 b2 b3 n r # P) = before_switch P"
  "a \<noteq> 0xfffffff1 \<Longrightarrow> before_switch (Cmd i d a k b1 b2 b3 n r # P) = before_switch P"
  "before_switch (SetClock x y # P) = before_switch P"
  "before_switch (WaitState st t None # P) = before_switch P"
  "t \<noteq> 500 * Millisecond \<Longrightarrow> before_switch (WaitState st t r # P) = before_switch P"
  by (auto simp: before_switch_def sd_switch_ok_def sd_switch_wait_def)

lemma sd_width_run:
  "\<exists>evs. sim_trace (snd (sd_width K hw)) = sim_trace hw @ evs
     \<and> hs_outcome K (HS (hw_card hw)) (fst (sd_width K hw)) (hw_card (snd (sd_width K hw))) evs"
proof (cases "hw_width hw \<noteq> 1 \<and> hw_width hw \<noteq> 4")
  case True
  then have "sd_width K hw = (Some UnsupportedSDBusWidth, hw)" by (simp add: sd_width_def)
  then show ?thesis using hs_stop [of hw hw "[]"] by simp
next
  case False
  let ?code = "if hw_width hw = 1 then 0 else 2 :: uint32"
  have code: "?code \<noteq> 0xfffffff1" by simp
  show ?thesis
  proof (cases "fault (next_reply hw)")
    case (Some e)
    let ?hw1 = "answered (Cmd 6 READ ?code RSP_48 True True False 0 (Some e)) hw"
    have "sd_width K hw = (Some (Primitive e), ?hw1)"
      using False Some by (auto simp: sd_width_def cmd_def)
    then show ?thesis
      using hs_stop [of ?hw1 hw "[Cmd 6 READ ?code RSP_48 True True False 0 (Some e)]"]
      by simp
  next
    case None
    let ?hw1 = "answered (Cmd 6 READ ?code RSP_48 True True False 0 None) hw"
    have "sd_width K hw = sd_switch K ?hw1"
      using False None by (auto simp: sd_width_def cmd_def)
    then show ?thesis
      using hs_continue [of ?hw1 hw "[Cmd 6 READ ?code RSP_48 True True False 0 None]",
          OF _ _ _ sd_switch_run [of K ?hw1]] code
      by simp
  qed
qed


lemma ms_neq [simp]: "1 * Millisecond \<noteq> 500 * Millisecond" "Millisecond \<noteq> 500 * Millisecond"
  by (simp_all add: Millisecond_def)

lemma sd_select_run:
  "\<exists>evs. sim_trace (snd (sd_select K hw)) = sim_trace hw @ evs
     \<and> hs_outcome K (HS (hw_card hw)) (fst (sd_select K hw)) (hw_card (snd (sd_select K hw))) evs"
proof -
  let ?c7 = "Cmd 7 READ (hw_rca hw) RSP_48_CHECK_BUSY True True False 0"
  let ?w = "WaitState (CURRENT_STATE_TRAN K) (1 * Millisecond)"
  let ?c55 = "Cmd 55 READ (hw_rca hw) RSP_48 True True False 0"
  let ?r1 = "shd (sim_future hw)"
  let ?r2 = "shd (stl (sim_future hw))"
  let ?r3 = "shd (stl (stl (sim_future hw)))"
  let ?hw1 = "answered (?c7 (fault ?r1)) hw"
  let ?hw2 = "answered (?w (fault ?r2)) ?hw1"
  let ?hw3 = "answered (?c55 (fault ?r3)) ?hw2"
  consider (f1) e where "fault ?r1 = Some e"
    | (f2) e where "fault ?r1 = None" "fault ?r2 = Some e"
    | (f3) e where "fault ?r1 = None" "fault ?r2 = None" "fault ?r3 = Some e"
    | (app) "fault ?r1 = None" "fault ?r2 = None" "fault ?r3 = None"
        "drop_bit (STATUS_APP_CMD K) (rsp ?hw3 0) AND 1 \<noteq> 1"
    | (go) "fault ?r1 = None" "fault ?r2 = None" "fault ?r3 = None"
        "drop_bit (STATUS_APP_CMD K) (rsp ?hw3 0) AND 1 = 1"
    by (cases "fault ?r1"; cases "fault ?r2"; cases "fault ?r3") auto
  then show ?thesis
  proof cases
    case f1
    then have "sd_select K hw = (Some (Primitive e), ?hw1)"
      by (simp add: sd_select_def cmd_def next_reply_def)
    then show ?thesis using f1 hs_stop [of ?hw1 hw "[?c7 (Some e)]"] by simp
  next
    case f2
    then have "sd_select K hw = (Some (Primitive e), ?hw2)"
      by (simp add: sd_select_def cmd_def waitState_def next_reply_def)
    then show ?thesis using f2 hs_stop [of ?hw2 hw "[?c7 None, ?w (Some e)]"] by simp
  next
    case f3
    then have "sd_select K hw = (Some (Primitive e), ?hw3)"
      by (simp add: sd_select_def cmd_def waitState_def next_reply_def)
    then show ?thesis
      using f3 hs_stop [of ?hw3 hw "[?c7 None, ?w None, ?c55 (Some e)]"] by simp
  next
    case app
    then have "sd_select K hw = (Some NotExpectingAppCmd, ?hw3)"
      by (simp add: sd_select_def cmd_def waitState_def next_reply_def)
    then show ?thesis
      using app hs_stop [of ?hw3 hw "[?c7 None, ?w None, ?c55 None]"] by simp
  next
    case go
    then have "sd_select K hw = sd_width K ?hw3"
      by (simp add: sd_select_def cmd_def waitState_def next_reply_def)
    then show ?thesis
      using go hs_continue [of ?hw3 hw "[?c7 None, ?w None, ?c55 None]",
          OF _ _ _ sd_width_run [of K ?hw3]]
      by simp
  qed
qed

lemma detectCapacitySD_effect:
  "sim_trace (snd (detectCapacitySD b hw)) = sim_trace hw
      @ [Cmd 9 READ (hw_rca hw) RSP_136 False True False 0 (fault (next_reply hw))]"
  "HS (hw_card (snd (detectCapacitySD b hw))) = HS (hw_card hw)"
  "DDR (hw_card (snd (detectCapacitySD b hw))) = DDR (hw_card hw)"
  "hw_width (snd (detectCapacitySD b hw)) = hw_width hw"
  "hw_rca (snd (detectCapacitySD b hw)) = hw_rca hw"
  "sim_future (snd (detectCapacitySD b hw)) = stl (sim_future hw)"
  by (simp_all add: detectCapacitySD_def cmd_def Let_def split: option.split)


lemma case_result:
  "(case p of (Some e, hw) \<Rightarrow> f e hw | (None, hw) \<Rightarrow> g hw)
     = (case fst p of Some e \<Rightarrow> f e (snd p) | None \<Rightarrow> g (snd p))"
  by (cases p; cases "fst p") auto

lemma initSD_run:
  "\<exists>evs. sim_trace (snd (initSD K hw)) = sim_trace hw @ evs
     \<and> hs_outcome K (HS (hw_card hw)) (fst (initSD K hw)) (hw_card (snd (initSD K hw))) evs"
proof -
  let ?c2 = "Cmd 2 READ 0 RSP_136 False True False 0"
  let ?c3 = "Cmd 3 READ 0 RSP_48 True True False 0"
  let ?r1 = "shd (sim_future hw)"
  let ?r2 = "shd (stl (sim_future hw))"
  let ?r3 = "shd (stl (stl (sim_future hw)))"
  let ?hw1 = "answered (?c2 (fault ?r1)) hw"
  let ?hw2 = "answered (?c3 (fault ?r2)) ?hw1"
  let ?state = "drop_bit (STATUS_CURRENT_STATE K) (rsp ?hw2 0) AND 0b1111"
  let ?hw3 = "(setClock (DVS_OP K) (SDCLKFS_OP K) (setClock 0 0 ?hw2))
      \<lparr>hw_rca := rsp ?hw2 0 AND push_bit RCA_ADDR 0xffff\<rparr>"
  let ?d = "detectCapacitySD SD_DEFAULT_BLOCK_SIZE ?hw3"
  let ?P = "[?c2 None, ?c3 None, SetClock 0 0, SetClock (DVS_OP K) (SDCLKFS_OP K),
     Cmd 9 READ (hw_rca ?hw3) RSP_136 False True False 0 (fault ?r3)]"
  have tr: "sim_trace (snd ?d) = sim_trace hw @ ?P"
    if "fault ?r1 = None" "fault ?r2 = None"
    using that by (simp add: detectCapacitySD_effect next_reply_def)
  have P: "before_switch ?P" by simp
  consider (f1) e where "fault ?r1 = Some e"
    | (f2) e where "fault ?r1 = None" "fault ?r2 = Some e"
    | (st) "fault ?r1 = None" "fault ?r2 = None" "?state \<noteq> CURRENT_STATE_IDENT K"
    | (cap) e where "fault ?r1 = None" "fault ?r2 = None" "?state = CURRENT_STATE_IDENT K"
        "fst ?d = Some e"
    | (go) "fault ?r1 = None" "fault ?r2 = None" "?state = CURRENT_STATE_IDENT K"
        "fst ?d = None"
    by (cases "fault ?r1"; cases "fault ?r2"; cases "fst ?d") auto
  then show ?thesis
  proof cases
    case f1
    then have "initSD K hw = (Some (Primitive e), ?hw1)"
      by (simp add: initSD_staged cmd_def next_reply_def)
    then show ?thesis using f1 hs_stop [of ?hw1 hw "[?c2 (Some e)]"] by simp
  next
    case f2
    then have "initSD K hw = (Some (Primitive e), ?hw2)"
      by (simp add: initSD_staged cmd_def next_reply_def)
    then show ?thesis using f2 hs_stop [of ?hw2 hw "[?c2 None, ?c3 (Some e)]"] by simp
  next
    case st
    then have "initSD K hw = (Some (NotIdentState ?state), ?hw2)"
      by (simp add: initSD_staged cmd_def next_reply_def Let_def)
    then show ?thesis using st hs_stop [of ?hw2 hw "[?c2 None, ?c3 None]"] by simp
  next
    case cap
    then have "initSD K hw = (Some e, snd ?d)"
      by (simp add: initSD_staged cmd_def next_reply_def Let_def case_result)
    then show ?thesis
      using hs_stop [of "snd ?d" hw ?P, OF tr [OF cap(1,2)] P]
      by (simp add: detectCapacitySD_effect)
  next
    case go
    then have "initSD K hw = sd_select K (snd ?d)"
      by (simp add: initSD_staged cmd_def next_reply_def Let_def case_result)
    then show ?thesis
      using hs_continue [of "snd ?d" hw ?P, OF tr [OF go(1,2)] P _ sd_select_run [of K "snd ?d"]]
      by (simp add: detectCapacitySD_effect)
  qed
qed

text \<open>
  C3.  From a descriptor whose \<open>HS\<close> flag is clear, \<^verbatim>\<open>initSD\<close> ends with the flag set
  if and only if it issued the CMD6 switch command and that command returned success.  If
  the wait for the transfer state that follows fails with an error, \<^verbatim>\<open>initSD\<close> returns
  that error, the flag is set, and the last calls are the failed wait and the two clock
  calls that program the high-speed divisor.
\<close>

theorem initSD_high_speed:
  assumes "\<not> HS (hw_card hw0)" and "hw' = snd (initSD K hw0)"
  shows "(HS (hw_card hw') \<longleftrightarrow> sd_switch_ok \<in> set (issued hw0 hw'))
    \<and> (sd_switch_wait K (Some e) \<in> set (issued hw0 hw') \<longrightarrow>
         fst (initSD K hw0) = Some (Primitive e) \<and> HS (hw_card hw')
         \<and> (\<exists>pre. issued hw0 hw' = pre @ [sd_switch_wait K (Some e), SetClock 0 0,
                                  SetClock (DVS_HS K) (SDCLKFS_HS_SDR K)]))"
proof -
  from initSD_run [of K hw0] obtain evs where
    t: "sim_trace hw' = sim_trace hw0 @ evs"
    and o: "hs_outcome K (HS (hw_card hw0)) (fst (initSD K hw0)) (hw_card hw') evs"
    unfolding assms(2) by blast
  have i: "issued hw0 hw' = evs" by (simp add: issued_def t)
  show ?thesis using o assms(1) unfolding i hs_outcome_def by blast
qed


lemma sd_wait_fails_run:
  "fst (initSD K0 sd_wait_fails) = Some (Primitive 7)"
  "sim_trace (snd (initSD K0 sd_wait_fails)) =
    [Cmd 2 READ 0 RSP_136 False True False 0 None,
     Cmd 3 READ 0 RSP_48 True True False 0 None,
     SetClock 0 0, SetClock 3 1,
     Cmd 9 READ 0x12340000 RSP_136 False True False 0 None,
     Cmd 7 READ 0x12340000 RSP_48_CHECK_BUSY True True False 0 None,
     WaitState 4 1000000 None,
     Cmd 55 READ 0x12340000 RSP_48 True True False 0 None,
     Cmd 6 READ 2 RSP_48 True True False 0 None,
     Cmd 6 READ 0xfffffff1 RSP_48 True True False 0 None,
     WaitState 4 500000000 (Some 7),
     SetClock 0 0, SetClock 1 2]"
  "hw_card (snd (initSD K0 sd_wait_fails))
     = \<lparr>BlockSize = 512, Blocks = 3842048, HS = True, DDR = False\<rparr>"
  by (simp_all add: initSD_def sd_wait_fails_def K0_def controller_def script_def cmd_def
      waitState_def next_reply_def ok_reply_def failing_def Let_def rsp_def
      RCA_ADDR_def detectCapacitySD_def sd_csd_v0_fields SD_CSD_READ_BL_LEN_1_def
      SD_CSD_C_SIZE_1_def SD_CSD_C_SIZE_MULT_1_def CSD_RSP_OFF_def sd_switch_arg Millisecond_def
      bit_field_def sd_csd_v0_def SD_CSD_STRUCTURE_def SD_DEFAULT_BLOCK_SIZE_def)


theorem initSD_high_speed_witness:
  "\<not> HS (hw_card sd_wait_fails)
   \<and> sd_switch_ok \<in> set (issued sd_wait_fails (snd (initSD K0 sd_wait_fails)))
   \<and> sd_switch_wait K0 (Some 7) \<in> set (issued sd_wait_fails (snd (initSD K0 sd_wait_fails)))
   \<and> fst (initSD K0 sd_wait_fails) = Some (Primitive 7)
   \<and> HS (hw_card (snd (initSD K0 sd_wait_fails)))"
  using initSD_high_speed [of sd_wait_fails "snd (initSD K0 sd_wait_fails)" K0 7]
  by (simp add: issued_def sd_wait_fails_run)
     (simp add: sd_wait_fails_def controller_def sd_switch_ok_def sd_switch_wait_def K0_def
        Millisecond_def)

section \<open>MMC initialization and the bus width\<close>

lemma initMMC_staged:
  "initMMC K hw0 =
     (case cmd 2 READ 0 RSP_136 False True False 0 hw0 of
        (Some e, hw) \<Rightarrow> (Some (Primitive e), hw)
      | (None, hw) \<Rightarrow>
     (let hw = hw\<lparr>hw_rca := push_bit RCA_ADDR (hw_n hw + 1)\<rparr> in
     (case cmd 3 READ (hw_rca hw) RSP_48 True True False 0 hw of
        (Some e, hw) \<Rightarrow> (Some (Primitive e), hw)
      | (None, hw) \<Rightarrow>
     (let state = drop_bit (STATUS_CURRENT_STATE K) (rsp hw 0) AND 0b1111 in
      if state \<noteq> CURRENT_STATE_IDENT K then (Some (NotIdentState state), hw)
      else
     (case cmd 9 READ (hw_rca hw) RSP_136 False True False 0 hw of
        (Some e, hw) \<Rightarrow> (Some (Primitive e), hw)
      | (None, hw) \<Rightarrow>
     (let c_size_mult = rspVal hw MMC_CSD_C_SIZE_MULT 0b111;
          c_size = rspVal hw MMC_CSD_C_SIZE 0xfff;
          read_bl_len = rspVal hw MMC_CSD_READ_BL_LEN 0xf;
          mhz = rspVal hw MMC_CSD_TRAN_SPEED 0xff;
          ver = rspVal hw MMC_CSD_SPEC_VERS 0xf
      in
      if mhz \<noteq> TRAN_SPEED_26MHZ then (Some (UnexpectedTranSpeed mhz), hw)
      else mmc_select K c_size_mult c_size read_bl_len ver hw))))))"
  unfolding initMMC_def mmc_select_def mmc_width_def mmc_ddr_def by (rule refl)

lemma cmd_args_append [simp]: "cmd_args i (xs @ ys) = cmd_args i xs @ cmd_args i ys"
  by (induction i xs rule: cmd_args.induct) simp_all

lemma writeCardRegisterMMC_effect:
  "\<exists>evs. sim_trace (snd (writeCardRegisterMMC K reg val hw)) = sim_trace hw @ evs
      \<and> cmd_args 6 evs = [switch_arg reg val]"
  "hw_card (snd (writeCardRegisterMMC K reg val hw)) = hw_card hw"
  "hw_width (snd (writeCardRegisterMMC K reg val hw)) = hw_width hw"
  by (simp_all add: writeCardRegisterMMC_def switch_arg_def cmd_def waitState_def Let_def
      split: option.split)

lemma detectCapacityMMC_effect:
  "\<exists>evs. sim_trace (snd (detectCapacityMMC b m c r hw)) = sim_trace hw @ evs
      \<and> cmd_args 6 evs = []"
  "HS (hw_card (snd (detectCapacityMMC b m c r hw))) = HS (hw_card hw)"
  "DDR (hw_card (snd (detectCapacityMMC b m c r hw))) = DDR (hw_card hw)"
  "hw_width (snd (detectCapacityMMC b m c r hw)) = hw_width hw"
  by (simp_all add: detectCapacityMMC_def transfer_def Let_def split: option.split)

lemma mmc_ddr_run:
  "\<exists>evs. sim_trace (snd (mmc_ddr K bw hw)) = sim_trace hw @ evs
     \<and> (cmd_args 6 evs = [switch_arg (of_nat EXT_CSD_HS_TIMING) HS_TIMING_HS]
          \<and> hw_card (snd (mmc_ddr K bw hw)) = hw_card hw
        \<or> cmd_args 6 evs = [switch_arg (of_nat EXT_CSD_HS_TIMING) HS_TIMING_HS,
             switch_arg (of_nat EXT_CSD_BUS_WIDTH)
               (if hw_width hw = 4 then 5 else if hw_width hw = 8 then 6 else bw)])"
proof -
  let ?W1 = "writeCardRegisterMMC K (of_nat EXT_CSD_HS_TIMING) HS_TIMING_HS hw"
  let ?code = "if hw_width hw = 4 then 5 else if hw_width hw = 8 then 6 else bw"
  let ?W2 = "writeCardRegisterMMC K (of_nat EXT_CSD_BUS_WIDTH) ?code (snd ?W1)"
  obtain e1 where e1: "sim_trace (snd ?W1) = sim_trace hw @ e1"
    "cmd_args 6 e1 = [switch_arg (of_nat EXT_CSD_HS_TIMING) HS_TIMING_HS]"
    using writeCardRegisterMMC_effect(1) by blast
  obtain e2 where e2: "sim_trace (snd ?W2) = sim_trace (snd ?W1) @ e2"
    "cmd_args 6 e2 = [switch_arg (of_nat EXT_CSD_BUS_WIDTH) ?code]"
    using writeCardRegisterMMC_effect(1) by blast
  have code: "(if hw_width (snd ?W1) = 4 then 5
      else if hw_width (snd ?W1) = 8 then 6 else bw) = ?code"
    by (simp add: writeCardRegisterMMC_effect)
  have unf: "mmc_ddr K bw hw =
    (case fst ?W1 of Some e \<Rightarrow> (Some e, snd ?W1)
     | None \<Rightarrow> (case fst ?W2 of Some e \<Rightarrow> (Some e, snd ?W2)
        | None \<Rightarrow> (None, (setClock (DVS_HS K) (SDCLKFS_HS_DDR K) (setClock 0 0 (snd ?W2)))
            \<lparr>hw_card := (hw_card (snd ?W2))\<lparr>DDR := True, HS := True\<rparr>\<rparr>)))"
    unfolding mmc_ddr_def case_result Let_def code by (simp split: option.split)
  show ?thesis
  proof (cases "fst ?W1")
    case (Some e)
    then have "mmc_ddr K bw hw = (Some e, snd ?W1)" by (simp add: unf)
    then show ?thesis using e1 by (simp add: writeCardRegisterMMC_effect)
  next
    case None
    show ?thesis
    proof (cases "fst ?W2")
      case (Some e)
      then have "mmc_ddr K bw hw = (Some e, snd ?W2)" using None by (simp add: unf)
      then show ?thesis using e1 e2 by simp
    next
      case n: None
      then have "sim_trace (snd (mmc_ddr K bw hw))
          = sim_trace (snd ?W2) @ [SetClock 0 0, SetClock (DVS_HS K) (SDCLKFS_HS_DDR K)]"
        using None by (simp add: unf)
      then show ?thesis using e1 e2 by simp
    qed
  qed
qed

lemma mmc_width_run:
  "\<exists>evs. sim_trace (snd (mmc_width K m c r ver hw)) = sim_trace hw @ evs
     \<and> mmc_outcome (hw_width hw) ver (hw_card hw)
           (hw_card (snd (mmc_width K m c r ver hw))) (cmd_args 6 evs)"
proof (cases "hw_width hw \<noteq> 4 \<and> hw_width hw \<noteq> 8")
  case True
  then have "mmc_width K m c r ver hw = (Some UnsupportedMMCBusWidth, hw)"
    by (simp add: mmc_width_def)
  then show ?thesis by (simp add: mmc_outcome_def)
next
  case False
  let ?bw = "if hw_width hw = 4 then 1 else 2 :: uint32"
  let ?W = "writeCardRegisterMMC K (of_nat EXT_CSD_BUS_WIDTH) ?bw hw"
  let ?D = "detectCapacityMMC MMC_DEFAULT_BLOCK_SIZE m c r (snd ?W)"
  let ?R = "mmc_ddr K ?bw (snd ?D)"
  have w: "hw_width hw = 4 \<or> hw_width hw = 8" using False by simp
  obtain e1 where e1: "sim_trace (snd ?W) = sim_trace hw @ e1"
    "cmd_args 6 e1 = [switch_arg (of_nat EXT_CSD_BUS_WIDTH) (sdr_code (hw_width hw))]"
    using writeCardRegisterMMC_effect(1) [of K "of_nat EXT_CSD_BUS_WIDTH" ?bw hw]
    unfolding sdr_code_def by blast
  obtain e2 where e2: "sim_trace (snd ?D) = sim_trace (snd ?W) @ e2" "cmd_args 6 e2 = []"
    using detectCapacityMMC_effect(1) by blast
  have wd: "hw_width (snd ?D) = hw_width hw"
    by (simp add: detectCapacityMMC_effect writeCardRegisterMMC_effect)
  have fl: "HS (hw_card (snd ?D)) = HS (hw_card hw)" "DDR (hw_card (snd ?D)) = DDR (hw_card hw)"
    by (simp_all add: detectCapacityMMC_effect writeCardRegisterMMC_effect)
  obtain e3 where e3: "sim_trace (snd ?R) = sim_trace (snd ?D) @ e3"
    "cmd_args 6 e3 = [switch_arg (of_nat EXT_CSD_HS_TIMING) HS_TIMING_HS]
          \<and> hw_card (snd ?R) = hw_card (snd ?D)
        \<or> cmd_args 6 e3 = [switch_arg (of_nat EXT_CSD_HS_TIMING) HS_TIMING_HS,
             switch_arg (of_nat EXT_CSD_BUS_WIDTH) (ddr_code (hw_width hw))]"
    using mmc_ddr_run [of K ?bw "snd ?D"] w unfolding wd ddr_code_def by auto
  consider (w) e where "fst ?W = Some e"
    | (d) e where "fst ?W = None" "fst ?D = Some e"
    | (v) "fst ?W = None" "fst ?D = None" "ver < 4"
    | (go) "fst ?W = None" "fst ?D = None" "\<not> ver < 4"
    by (cases "fst ?W"; cases "fst ?D") auto
  then show ?thesis
  proof cases
    case w
    then have "mmc_width K m c r ver hw = (Some e, snd ?W)"
      using False by (auto simp: mmc_width_def case_result)
    then show ?thesis using e1 \<open>hw_width hw = 4 \<or> hw_width hw = 8\<close>
      by (auto simp: mmc_outcome_def writeCardRegisterMMC_effect)
  next
    case d
    then have "mmc_width K m c r ver hw = (Some e, snd ?D)"
      using False by (auto simp: mmc_width_def case_result)
    then show ?thesis using e1 e2 fl \<open>hw_width hw = 4 \<or> hw_width hw = 8\<close>
      by (auto simp: mmc_outcome_def)
  next
    case v
    then have "mmc_width K m c r ver hw = (None, snd ?D)"
      using False by (auto simp: mmc_width_def case_result)
    then show ?thesis using e1 e2 fl \<open>hw_width hw = 4 \<or> hw_width hw = 8\<close>
      by (auto simp: mmc_outcome_def)
  next
    case go
    then have "mmc_width K m c r ver hw = ?R"
      using False by (auto simp: mmc_width_def case_result)
    moreover have "4 \<le> ver" using go(3) by simp
    ultimately show ?thesis using e1 e2 e3 fl \<open>hw_width hw = 4 \<or> hw_width hw = 8\<close>
      by (auto simp: mmc_outcome_def)
  qed
qed

lemma mmc_continue:
  assumes "sim_trace hw1 = sim_trace hw @ P" "cmd_args 6 P = []"
    and "hw_card hw1 = hw_card hw" "hw_width hw1 = hw_width hw"
    and "\<exists>evs. sim_trace (snd res) = sim_trace hw1 @ evs
           \<and> mmc_outcome (hw_width hw1) ver (hw_card hw1) (hw_card (snd res)) (cmd_args 6 evs)"
  shows "\<exists>evs. sim_trace (snd res) = sim_trace hw @ evs
           \<and> mmc_outcome (hw_width hw) ver (hw_card hw) (hw_card (snd res)) (cmd_args 6 evs)"
proof -
  from assms(5) obtain evs where e: "sim_trace (snd res) = sim_trace hw1 @ evs"
    "mmc_outcome (hw_width hw1) ver (hw_card hw1) (hw_card (snd res)) (cmd_args 6 evs)"
    by blast
  have "sim_trace (snd res) = sim_trace hw @ (P @ evs)" using e(1) assms(1) by simp
  moreover have "cmd_args 6 (P @ evs) = cmd_args 6 evs" using assms(2) by simp
  ultimately show ?thesis using e(2) assms(3,4) by metis
qed

lemma mmc_stop:
  assumes "sim_trace hw1 = sim_trace hw @ P" "cmd_args 6 P = []" "hw_card hw1 = hw_card hw"
  shows "\<exists>evs. sim_trace (snd (r, hw1)) = sim_trace hw @ evs
           \<and> mmc_outcome w ver (hw_card hw) (hw_card (snd (r, hw1))) (cmd_args 6 evs)"
  using assms by (auto simp: mmc_outcome_def)

lemma mmc_select_run:
  "\<exists>evs. sim_trace (snd (mmc_select K m c r ver hw)) = sim_trace hw @ evs
     \<and> mmc_outcome (hw_width hw) ver (hw_card hw)
           (hw_card (snd (mmc_select K m c r ver hw))) (cmd_args 6 evs)"
proof -
  let ?c7 = "Cmd 7 READ (hw_rca hw) RSP_48_CHECK_BUSY True True False 0"
  let ?w = "WaitState (CURRENT_STATE_TRAN K) (1 * Millisecond)"
  let ?r1 = "shd (sim_future hw)"
  let ?r2 = "shd (stl (sim_future hw))"
  let ?hw0 = "setClock (DVS_OP K) (SDCLKFS_OP K) (setClock 0 0 hw)"
  let ?hw1 = "answered (?c7 (fault ?r1)) ?hw0"
  let ?hw2 = "answered (?w (fault ?r2)) ?hw1"
  let ?clk = "[SetClock 0 0, SetClock (DVS_OP K) (SDCLKFS_OP K)]"
  consider (f1) e where "fault ?r1 = Some e"
    | (f2) e where "fault ?r1 = None" "fault ?r2 = Some e"
    | (go) "fault ?r1 = None" "fault ?r2 = None"
    by (cases "fault ?r1"; cases "fault ?r2") auto
  then show ?thesis
  proof cases
    case f1
    then have "mmc_select K m c r ver hw = (Some (Primitive e), ?hw1)"
      by (simp add: mmc_select_def cmd_def next_reply_def Let_def)
    then show ?thesis using f1 mmc_stop [of ?hw1 hw "?clk @ [?c7 (Some e)]"] by simp
  next
    case f2
    then have "mmc_select K m c r ver hw = (Some (Primitive e), ?hw2)"
      by (simp add: mmc_select_def cmd_def waitState_def next_reply_def Let_def)
    then show ?thesis
      using f2 mmc_stop [of ?hw2 hw "?clk @ [?c7 None, ?w (Some e)]"] by simp
  next
    case go
    then have "mmc_select K m c r ver hw = mmc_width K m c r ver ?hw2"
      by (simp add: mmc_select_def cmd_def waitState_def next_reply_def Let_def)
    then show ?thesis
      using go mmc_continue [of ?hw2 hw "?clk @ [?c7 None, ?w None]",
          OF _ _ _ _ mmc_width_run [of K m c r ver ?hw2]]
      by simp
  qed
qed

lemma initMMC_run:
  "\<exists>evs. sim_trace (snd (initMMC K hw)) = sim_trace hw @ evs
     \<and> mmc_outcome (hw_width hw)
           (bit_field (response (shd (stl (stl (sim_future hw))))) MMC_CSD_SPEC_VERS 0xf)
           (hw_card hw) (hw_card (snd (initMMC K hw))) (cmd_args 6 evs)"
proof -
  let ?rca = "push_bit RCA_ADDR (hw_n hw + 1) :: uint32"
  let ?c2 = "Cmd 2 READ 0 RSP_136 False True False 0"
  let ?c3 = "Cmd 3 READ ?rca RSP_48 True True False 0"
  let ?c9 = "Cmd 9 READ ?rca RSP_136 False True False 0"
  let ?r1 = "shd (sim_future hw)"
  let ?r2 = "shd (stl (sim_future hw))"
  let ?r3 = "shd (stl (stl (sim_future hw)))"
  let ?csd = "response ?r3"
  let ?ver = "bit_field ?csd MMC_CSD_SPEC_VERS 0xf"
  let ?mhz = "bit_field ?csd MMC_CSD_TRAN_SPEED 0xff"
  let ?hw1 = "answered (?c2 (fault ?r1)) hw"
  let ?hw2 = "answered (?c3 (fault ?r2)) (?hw1\<lparr>hw_rca := ?rca\<rparr>)"
  let ?state = "drop_bit (STATUS_CURRENT_STATE K) (rsp ?hw2 0) AND 0b1111"
  let ?hw3 = "answered (?c9 (fault ?r3)) ?hw2"
  consider (f1) e where "fault ?r1 = Some e"
    | (f2) e where "fault ?r1 = None" "fault ?r2 = Some e"
    | (st) "fault ?r1 = None" "fault ?r2 = None" "?state \<noteq> CURRENT_STATE_IDENT K"
    | (f3) e where "fault ?r1 = None" "fault ?r2 = None" "?state = CURRENT_STATE_IDENT K"
        "fault ?r3 = Some e"
    | (sp) "fault ?r1 = None" "fault ?r2 = None" "?state = CURRENT_STATE_IDENT K"
        "fault ?r3 = None" "?mhz \<noteq> TRAN_SPEED_26MHZ"
    | (go) "fault ?r1 = None" "fault ?r2 = None" "?state = CURRENT_STATE_IDENT K"
        "fault ?r3 = None" "?mhz = TRAN_SPEED_26MHZ"
    by (cases "fault ?r1"; cases "fault ?r2"; cases "fault ?r3") auto
  then show ?thesis
  proof cases
    case f1
    then have "initMMC K hw = (Some (Primitive e), ?hw1)"
      by (simp add: initMMC_staged cmd_def next_reply_def)
    then show ?thesis using f1 mmc_stop [of ?hw1 hw "[?c2 (Some e)]"] by simp
  next
    case f2
    then have "initMMC K hw = (Some (Primitive e), ?hw2)"
      by (simp add: initMMC_staged cmd_def next_reply_def Let_def)
    then show ?thesis using f2 mmc_stop [of ?hw2 hw "[?c2 None, ?c3 (Some e)]"] by simp
  next
    case st
    then have "initMMC K hw = (Some (NotIdentState ?state), ?hw2)"
      by (simp add: initMMC_staged cmd_def next_reply_def Let_def)
    then show ?thesis using st mmc_stop [of ?hw2 hw "[?c2 None, ?c3 None]"] by simp
  next
    case f3
    then have "initMMC K hw = (Some (Primitive e), ?hw3)"
      by (simp add: initMMC_staged cmd_def next_reply_def Let_def)
    then show ?thesis
      using f3 mmc_stop [of ?hw3 hw "[?c2 None, ?c3 None, ?c9 (Some e)]"] by simp
  next
    case sp
    then have "initMMC K hw = (Some (UnexpectedTranSpeed ?mhz), ?hw3)"
      by (simp add: initMMC_staged cmd_def next_reply_def Let_def)
    then show ?thesis
      using sp mmc_stop [of ?hw3 hw "[?c2 None, ?c3 None, ?c9 None]"] by simp
  next
    case go
    then have "initMMC K hw = mmc_select K (bit_field ?csd MMC_CSD_C_SIZE_MULT 0b111)
        (bit_field ?csd MMC_CSD_C_SIZE 0xfff) (bit_field ?csd MMC_CSD_READ_BL_LEN 0xf) ?ver ?hw3"
      by (simp add: initMMC_staged cmd_def next_reply_def Let_def)
    then show ?thesis
      using go mmc_continue [of ?hw3 hw "[?c2 None, ?c3 None, ?c9 None]",
          OF _ _ _ _ mmc_select_run [of K _ _ _ ?ver ?hw3]]
      by simp
  qed
qed

lemma ext_csd_regs:
  "of_nat EXT_CSD_BUS_WIDTH = (183 :: uint32)" "of_nat EXT_CSD_HS_TIMING = (185 :: uint32)"
  by (simp_all add: EXT_CSD_BUS_WIDTH_def EXT_CSD_HS_TIMING_def)

lemma switch_arg_values:
  "switch_arg 183 1 = 0x03b70100"
  "switch_arg 183 2 = 0x03b70200"
  "switch_arg 183 5 = 0x03b70500"
  "switch_arg 183 6 = 0x03b70600"
  "switch_arg 185 HS_TIMING_HS = 0x03b90100"
  by (simp_all add: switch_arg_def SetN_def MMC_SWITCH_ACCESS_def ACCESS_WRITE_BYTE_def
      MMC_SWITCH_INDEX_def MMC_SWITCH_VALUE_def HS_TIMING_HS_def)

text \<open>
  C10.  A run of \<^verbatim>\<open>initMMC\<close> issues at most three CMD6 commands.  When it issues the
  third, the bus-width write of the DDR stage, the configured width is 4 or 8 and the
  argument of that command writes the DDR code, 5 for width 4 and 6 for width 8, to the
  \<open>BUS_WIDTH\<close> register: never the code 1 or 2 of the first write.
\<close>

theorem initMMC_ddr_bus_width:
  assumes "as = cmd_args 6 (issued hw (snd (initMMC K hw)))"
  shows "length as \<le> 3
    \<and> (length as = 3 \<longrightarrow>
         (hw_width hw = 4 \<or> hw_width hw = 8)
         \<and> as ! 2 = switch_arg (of_nat EXT_CSD_BUS_WIDTH) (if hw_width hw = 4 then 5 else 6)
         \<and> Get (as ! 2) MMC_SWITCH_INDEX 0xff = of_nat EXT_CSD_BUS_WIDTH
         \<and> Get (as ! 2) MMC_SWITCH_VALUE 0xff = (if hw_width hw = 4 then 5 else 6))"
proof -
  from initMMC_run [of K hw] obtain evs where
    t: "sim_trace (snd (initMMC K hw)) = sim_trace hw @ evs"
    and o: "mmc_outcome (hw_width hw)
           (bit_field (response (shd (stl (stl (sim_future hw))))) MMC_CSD_SPEC_VERS 0xf)
           (hw_card hw) (hw_card (snd (initMMC K hw))) (cmd_args 6 evs)"
    by blast
  have i: "as = cmd_args 6 evs" by (simp add: assms issued_def t)
  have g: "Get (switch_arg (of_nat EXT_CSD_BUS_WIDTH) 5) MMC_SWITCH_INDEX 0xff
         = of_nat EXT_CSD_BUS_WIDTH"
    "Get (switch_arg (of_nat EXT_CSD_BUS_WIDTH) 6) MMC_SWITCH_INDEX 0xff
         = of_nat EXT_CSD_BUS_WIDTH"
    "Get (switch_arg (of_nat EXT_CSD_BUS_WIDTH) 5) MMC_SWITCH_VALUE 0xff = 5"
    "Get (switch_arg (of_nat EXT_CSD_BUS_WIDTH) 6) MMC_SWITCH_VALUE 0xff = 6"
    by (simp_all add: ext_csd_regs switch_arg_values Get_def MMC_SWITCH_INDEX_def
        MMC_SWITCH_VALUE_def)
  show ?thesis using o g unfolding i mmc_outcome_def ddr_code_def by auto
qed

lemma stake_8:
  "stake 8 s = [shd s, shd (stl s), shd (stl (stl s)), shd (stl (stl (stl s))),
     shd (stl (stl (stl (stl s)))), shd (stl (stl (stl (stl (stl s))))),
     shd (stl (stl (stl (stl (stl (stl s)))))),
     shd (stl (stl (stl (stl (stl (stl (stl s)))))))]"
  by (simp add: eval_nat_numeral)

lemma mmc_card_ok_faults:
  assumes "mmc_card_ok K hw"
  shows "fault (shd (sim_future hw)) = None"
    "fault (shd (stl (sim_future hw))) = None"
    "fault (shd (stl (stl (sim_future hw)))) = None"
    "fault (shd (stl (stl (stl (sim_future hw))))) = None"
    "fault (shd (stl (stl (stl (stl (sim_future hw)))))) = None"
    "fault (shd (stl (stl (stl (stl (stl (sim_future hw))))))) = None"
    "fault (shd (stl (stl (stl (stl (stl (stl (sim_future hw)))))))) = None"
    "fault (shd (stl (stl (stl (stl (stl (stl (stl (sim_future hw))))))))) = None"
  using assms by (simp_all add: mmc_card_ok_def stake_8)

lemma initMMC_success_below_4:
  assumes ok: "mmc_card_ok K hw" and w: "hw_width hw = 4 \<or> hw_width hw = 8"
    and ver: "bit_field (response (shd (stl (stl (sim_future hw))))) MMC_CSD_SPEC_VERS 0xf < 4"
  shows "fst (initMMC K hw) = None"
proof -
  note f = mmc_card_ok_faults [OF ok]
  have st: "drop_bit (STATUS_CURRENT_STATE K) (ocr_word (shd (stl (sim_future hw)))) AND 0b1111
         = CURRENT_STATE_IDENT K"
    and sp: "bit_field (response (shd (stl (stl (sim_future hw))))) MMC_CSD_TRAN_SPEED 0xff
         = TRAN_SPEED_26MHZ"
    using ok by (simp_all add: mmc_card_ok_def)
  show ?thesis using f st sp w ver
    by (auto simp: initMMC_def cmd_def waitState_def next_reply_def Let_def
        writeCardRegisterMMC_def detectCapacityMMC_def transfer_def MMC_DEFAULT_BLOCK_SIZE_def
        EXT_CSD_SEC_COUNT_def)
qed

lemma clock_calls_append [simp]: "clock_calls (xs @ ys) = clock_calls xs @ clock_calls ys"
  by (induction xs rule: clock_calls.induct) simp_all

lemma writeCardRegisterMMC_clock:
  "\<exists>evs. sim_trace (snd (writeCardRegisterMMC K reg val hw)) = sim_trace hw @ evs
      \<and> clock_calls evs = []"
  by (simp add: writeCardRegisterMMC_def cmd_def waitState_def Let_def split: option.split)

lemma writeCardRegisterMMC_ok:
  assumes "fst (writeCardRegisterMMC K reg val hw) = None"
  shows "sim_trace (snd (writeCardRegisterMMC K reg val hw))
           = sim_trace hw @ register_write K reg val"
    "sim_future (snd (writeCardRegisterMMC K reg val hw)) = stl (stl (sim_future hw))"
  using assms
  by (auto simp: writeCardRegisterMMC_def cmd_def waitState_def Let_def register_write_def
      switch_arg_def next_reply_def split: option.splits)

lemma detectCapacityMMC_clock:
  "\<exists>evs. sim_trace (snd (detectCapacityMMC b m c r hw)) = sim_trace hw @ evs
      \<and> clock_calls evs = []"
  by (simp add: detectCapacityMMC_def transfer_def Let_def split: option.split)

lemma detectCapacityMMC_ok:
  assumes "fst (detectCapacityMMC MMC_DEFAULT_BLOCK_SIZE m c r hw) = None"
  shows "sim_trace (snd (detectCapacityMMC MMC_DEFAULT_BLOCK_SIZE m c r hw))
           = sim_trace hw @ decode_calls c"
  using assms
  by (auto simp: detectCapacityMMC_def transfer_def Let_def decode_calls_def
      MMC_DEFAULT_BLOCK_SIZE_def split: option.splits if_splits)

lemma mmc_width_below_4:
  assumes ver: "ver < 4"
  shows "\<exists>evs. sim_trace (snd (mmc_width K m c r ver hw)) = sim_trace hw @ evs
            \<and> clock_calls evs = []"
    and "fst (mmc_width K m c r ver hw) = None \<Longrightarrow>
          (hw_width hw = 4 \<or> hw_width hw = 8)
          \<and> (\<exists>hwd. sim_trace hwd = sim_trace hw
                     @ register_write K (of_nat EXT_CSD_BUS_WIDTH) (sdr_code (hw_width hw))
                \<and> hw_card hwd = hw_card hw
                \<and> sim_future hwd = stl (stl (sim_future hw))
                \<and> mmc_width K m c r ver hw = detectCapacityMMC MMC_DEFAULT_BLOCK_SIZE m c r hwd
                \<and> sim_trace (snd (mmc_width K m c r ver hw)) = sim_trace hwd @ decode_calls c)"
proof -
  let ?bw = "sdr_code (hw_width hw)"
  let ?W = "writeCardRegisterMMC K (of_nat EXT_CSD_BUS_WIDTH) ?bw hw"
  let ?D = "detectCapacityMMC MMC_DEFAULT_BLOCK_SIZE m c r (snd ?W)"
  have unf: "mmc_width K m c r ver hw =
     (if hw_width hw \<noteq> 4 \<and> hw_width hw \<noteq> 8 then (Some UnsupportedMMCBusWidth, hw)
      else case fst ?W of Some e \<Rightarrow> (Some e, snd ?W)
        | None \<Rightarrow> (case fst ?D of Some e \<Rightarrow> (Some e, snd ?D) | None \<Rightarrow> (None, snd ?D)))"
    using ver unfolding mmc_width_def case_result Let_def sdr_code_def by simp
  obtain e1 where e1: "sim_trace (snd ?W) = sim_trace hw @ e1" "clock_calls e1 = []"
    using writeCardRegisterMMC_clock by blast
  obtain e2 where e2: "sim_trace (snd ?D) = sim_trace (snd ?W) @ e2" "clock_calls e2 = []"
    using detectCapacityMMC_clock by blast
  show "\<exists>evs. sim_trace (snd (mmc_width K m c r ver hw)) = sim_trace hw @ evs
            \<and> clock_calls evs = []"
    using e1 e2 unfolding unf by (auto split: option.split)
  assume ok: "fst (mmc_width K m c r ver hw) = None"
  then have w: "hw_width hw = 4 \<or> hw_width hw = 8"
    and W: "fst ?W = None" and D: "fst ?D = None"
    unfolding unf by (auto split: option.splits if_splits)
  have R: "mmc_width K m c r ver hw = ?D"
    using w W D unfolding unf by (auto simp: prod_eq_iff)
  show "(hw_width hw = 4 \<or> hw_width hw = 8)
          \<and> (\<exists>hwd. sim_trace hwd = sim_trace hw
                     @ register_write K (of_nat EXT_CSD_BUS_WIDTH) (sdr_code (hw_width hw))
                \<and> hw_card hwd = hw_card hw
                \<and> sim_future hwd = stl (stl (sim_future hw))
                \<and> mmc_width K m c r ver hw = detectCapacityMMC MMC_DEFAULT_BLOCK_SIZE m c r hwd
                \<and> sim_trace (snd (mmc_width K m c r ver hw)) = sim_trace hwd @ decode_calls c)"
    using w writeCardRegisterMMC_ok [OF W] writeCardRegisterMMC_effect(2) [of K _ ?bw hw]
      detectCapacityMMC_ok [OF D] R
    by (intro conjI exI [of _ "snd ?W"]) simp_all
qed

lemma mmc_select_below_4:
  assumes ver: "ver < 4"
  shows "\<exists>evs. sim_trace (snd (mmc_select K m c r ver hw)) = sim_trace hw @ evs
            \<and> clock_calls evs = [(0, 0), (DVS_OP K, SDCLKFS_OP K)]"
    and "fst (mmc_select K m c r ver hw) = None \<Longrightarrow>
          (hw_width hw = 4 \<or> hw_width hw = 8)
          \<and> (\<exists>hwd. sim_trace hwd = sim_trace hw
                     @ [SetClock 0 0, SetClock (DVS_OP K) (SDCLKFS_OP K),
                        Cmd 7 READ (hw_rca hw) RSP_48_CHECK_BUSY True True False 0 None,
                        WaitState (CURRENT_STATE_TRAN K) (1 * Millisecond) None]
                     @ register_write K (of_nat EXT_CSD_BUS_WIDTH) (sdr_code (hw_width hw))
                \<and> hw_card hwd = hw_card hw
                \<and> sim_future hwd = stl (stl (stl (stl (sim_future hw))))
                \<and> mmc_select K m c r ver hw = detectCapacityMMC MMC_DEFAULT_BLOCK_SIZE m c r hwd
                \<and> sim_trace (snd (mmc_select K m c r ver hw)) = sim_trace hwd @ decode_calls c)"
proof -
  let ?c7 = "Cmd 7 READ (hw_rca hw) RSP_48_CHECK_BUSY True True False 0"
  let ?w = "WaitState (CURRENT_STATE_TRAN K) (1 * Millisecond)"
  let ?r1 = "shd (sim_future hw)"
  let ?r2 = "shd (stl (sim_future hw))"
  let ?hw0 = "setClock (DVS_OP K) (SDCLKFS_OP K) (setClock 0 0 hw)"
  let ?hw1 = "answered (?c7 (fault ?r1)) ?hw0"
  let ?hw2 = "answered (?w (fault ?r2)) ?hw1"
  let ?R = "mmc_select K m c r ver hw"
  have unf: "?R = (case fault ?r1 of Some e \<Rightarrow> (Some (Primitive e), ?hw1)
      | None \<Rightarrow> (case fault ?r2 of Some e \<Rightarrow> (Some (Primitive e), ?hw2)
          | None \<Rightarrow> mmc_width K m c r ver ?hw2))"
    by (simp add: mmc_select_def cmd_def waitState_def next_reply_def Let_def
        split: option.split)
  obtain e where e: "sim_trace (snd (mmc_width K m c r ver ?hw2)) = sim_trace ?hw2 @ e"
    "clock_calls e = []"
    using mmc_width_below_4(1) [OF ver] by blast
  show "\<exists>evs. sim_trace (snd ?R) = sim_trace hw @ evs
            \<and> clock_calls evs = [(0, 0), (DVS_OP K, SDCLKFS_OP K)]"
    using e unfolding unf by (auto split: option.split)
  assume ok: "fst ?R = None"
  then have f: "fault ?r1 = None" "fault ?r2 = None"
    and W: "fst (mmc_width K m c r ver ?hw2) = None"
    unfolding unf by (auto split: option.splits)
  have R: "?R = mmc_width K m c r ver ?hw2" using f unfolding unf by simp
  from mmc_width_below_4(2) [OF ver W] obtain hwd where
    w: "hw_width hw = 4 \<or> hw_width hw = 8"
    and d: "sim_trace hwd = sim_trace ?hw2
                     @ register_write K (of_nat EXT_CSD_BUS_WIDTH) (sdr_code (hw_width hw))"
      "hw_card hwd = hw_card hw" "sim_future hwd = stl (stl (sim_future ?hw2))"
      "mmc_width K m c r ver ?hw2 = detectCapacityMMC MMC_DEFAULT_BLOCK_SIZE m c r hwd"
      "sim_trace (snd (mmc_width K m c r ver ?hw2)) = sim_trace hwd @ decode_calls c"
    by auto
  show "(hw_width hw = 4 \<or> hw_width hw = 8)
          \<and> (\<exists>hwd. sim_trace hwd = sim_trace hw
                     @ [SetClock 0 0, SetClock (DVS_OP K) (SDCLKFS_OP K),
                        Cmd 7 READ (hw_rca hw) RSP_48_CHECK_BUSY True True False 0 None,
                        WaitState (CURRENT_STATE_TRAN K) (1 * Millisecond) None]
                     @ register_write K (of_nat EXT_CSD_BUS_WIDTH) (sdr_code (hw_width hw))
                \<and> hw_card hwd = hw_card hw
                \<and> sim_future hwd = stl (stl (stl (stl (sim_future hw))))
                \<and> ?R = detectCapacityMMC MMC_DEFAULT_BLOCK_SIZE m c r hwd
                \<and> sim_trace (snd ?R) = sim_trace hwd @ decode_calls c)"
    using w d f unfolding R by (intro conjI exI [of _ hwd]) simp_all
qed

lemma sdrop_7: "sdrop 7 s = stl (stl (stl (stl (stl (stl (stl s))))))"
  by (simp add: eval_nat_numeral)

lemma initMMC_below_4:
  assumes csd: "csd = response (shd (stl (stl (sim_future hw))))"
    and ver: "bit_field csd MMC_CSD_SPEC_VERS 0xf < 4"
  shows "\<exists>evs. sim_trace (snd (initMMC K hw)) = sim_trace hw @ evs
            \<and> (clock_calls evs = [] \<or> clock_calls evs = [(0, 0), (DVS_OP K, SDCLKFS_OP K)])"
    and "fst (initMMC K hw) = None \<Longrightarrow>
          (hw_width hw = 4 \<or> hw_width hw = 8)
          \<and> (\<exists>hwd. sim_trace hwd = sim_trace hw @ mmc_bring_up K hw
                \<and> hw_card hwd = hw_card hw
                \<and> sim_future hwd = sdrop 7 (sim_future hw)
                \<and> initMMC K hw = detectCapacityMMC MMC_DEFAULT_BLOCK_SIZE
                     (bit_field csd MMC_CSD_C_SIZE_MULT 0b111) (bit_field csd MMC_CSD_C_SIZE 0xfff)
                     (bit_field csd MMC_CSD_READ_BL_LEN 0xf) hwd
                \<and> sim_trace (snd (initMMC K hw))
                     = sim_trace hwd @ decode_calls (bit_field csd MMC_CSD_C_SIZE 0xfff))"
proof -
  let ?rca = "push_bit RCA_ADDR (hw_n hw + 1) :: uint32"
  let ?c2 = "Cmd 2 READ 0 RSP_136 False True False 0"
  let ?c3 = "Cmd 3 READ ?rca RSP_48 True True False 0"
  let ?c9 = "Cmd 9 READ ?rca RSP_136 False True False 0"
  let ?r1 = "shd (sim_future hw)"
  let ?r2 = "shd (stl (sim_future hw))"
  let ?r3 = "shd (stl (stl (sim_future hw)))"
  let ?ver = "bit_field csd MMC_CSD_SPEC_VERS 0xf"
  let ?mhz = "bit_field csd MMC_CSD_TRAN_SPEED 0xff"
  let ?m = "bit_field csd MMC_CSD_C_SIZE_MULT 0b111"
  let ?c = "bit_field csd MMC_CSD_C_SIZE 0xfff"
  let ?r = "bit_field csd MMC_CSD_READ_BL_LEN 0xf"
  let ?hw1 = "answered (?c2 (fault ?r1)) hw"
  let ?hw2 = "answered (?c3 (fault ?r2)) (?hw1\<lparr>hw_rca := ?rca\<rparr>)"
  let ?state = "drop_bit (STATUS_CURRENT_STATE K) (rsp ?hw2 0) AND 0b1111"
  let ?hw3 = "answered (?c9 (fault ?r3)) ?hw2"
  let ?S = "mmc_select K ?m ?c ?r ?ver ?hw3"
  have unf: "initMMC K hw =
     (case fault ?r1 of Some e \<Rightarrow> (Some (Primitive e), ?hw1)
      | None \<Rightarrow> (case fault ?r2 of Some e \<Rightarrow> (Some (Primitive e), ?hw2)
      | None \<Rightarrow> if ?state \<noteq> CURRENT_STATE_IDENT K then (Some (NotIdentState ?state), ?hw2)
          else (case fault ?r3 of Some e \<Rightarrow> (Some (Primitive e), ?hw3)
      | None \<Rightarrow> if ?mhz \<noteq> TRAN_SPEED_26MHZ then (Some (UnexpectedTranSpeed ?mhz), ?hw3)
          else ?S)))"
    by (simp add: initMMC_staged cmd_def next_reply_def Let_def csd split: option.split)
  obtain e where e: "sim_trace (snd ?S) = sim_trace ?hw3 @ e"
    "clock_calls e = [(0, 0), (DVS_OP K, SDCLKFS_OP K)]"
    using mmc_select_below_4(1) [OF ver] by blast
  show "\<exists>evs. sim_trace (snd (initMMC K hw)) = sim_trace hw @ evs
            \<and> (clock_calls evs = [] \<or> clock_calls evs = [(0, 0), (DVS_OP K, SDCLKFS_OP K)])"
    using e unfolding unf by (auto split: option.split)
  assume ok: "fst (initMMC K hw) = None"
  then have f: "fault ?r1 = None" "fault ?r2 = None" "fault ?r3 = None"
    and st: "?state = CURRENT_STATE_IDENT K" and sp: "?mhz = TRAN_SPEED_26MHZ"
    and S: "fst ?S = None"
    unfolding unf by (auto split: option.splits if_splits)
  have R: "initMMC K hw = ?S" using f st sp unfolding unf by simp
  from mmc_select_below_4(2) [OF ver S] obtain hwd where
    w: "hw_width hw = 4 \<or> hw_width hw = 8"
    and d: "sim_trace hwd = sim_trace ?hw3
                     @ [SetClock 0 0, SetClock (DVS_OP K) (SDCLKFS_OP K),
                        Cmd 7 READ ?rca RSP_48_CHECK_BUSY True True False 0 None,
                        WaitState (CURRENT_STATE_TRAN K) (1 * Millisecond) None]
                     @ register_write K (of_nat EXT_CSD_BUS_WIDTH) (sdr_code (hw_width hw))"
      "hw_card hwd = hw_card hw"
      "sim_future hwd = stl (stl (stl (stl (sim_future ?hw3))))"
      "?S = detectCapacityMMC MMC_DEFAULT_BLOCK_SIZE ?m ?c ?r hwd"
      "sim_trace (snd ?S) = sim_trace hwd @ decode_calls ?c"
    by auto
  show "(hw_width hw = 4 \<or> hw_width hw = 8)
          \<and> (\<exists>hwd. sim_trace hwd = sim_trace hw @ mmc_bring_up K hw
                \<and> hw_card hwd = hw_card hw
                \<and> sim_future hwd = sdrop 7 (sim_future hw)
                \<and> initMMC K hw = detectCapacityMMC MMC_DEFAULT_BLOCK_SIZE ?m ?c ?r hwd
                \<and> sim_trace (snd (initMMC K hw)) = sim_trace hwd @ decode_calls ?c)"
    using w d f unfolding R by (intro conjI exI [of _ hwd]) (simp_all add: mmc_bring_up_def sdrop_7)
qed

lemma stake_12:
  "stake 12 s = [shd s, shd (stl s), shd (stl (stl s)), shd (stl (stl (stl s))),
     shd (stl (stl (stl (stl s)))), shd (stl (stl (stl (stl (stl s))))),
     shd (stl (stl (stl (stl (stl (stl s)))))),
     shd (stl (stl (stl (stl (stl (stl (stl s))))))),
     shd (stl (stl (stl (stl (stl (stl (stl (stl s)))))))),
     shd (stl (stl (stl (stl (stl (stl (stl (stl (stl s))))))))),
     shd (stl (stl (stl (stl (stl (stl (stl (stl (stl (stl s)))))))))),
     shd (stl (stl (stl (stl (stl (stl (stl (stl (stl (stl (stl s)))))))))))]"
  by (simp add: eval_nat_numeral)

lemma initMMC_upgrade:
  assumes ok: "mmc_upgrade_ok K hw" and w: "hw_width hw = 4 \<or> hw_width hw = 8"
    and csd: "csd = response (shd (stl (stl (sim_future hw))))"
    and ver: "4 \<le> bit_field csd MMC_CSD_SPEC_VERS 0xf"
  shows "fst (initMMC K hw) = None"
    "sim_trace (snd (initMMC K hw)) = sim_trace hw @ mmc_bring_up K hw
        @ decode_calls (bit_field csd MMC_CSD_C_SIZE 0xfff) @ ddr_upgrade K hw"
    "HS (hw_card (snd (initMMC K hw)))" "DDR (hw_card (snd (initMMC K hw)))"
proof -
  have f: "fault (shd (sim_future hw)) = None"
    "fault (shd (stl (sim_future hw))) = None"
    "fault (shd (stl (stl (sim_future hw)))) = None"
    "fault (shd (stl (stl (stl (sim_future hw))))) = None"
    "fault (shd (stl (stl (stl (stl (sim_future hw)))))) = None"
    "fault (shd (stl (stl (stl (stl (stl (sim_future hw))))))) = None"
    "fault (shd (stl (stl (stl (stl (stl (stl (sim_future hw)))))))) = None"
    "fault (shd (stl (stl (stl (stl (stl (stl (stl (sim_future hw))))))))) = None"
    "fault (shd (stl (stl (stl (stl (stl (stl (stl (stl (sim_future hw)))))))))) = None"
    "fault (shd (stl (stl (stl (stl (stl (stl (stl (stl (stl (sim_future hw))))))))))) = None"
    "fault (shd (stl (stl (stl (stl (stl (stl (stl (stl (stl (stl (sim_future hw)))))))))))) = None"
    "fault (shd (stl (stl (stl (stl (stl (stl (stl (stl (stl (stl (stl (sim_future hw))))))))))))) = None"
    using ok by (simp_all add: mmc_upgrade_ok_def stake_12)
  have st: "drop_bit (STATUS_CURRENT_STATE K) (ocr_word (shd (stl (sim_future hw)))) AND 0b1111
         = CURRENT_STATE_IDENT K"
    and sp: "bit_field (response (shd (stl (stl (sim_future hw))))) MMC_CSD_TRAN_SPEED 0xff
         = TRAN_SPEED_26MHZ"
    using ok by (simp_all add: mmc_upgrade_ok_def)
  have v: "\<not> bit_field (response (shd (stl (stl (sim_future hw))))) MMC_CSD_SPEC_VERS 0xf < 4"
    using ver by (simp add: csd)
  show "fst (initMMC K hw) = None"
    using f st sp w v
    by (auto simp: initMMC_def cmd_def waitState_def next_reply_def Let_def
        writeCardRegisterMMC_def detectCapacityMMC_def transfer_def MMC_DEFAULT_BLOCK_SIZE_def
        EXT_CSD_SEC_COUNT_def)
  show "HS (hw_card (snd (initMMC K hw)))"
    using f st sp w v
    by (auto simp: initMMC_def cmd_def waitState_def next_reply_def Let_def
        writeCardRegisterMMC_def detectCapacityMMC_def transfer_def MMC_DEFAULT_BLOCK_SIZE_def
        EXT_CSD_SEC_COUNT_def)
  show "DDR (hw_card (snd (initMMC K hw)))"
    using f st sp w v
    by (auto simp: initMMC_def cmd_def waitState_def next_reply_def Let_def
        writeCardRegisterMMC_def detectCapacityMMC_def transfer_def MMC_DEFAULT_BLOCK_SIZE_def
        EXT_CSD_SEC_COUNT_def)
  show "sim_trace (snd (initMMC K hw)) = sim_trace hw @ mmc_bring_up K hw
        @ decode_calls (bit_field csd MMC_CSD_C_SIZE 0xfff) @ ddr_upgrade K hw"
    using f st sp w v
    by (auto simp: initMMC_def cmd_def waitState_def next_reply_def Let_def csd
        writeCardRegisterMMC_def detectCapacityMMC_def transfer_def MMC_DEFAULT_BLOCK_SIZE_def
        EXT_CSD_SEC_COUNT_def mmc_bring_up_def decode_calls_def ddr_upgrade_def
        register_write_def switch_arg_def sdr_code_def ddr_code_def)
qed

text \<open>
  C4.  When the specification version in the CSD is below 4, a run of \<^verbatim>\<open>initMMC\<close>
  leaves the \<open>HS\<close> and \<open>DDR\<close> flags as they were (false for a fresh descriptor), issues at
  most one CMD6 (the first bus-width write) and no \<open>HS_TIMING\<close> write, and sets no clock
  but the operating frequency.  When it returns success, the width is 4 or 8, its calls are
  those up to the first bus-width write followed by the call of the capacity decode, and
  its result and final state are those of \<^verbatim>\<open>detectCapacityMMC\<close>: it returns right after
  the decode.  It does return success when the card answers every call without error,
  reports the identification state and the 26 MHz code, and the width is 4 or 8.  When the
  version is 4 or more on such a card, the run goes on after the decode with the
  \<open>HS_TIMING\<close> write, the second bus-width write with the DDR code and the DDR clock, and
  sets both flags.
\<close>

theorem initMMC_version_gate:
  assumes csd: "csd = response (shd (stl (stl (sim_future hw))))"
    and ver: "ver = bit_field csd MMC_CSD_SPEC_VERS 0xf"
    and fields: "c_size_mult = bit_field csd MMC_CSD_C_SIZE_MULT 0b111"
      "c_size = bit_field csd MMC_CSD_C_SIZE 0xfff"
      "read_bl_len = bit_field csd MMC_CSD_READ_BL_LEN 0xf"
    and hw': "hw' = snd (initMMC K hw)"
    and evs: "evs = issued hw hw'"
  shows "(ver < 4 \<longrightarrow>
       HS (hw_card hw') = HS (hw_card hw) \<and> DDR (hw_card hw') = DDR (hw_card hw)
       \<and> length (cmd_args 6 evs) \<le> 1
       \<and> switch_arg (of_nat EXT_CSD_HS_TIMING) HS_TIMING_HS \<notin> set (cmd_args 6 evs)
       \<and> (clock_calls evs = [] \<or> clock_calls evs = [(0, 0), (DVS_OP K, SDCLKFS_OP K)])
       \<and> (fst (initMMC K hw) = None \<longrightarrow>
            (hw_width hw = 4 \<or> hw_width hw = 8)
            \<and> evs = mmc_bring_up K hw @ decode_calls c_size
            \<and> (\<exists>hwd. sim_trace hwd = sim_trace hw @ mmc_bring_up K hw
                  \<and> hw_card hwd = hw_card hw
                  \<and> sim_future hwd = sdrop 7 (sim_future hw)
                  \<and> initMMC K hw
                       = detectCapacityMMC MMC_DEFAULT_BLOCK_SIZE c_size_mult c_size read_bl_len hwd))
       \<and> (mmc_card_ok K hw \<and> (hw_width hw = 4 \<or> hw_width hw = 8)
            \<longrightarrow> fst (initMMC K hw) = None))
    \<and> (4 \<le> ver \<and> mmc_upgrade_ok K hw \<and> (hw_width hw = 4 \<or> hw_width hw = 8) \<longrightarrow>
         fst (initMMC K hw) = None
         \<and> evs = mmc_bring_up K hw @ decode_calls c_size @ ddr_upgrade K hw
         \<and> HS (hw_card hw') \<and> DDR (hw_card hw'))"
proof -
  have low: "HS (hw_card hw') = HS (hw_card hw) \<and> DDR (hw_card hw') = DDR (hw_card hw)
       \<and> length (cmd_args 6 evs) \<le> 1
       \<and> switch_arg (of_nat EXT_CSD_HS_TIMING) HS_TIMING_HS \<notin> set (cmd_args 6 evs)
       \<and> (clock_calls evs = [] \<or> clock_calls evs = [(0, 0), (DVS_OP K, SDCLKFS_OP K)])
       \<and> (fst (initMMC K hw) = None \<longrightarrow>
            (hw_width hw = 4 \<or> hw_width hw = 8)
            \<and> evs = mmc_bring_up K hw @ decode_calls c_size
            \<and> (\<exists>hwd. sim_trace hwd = sim_trace hw @ mmc_bring_up K hw
                  \<and> hw_card hwd = hw_card hw
                  \<and> sim_future hwd = sdrop 7 (sim_future hw)
                  \<and> initMMC K hw
                       = detectCapacityMMC MMC_DEFAULT_BLOCK_SIZE c_size_mult c_size read_bl_len hwd))
       \<and> (mmc_card_ok K hw \<and> (hw_width hw = 4 \<or> hw_width hw = 8)
            \<longrightarrow> fst (initMMC K hw) = None)"
    if v: "ver < 4"
  proof -
    have v': "bit_field csd MMC_CSD_SPEC_VERS 0xf < 4" using v ver by simp
    have v'': "bit_field (response (shd (stl (stl (sim_future hw))))) MMC_CSD_SPEC_VERS 0xf < 4"
      using v' csd by simp
    from initMMC_run [of K hw] obtain es where
      t: "sim_trace hw' = sim_trace hw @ es"
      and o: "mmc_outcome (hw_width hw)
           (bit_field (response (shd (stl (stl (sim_future hw))))) MMC_CSD_SPEC_VERS 0xf)
           (hw_card hw) (hw_card hw') (cmd_args 6 es)"
      unfolding hw' by blast
    have i: "evs = es" by (simp add: evs issued_def t)
    have nv: "\<not> 4 \<le> bit_field (response (shd (stl (stl (sim_future hw))))) MMC_CSD_SPEC_VERS 0xf"
      using v'' by simp
    have n: "switch_arg (of_nat EXT_CSD_BUS_WIDTH) (sdr_code w)
      \<noteq> switch_arg (of_nat EXT_CSD_HS_TIMING) HS_TIMING_HS" for w
      by (simp add: ext_csd_regs sdr_code_def switch_arg_values)
    have 1: "HS (hw_card hw') = HS (hw_card hw) \<and> DDR (hw_card hw') = DDR (hw_card hw)
      \<and> length (cmd_args 6 evs) \<le> 1
      \<and> switch_arg (of_nat EXT_CSD_HS_TIMING) HS_TIMING_HS \<notin> set (cmd_args 6 evs)"
      using o nv n n [symmetric] unfolding i mmc_outcome_def by auto
    from initMMC_below_4(1) [OF csd v', of K] obtain es' where
      t': "sim_trace hw' = sim_trace hw @ es'"
      and c: "clock_calls es' = [] \<or> clock_calls es' = [(0, 0), (DVS_OP K, SDCLKFS_OP K)]"
      unfolding hw' by blast
    have "evs = es'" by (simp add: evs issued_def t')
    then have 2: "clock_calls evs = [] \<or> clock_calls evs = [(0, 0), (DVS_OP K, SDCLKFS_OP K)]"
      using c by simp
    have 3: "(hw_width hw = 4 \<or> hw_width hw = 8)
            \<and> evs = mmc_bring_up K hw @ decode_calls c_size
            \<and> (\<exists>hwd. sim_trace hwd = sim_trace hw @ mmc_bring_up K hw
                  \<and> hw_card hwd = hw_card hw
                  \<and> sim_future hwd = sdrop 7 (sim_future hw)
                  \<and> initMMC K hw
                       = detectCapacityMMC MMC_DEFAULT_BLOCK_SIZE c_size_mult c_size read_bl_len hwd)"
      if s: "fst (initMMC K hw) = None"
    proof -
      from initMMC_below_4(2) [OF csd v' s] obtain hwd where
        w: "hw_width hw = 4 \<or> hw_width hw = 8"
        and d: "sim_trace hwd = sim_trace hw @ mmc_bring_up K hw"
          "hw_card hwd = hw_card hw" "sim_future hwd = sdrop 7 (sim_future hw)"
          "initMMC K hw = detectCapacityMMC MMC_DEFAULT_BLOCK_SIZE c_size_mult c_size read_bl_len hwd"
          "sim_trace (snd (initMMC K hw)) = sim_trace hwd @ decode_calls c_size"
        unfolding fields by blast
      have "evs = mmc_bring_up K hw @ decode_calls c_size"
        by (simp add: evs issued_def hw' d(5) d(1))
      then show ?thesis using w d by blast
    qed
    have 4: "mmc_card_ok K hw \<and> (hw_width hw = 4 \<or> hw_width hw = 8)
         \<longrightarrow> fst (initMMC K hw) = None"
      using initMMC_success_below_4 [OF _ _ v''] by blast
    from 1 2 3 4 show ?thesis by blast
  qed
  have high: "fst (initMMC K hw) = None
         \<and> evs = mmc_bring_up K hw @ decode_calls c_size @ ddr_upgrade K hw
         \<and> HS (hw_card hw') \<and> DDR (hw_card hw')"
    if "4 \<le> ver \<and> mmc_upgrade_ok K hw \<and> (hw_width hw = 4 \<or> hw_width hw = 8)"
  proof -
    have v: "4 \<le> bit_field csd MMC_CSD_SPEC_VERS 0xf" using that ver by simp
    note u = initMMC_upgrade [OF _ _ csd v, of K]
    have ok: "mmc_upgrade_ok K hw" and w: "hw_width hw = 4 \<or> hw_width hw = 8"
      using that by simp_all
    show ?thesis using u [OF ok w] by (simp add: evs issued_def hw' fields)
  qed
  from low high show ?thesis by blast
qed

lemmas run_defs = initMMC_def initSD_def controller_def script_def cmd_def
  waitState_def next_reply_def ok_reply_def failing_def Let_def rsp_def rspVal_def RCA_ADDR_def
  writeCardRegisterMMC_def detectCapacityMMC_def transfer_def MMC_DEFAULT_BLOCK_SIZE_def
  EXT_CSD_SEC_COUNT_def K0_def bit_field_def CSD_RSP_OFF_def
  MMC_CSD_C_SIZE_MULT_def MMC_CSD_C_SIZE_def MMC_CSD_READ_BL_LEN_def MMC_CSD_TRAN_SPEED_def
  MMC_CSD_SPEC_VERS_def TRAN_SPEED_26MHZ_def Millisecond_def

lemma emmc_v4_run:
  "fst (initMMC K0 emmc_v4) = None"
  "cmd_args 6 (sim_trace (snd (initMMC K0 emmc_v4))) = [0x03b70200, 0x03b90100, 0x03b70600]"
  "hw_card (snd (initMMC K0 emmc_v4))
     = \<lparr>BlockSize = 512, Blocks = 66560, HS = True, DDR = True\<rparr>"
  by (simp_all add: run_defs emmc_v4_def mmc_csd_v4_def ext_csd_regs
      switch_arg_values [unfolded switch_arg_def])

lemma emmc_v3_run:
  "fst (initMMC K0 emmc_v3) = None"
  "cmd_args 6 (sim_trace (snd (initMMC K0 emmc_v3))) = [0x03b70100]"
  "hw_card (snd (initMMC K0 emmc_v3))
     = \<lparr>BlockSize = 512, Blocks = 66560, HS = False, DDR = False\<rparr>"
  by (simp_all add: run_defs emmc_v3_def mmc_csd_v3_def ext_csd_regs
      switch_arg_values [unfolded switch_arg_def])

theorem initMMC_ddr_bus_width_witness:
  "length (cmd_args 6 (issued emmc_v4 (snd (initMMC K0 emmc_v4)))) = 3
   \<and> hw_width emmc_v4 = 8
   \<and> cmd_args 6 (issued emmc_v4 (snd (initMMC K0 emmc_v4))) ! 2
       = switch_arg (of_nat EXT_CSD_BUS_WIDTH) 6
   \<and> Get (cmd_args 6 (issued emmc_v4 (snd (initMMC K0 emmc_v4))) ! 2) MMC_SWITCH_VALUE 0xff = 6"
proof -
  have i: "issued emmc_v4 (snd (initMMC K0 emmc_v4)) = sim_trace (snd (initMMC K0 emmc_v4))"
    by (simp add: issued_def emmc_v4_def controller_def)
  have l: "length (cmd_args 6 (issued emmc_v4 (snd (initMMC K0 emmc_v4)))) = 3"
    by (simp add: i emmc_v4_run)
  have w: "hw_width emmc_v4 = 8" by (simp add: emmc_v4_def controller_def)
  have g: "Get (switch_arg (of_nat EXT_CSD_BUS_WIDTH) 6) MMC_SWITCH_VALUE 0xff = 6"
    by (simp add: ext_csd_regs switch_arg_values Get_def MMC_SWITCH_VALUE_def)
  from initMMC_ddr_bus_width [OF refl, of emmc_v4 K0] l w g
  show ?thesis by simp
qed

lemma emmc_v4_sectors_run:
  "hw_card (snd (initMMC K0 emmc_v4_sectors))
     = \<lparr>BlockSize = 512, Blocks = 7667712, HS = True, DDR = True\<rparr>"
  by (simp add: run_defs emmc_v4_sectors_def mmc_csd_v4_sectors_def ext_csd_reply_def
      filled_def LittleEndian_Uint32_def nth_append)

theorem initMMC_version_gate_witness:
  "bit_field (response (shd (stl (stl (sim_future emmc_v3))))) MMC_CSD_SPEC_VERS 0xf = 3
   \<and> bit_field (response (shd (stl (stl (sim_future emmc_v3))))) MMC_CSD_C_SIZE 0xfff = 0x40
   \<and> mmc_card_ok K0 emmc_v3 \<and> hw_width emmc_v3 = 4
   \<and> fst (initMMC K0 emmc_v3) = None
   \<and> \<not> HS (hw_card (snd (initMMC K0 emmc_v3))) \<and> \<not> DDR (hw_card (snd (initMMC K0 emmc_v3)))
   \<and> issued emmc_v3 (snd (initMMC K0 emmc_v3)) = mmc_bring_up K0 emmc_v3
   \<and> clock_calls (issued emmc_v3 (snd (initMMC K0 emmc_v3))) = [(0, 0), (3, 1)]
   \<and> cmd_args 6 (issued emmc_v3 (snd (initMMC K0 emmc_v3)))
       = [switch_arg (of_nat EXT_CSD_BUS_WIDTH) 1]
   \<and> hw_card (snd (initMMC K0 emmc_v3))
       = \<lparr>BlockSize = 512, Blocks = 66560, HS = False, DDR = False\<rparr>
   \<and> bit_field (response (shd (stl (stl (sim_future emmc_v4_sectors))))) MMC_CSD_SPEC_VERS 0xf = 4
   \<and> bit_field (response (shd (stl (stl (sim_future emmc_v4_sectors))))) MMC_CSD_C_SIZE 0xfff
       = 0xfff
   \<and> mmc_upgrade_ok K0 emmc_v4_sectors \<and> hw_width emmc_v4_sectors = 4
   \<and> fst (initMMC K0 emmc_v4_sectors) = None
   \<and> issued emmc_v4_sectors (snd (initMMC K0 emmc_v4_sectors))
       = mmc_bring_up K0 emmc_v4_sectors @ [Transfer 8 READ 0 1 512 None]
           @ ddr_upgrade K0 emmc_v4_sectors
   \<and> hw_card (snd (initMMC K0 emmc_v4_sectors))
       = \<lparr>BlockSize = 512, Blocks = 7667712, HS = True, DDR = True\<rparr>"
proof -
  have v3: "bit_field (response (shd (stl (stl (sim_future emmc_v3))))) MMC_CSD_SPEC_VERS 0xf = 3"
    and c3: "bit_field (response (shd (stl (stl (sim_future emmc_v3))))) MMC_CSD_C_SIZE 0xfff
      = 0x40"
    by (simp_all add: emmc_v3_def mmc_csd_v3_def ok_reply_def bit_field_def MMC_CSD_SPEC_VERS_def
        MMC_CSD_C_SIZE_def CSD_RSP_OFF_def controller_def script_def)
  have ok3: "mmc_card_ok K0 emmc_v3"
    by (simp add: mmc_card_ok_def stake_8 emmc_v3_def mmc_csd_v3_def ok_reply_def bit_field_def
        MMC_CSD_TRAN_SPEED_def CSD_RSP_OFF_def K0_def ocr_word_def TRAN_SPEED_26MHZ_def)
  have w3: "hw_width emmc_v3 = 4" by (simp add: emmc_v3_def controller_def)
  have f3: "\<not> HS (hw_card emmc_v3)" "\<not> DDR (hw_card emmc_v3)"
    by (simp_all add: emmc_v3_def controller_def)
  have v4: "bit_field (response (shd (stl (stl (sim_future emmc_v4_sectors)))))
      MMC_CSD_SPEC_VERS 0xf = 4"
    and c4: "bit_field (response (shd (stl (stl (sim_future emmc_v4_sectors)))))
      MMC_CSD_C_SIZE 0xfff = 0xfff"
    by (simp_all add: emmc_v4_sectors_def mmc_csd_v4_sectors_def ok_reply_def bit_field_def
        MMC_CSD_SPEC_VERS_def MMC_CSD_C_SIZE_def CSD_RSP_OFF_def controller_def script_def)
  have ok4: "mmc_upgrade_ok K0 emmc_v4_sectors"
    by (simp add: mmc_upgrade_ok_def stake_12 emmc_v4_sectors_def mmc_csd_v4_sectors_def
        ok_reply_def ext_csd_reply_def bit_field_def MMC_CSD_TRAN_SPEED_def CSD_RSP_OFF_def K0_def
        ocr_word_def TRAN_SPEED_26MHZ_def)
  have w4: "hw_width emmc_v4_sectors = 4" by (simp add: emmc_v4_sectors_def controller_def)
  have k: "DVS_OP K0 = 3" "SDCLKFS_OP K0 = 1" by (simp_all add: K0_def)
  have cl: "clock_calls (mmc_bring_up K0 emmc_v3) = [(0, 0), (3, 1)]"
    by (simp add: mmc_bring_up_def register_write_def k)
  have a6: "cmd_args 6 (mmc_bring_up K0 emmc_v3) = [switch_arg (of_nat EXT_CSD_BUS_WIDTH) 1]"
    by (simp add: mmc_bring_up_def register_write_def sdr_code_def w3)
  note t3 = initMMC_version_gate [OF refl refl refl refl refl refl refl, of emmc_v3 K0]
  note t4 = initMMC_version_gate [OF refl refl refl refl refl refl refl, of emmc_v4_sectors K0]
  from t3 v3 c3 ok3 w3 f3 cl a6
  have 3: "fst (initMMC K0 emmc_v3) = None
   \<and> \<not> HS (hw_card (snd (initMMC K0 emmc_v3))) \<and> \<not> DDR (hw_card (snd (initMMC K0 emmc_v3)))
   \<and> issued emmc_v3 (snd (initMMC K0 emmc_v3)) = mmc_bring_up K0 emmc_v3
   \<and> clock_calls (issued emmc_v3 (snd (initMMC K0 emmc_v3))) = [(0, 0), (3, 1)]
   \<and> cmd_args 6 (issued emmc_v3 (snd (initMMC K0 emmc_v3)))
       = [switch_arg (of_nat EXT_CSD_BUS_WIDTH) 1]"
    by (simp add: decode_calls_def)
  from t4 v4 c4 ok4 w4
  have 4: "fst (initMMC K0 emmc_v4_sectors) = None
   \<and> issued emmc_v4_sectors (snd (initMMC K0 emmc_v4_sectors))
       = mmc_bring_up K0 emmc_v4_sectors @ [Transfer 8 READ 0 1 512 None]
           @ ddr_upgrade K0 emmc_v4_sectors
   \<and> HS (hw_card (snd (initMMC K0 emmc_v4_sectors)))
   \<and> DDR (hw_card (snd (initMMC K0 emmc_v4_sectors)))"
    by (simp add: decode_calls_def)
  from 3 4 v3 c3 ok3 w3 v4 c4 ok4 w4 emmc_v3_run(3) emmc_v4_sectors_run
  show ?thesis by blast
qed


lemma stake_6:
  "stake 6 s = [shd s, shd (stl s), shd (stl (stl s)), shd (stl (stl (stl s))),
     shd (stl (stl (stl (stl s)))), shd (stl (stl (stl (stl (stl s)))))]"
  by (simp add: eval_nat_numeral)

lemma stake_5:
  "stake 5 s = [shd s, shd (stl s), shd (stl (stl s)), shd (stl (stl (stl s))),
     shd (stl (stl (stl (stl s))))]"
  by (simp add: eval_nat_numeral)

lemma initSD_reaches:
  assumes "sd_reaches_width K hw"
  shows "\<exists>hw6 P. initSD K hw = sd_width K hw6 \<and> sim_trace hw6 = sim_trace hw @ P
     \<and> cmd_args 6 P = [] \<and> hw_width hw6 = hw_width hw
     \<and> HS (hw_card hw6) = HS (hw_card hw) \<and> DDR (hw_card hw6) = DDR (hw_card hw)"
proof -
  let ?s = "sim_future hw"
  let ?hw2 = "answered (Cmd 3 READ 0 RSP_48 True True False 0 None)
      (answered (Cmd 2 READ 0 RSP_136 False True False 0 None) hw)"
  let ?hw3 = "(setClock (DVS_OP K) (SDCLKFS_OP K) (setClock 0 0 ?hw2))
      \<lparr>hw_rca := rsp ?hw2 0 AND push_bit RCA_ADDR 0xffff\<rparr>"
  let ?d = "detectCapacitySD SD_DEFAULT_BLOCK_SIZE ?hw3"
  let ?hw6 = "answered (Cmd 55 READ (hw_rca (snd ?d)) RSP_48 True True False 0 None)
      (answered (WaitState (CURRENT_STATE_TRAN K) (1 * Millisecond) None)
        (answered (Cmd 7 READ (hw_rca (snd ?d)) RSP_48_CHECK_BUSY True True False 0 None)
          (snd ?d)))"
  have f: "fault (shd ?s) = None" "fault (shd (stl ?s)) = None"
    "fault (shd (stl (stl ?s))) = None" "fault (shd (stl (stl (stl ?s)))) = None"
    "fault (shd (stl (stl (stl (stl ?s))))) = None"
    "fault (shd (stl (stl (stl (stl (stl ?s)))))) = None"
    and st: "drop_bit (STATUS_CURRENT_STATE K) (ocr_word (shd (stl ?s))) AND 0b1111
         = CURRENT_STATE_IDENT K"
    and ver: "bit_field (response (shd (stl (stl ?s)))) SD_CSD_STRUCTURE 0b11 \<in> {0, 1, 2}"
    and app: "drop_bit (STATUS_APP_CMD K) (ocr_word (shd (stl (stl (stl (stl (stl ?s))))))) AND 1
         = 1"
    using assms by (simp_all add: sd_reaches_width_def stake_6)
  have n3: "fault (next_reply ?hw3) = None" "response (next_reply ?hw3) = response (shd (stl (stl ?s)))"
    using f by (simp_all add: next_reply_def)
  have d: "fst ?d = None"
    using detectCapacitySD_result [OF n3(1) refl, of SD_DEFAULT_BLOCK_SIZE] ver n3(2) by simp
  have fd: "sim_future (snd ?d) = stl (stl (stl ?s))"
    by (simp add: detectCapacitySD_effect)
  have "initSD K hw = sd_select K (snd ?d)"
    using f st d by (simp add: initSD_staged cmd_def next_reply_def Let_def case_result)
  also have "\<dots> = sd_width K ?hw6"
    using f app fd by (simp add: sd_select_def cmd_def waitState_def next_reply_def)
  finally have 1: "initSD K hw = sd_width K ?hw6" .
  have 2: "sim_trace ?hw6 = sim_trace hw @
     [Cmd 2 READ 0 RSP_136 False True False 0 None, Cmd 3 READ 0 RSP_48 True True False 0 None,
      SetClock 0 0, SetClock (DVS_OP K) (SDCLKFS_OP K),
      Cmd 9 READ (hw_rca ?hw3) RSP_136 False True False 0 None,
      Cmd 7 READ (hw_rca (snd ?d)) RSP_48_CHECK_BUSY True True False 0 None,
      WaitState (CURRENT_STATE_TRAN K) (1 * Millisecond) None,
      Cmd 55 READ (hw_rca (snd ?d)) RSP_48 True True False 0 None]"
    using n3(1) by (simp add: detectCapacitySD_effect)
  have 3: "hw_width ?hw6 = hw_width hw" "HS (hw_card ?hw6) = HS (hw_card hw)"
    "DDR (hw_card ?hw6) = DDR (hw_card hw)"
    by (simp_all add: detectCapacitySD_effect)
  show ?thesis
    by (intro exI conjI, rule 1, rule 2, simp, rule 3, rule 3, rule 3)
qed

lemma sd_width_first:
  assumes "hw_width hw = 1 \<or> hw_width hw = 4"
  shows "\<exists>evs. sim_trace (snd (sd_width K hw)) = sim_trace hw @ evs
     \<and> take 1 (cmd_args 6 evs) = [if hw_width hw = 1 then 0b00 else 0b10]"
proof -
  let ?code = "if hw_width hw = 1 then 0 else 2 :: uint32"
  show ?thesis
  proof (cases "fault (next_reply hw)")
    case (Some e)
    then have "sd_width K hw
        = (Some (Primitive e), answered (Cmd 6 READ ?code RSP_48 True True False 0 (Some e)) hw)"
      using assms by (auto simp: sd_width_def cmd_def)
    then show ?thesis by simp
  next
    case None
    let ?hw1 = "answered (Cmd 6 READ ?code RSP_48 True True False 0 None) hw"
    have "sd_width K hw = sd_switch K ?hw1"
      using assms None by (auto simp: sd_width_def cmd_def)
    moreover obtain evs where "sim_trace (snd (sd_switch K ?hw1)) = sim_trace ?hw1 @ evs"
      using sd_switch_run [of K ?hw1] by blast
    ultimately have "sim_trace (snd (sd_width K hw))
        = sim_trace hw @ (Cmd 6 READ ?code RSP_48 True True False 0 None # evs)" by simp
    moreover have "take 1 (cmd_args 6 (Cmd 6 READ ?code RSP_48 True True False 0 None # evs))
        = [?code]" by simp
    ultimately show ?thesis by blast
  qed
qed

lemma initMMC_reaches:
  assumes "mmc_reaches_width K hw"
  shows "\<exists>hw5 P m c r ver. initMMC K hw = mmc_width K m c r ver hw5
     \<and> sim_trace hw5 = sim_trace hw @ P \<and> cmd_args 6 P = []
     \<and> hw_width hw5 = hw_width hw \<and> hw_card hw5 = hw_card hw"
proof -
  let ?s = "sim_future hw"
  let ?rca = "push_bit RCA_ADDR (hw_n hw + 1) :: uint32"
  let ?csd = "response (shd (stl (stl ?s)))"
  let ?hw3 = "answered (Cmd 9 READ ?rca RSP_136 False True False 0 None)
      (answered (Cmd 3 READ ?rca RSP_48 True True False 0 None)
        ((answered (Cmd 2 READ 0 RSP_136 False True False 0 None) hw)\<lparr>hw_rca := ?rca\<rparr>))"
  let ?hw5 = "answered (WaitState (CURRENT_STATE_TRAN K) (1 * Millisecond) None)
      (answered (Cmd 7 READ ?rca RSP_48_CHECK_BUSY True True False 0 None)
        (setClock (DVS_OP K) (SDCLKFS_OP K) (setClock 0 0 ?hw3)))"
  have f: "fault (shd ?s) = None" "fault (shd (stl ?s)) = None"
    "fault (shd (stl (stl ?s))) = None" "fault (shd (stl (stl (stl ?s)))) = None"
    "fault (shd (stl (stl (stl (stl ?s))))) = None"
    and st: "drop_bit (STATUS_CURRENT_STATE K) (ocr_word (shd (stl ?s))) AND 0b1111
         = CURRENT_STATE_IDENT K"
    and sp: "bit_field ?csd MMC_CSD_TRAN_SPEED 0xff = TRAN_SPEED_26MHZ"
    using assms by (simp_all add: mmc_reaches_width_def stake_5)
  have "initMMC K hw = mmc_select K (bit_field ?csd MMC_CSD_C_SIZE_MULT 0b111)
        (bit_field ?csd MMC_CSD_C_SIZE 0xfff) (bit_field ?csd MMC_CSD_READ_BL_LEN 0xf)
        (bit_field ?csd MMC_CSD_SPEC_VERS 0xf) ?hw3"
    using f st sp by (simp add: initMMC_staged cmd_def next_reply_def Let_def)
  also have "\<dots> = mmc_width K (bit_field ?csd MMC_CSD_C_SIZE_MULT 0b111)
        (bit_field ?csd MMC_CSD_C_SIZE 0xfff) (bit_field ?csd MMC_CSD_READ_BL_LEN 0xf)
        (bit_field ?csd MMC_CSD_SPEC_VERS 0xf) ?hw5"
    using f by (simp add: mmc_select_def cmd_def waitState_def next_reply_def Let_def)
  finally have 1: "initMMC K hw = mmc_width K (bit_field ?csd MMC_CSD_C_SIZE_MULT 0b111)
        (bit_field ?csd MMC_CSD_C_SIZE 0xfff) (bit_field ?csd MMC_CSD_READ_BL_LEN 0xf)
        (bit_field ?csd MMC_CSD_SPEC_VERS 0xf) ?hw5" .
  have 2: "sim_trace ?hw5 = sim_trace hw @
     [Cmd 2 READ 0 RSP_136 False True False 0 None,
      Cmd 3 READ ?rca RSP_48 True True False 0 None,
      Cmd 9 READ ?rca RSP_136 False True False 0 None,
      SetClock 0 0, SetClock (DVS_OP K) (SDCLKFS_OP K),
      Cmd 7 READ ?rca RSP_48_CHECK_BUSY True True False 0 None,
      WaitState (CURRENT_STATE_TRAN K) (1 * Millisecond) None]"
    by simp
  have 3: "hw_width ?hw5 = hw_width hw" "hw_card ?hw5 = hw_card hw" by simp_all
  show ?thesis
    by (intro exI conjI, rule 1, rule 2, simp, rule 3, rule 3)
qed

lemma mmc_width_first:
  assumes "hw_width hw = 4 \<or> hw_width hw = 8"
  shows "\<exists>evs. sim_trace (snd (mmc_width K m c r ver hw)) = sim_trace hw @ evs
     \<and> take 1 (cmd_args 6 evs)
         = [switch_arg (of_nat EXT_CSD_BUS_WIDTH) (if hw_width hw = 4 then 1 else 2)]"
proof -
  let ?bw = "if hw_width hw = 4 then 1 else 2 :: uint32"
  let ?W = "writeCardRegisterMMC K (of_nat EXT_CSD_BUS_WIDTH) ?bw hw"
  let ?D = "detectCapacityMMC MMC_DEFAULT_BLOCK_SIZE m c r (snd ?W)"
  let ?R = "mmc_ddr K ?bw (snd ?D)"
  obtain e1 where e1: "sim_trace (snd ?W) = sim_trace hw @ e1"
    "cmd_args 6 e1 = [switch_arg (of_nat EXT_CSD_BUS_WIDTH) ?bw]"
    using writeCardRegisterMMC_effect(1) by blast
  obtain e2 where e2: "sim_trace (snd ?D) = sim_trace (snd ?W) @ e2"
    using detectCapacityMMC_effect(1) by blast
  obtain e3 where e3: "sim_trace (snd ?R) = sim_trace (snd ?D) @ e3"
    using mmc_ddr_run by blast
  have "\<exists>evs. sim_trace (snd (mmc_width K m c r ver hw)) = sim_trace (snd ?W) @ evs"
  proof -
    consider (w) e where "fst ?W = Some e"
      | (d) e where "fst ?W = None" "fst ?D = Some e"
      | (v) "fst ?W = None" "fst ?D = None" "ver < 4"
      | (go) "fst ?W = None" "fst ?D = None" "\<not> ver < 4"
      by (cases "fst ?W"; cases "fst ?D") auto
    then show ?thesis
    proof cases
      case w
      then have "mmc_width K m c r ver hw = (Some e, snd ?W)"
        using assms by (auto simp: mmc_width_def case_result)
      then show ?thesis by simp
    next
      case d
      then have "mmc_width K m c r ver hw = (Some e, snd ?D)"
        using assms by (auto simp: mmc_width_def case_result)
      then show ?thesis using e2 by simp
    next
      case v
      then have "mmc_width K m c r ver hw = (None, snd ?D)"
        using assms by (auto simp: mmc_width_def case_result)
      then show ?thesis using e2 by simp
    next
      case go
      then have "mmc_width K m c r ver hw = ?R"
        using assms by (auto simp: mmc_width_def case_result)
      then show ?thesis using e2 e3 by simp
    qed
  qed
  then obtain evs where "sim_trace (snd (mmc_width K m c r ver hw)) = sim_trace hw @ (e1 @ evs)"
    using e1 by auto
  moreover have "take 1 (cmd_args 6 (e1 @ evs)) = [switch_arg (of_nat EXT_CSD_BUS_WIDTH) ?bw]"
    using e1 by simp
  ultimately show ?thesis by blast
qed

text \<open>
  C6, as amended.  When the run reaches the \<^verbatim>\<open>switch\<close> on the width: \<^verbatim>\<open>initSD\<close> sends
  ACMD6 with code \<open>0b00\<close> for width 1 and \<open>0b10\<close> for width 4, \<^verbatim>\<open>initMMC\<close> writes code 1
  for width 4 and 2 for width 8 to \<open>BUS_WIDTH\<close>; for every other width they return the
  unsupported-width error without a CMD6.  \<^verbatim>\<open>initMMC\<close> then leaves the descriptor as it
  was; \<^verbatim>\<open>initSD\<close> leaves the \<open>HS\<close> and \<open>DDR\<close> flags as they were.
\<close>

theorem bus_width_mapping:
  assumes sd: "sd_reaches_width K hws" and mmc: "mmc_reaches_width K hwm"
    and S: "S = initSD K hws" and M: "M = initMMC K hwm"
  shows "(if hw_width hws = 1 \<or> hw_width hws = 4
          then take 1 (cmd_args 6 (issued hws (snd S)))
                 = [if hw_width hws = 1 then 0b00 else 0b10]
          else fst S = Some UnsupportedSDBusWidth \<and> cmd_args 6 (issued hws (snd S)) = []
             \<and> HS (hw_card (snd S)) = HS (hw_card hws)
             \<and> DDR (hw_card (snd S)) = DDR (hw_card hws))
    \<and> (if hw_width hwm = 4 \<or> hw_width hwm = 8
          then take 1 (cmd_args 6 (issued hwm (snd M)))
                 = [switch_arg (of_nat EXT_CSD_BUS_WIDTH) (if hw_width hwm = 4 then 1 else 2)]
          else fst M = Some UnsupportedMMCBusWidth \<and> cmd_args 6 (issued hwm (snd M)) = []
             \<and> hw_card (snd M) = hw_card hwm)"
proof -
  from initSD_reaches [OF sd] obtain hw6 P where
    s: "S = sd_width K hw6" "sim_trace hw6 = sim_trace hws @ P" "cmd_args 6 P = []"
      "hw_width hw6 = hw_width hws" "HS (hw_card hw6) = HS (hw_card hws)"
      "DDR (hw_card hw6) = DDR (hw_card hws)"
    unfolding S by blast
  have 1: "take 1 (cmd_args 6 (issued hws (snd S))) = [if hw_width hws = 1 then 0b00 else 0b10]"
    if w: "hw_width hws = 1 \<or> hw_width hws = 4"
  proof -
    from sd_width_first [of hw6 K] w s(4) obtain evs where
      "sim_trace (snd S) = sim_trace hw6 @ evs"
      "take 1 (cmd_args 6 evs) = [if hw_width hws = 1 then 0b00 else 0b10]"
      unfolding s(1) by auto
    then show ?thesis using s(2,3) by (simp add: issued_def)
  qed
  have 2: "fst S = Some UnsupportedSDBusWidth \<and> cmd_args 6 (issued hws (snd S)) = []
      \<and> HS (hw_card (snd S)) = HS (hw_card hws) \<and> DDR (hw_card (snd S)) = DDR (hw_card hws)"
    if w: "\<not> (hw_width hws = 1 \<or> hw_width hws = 4)"
  proof -
    have "S = (Some UnsupportedSDBusWidth, hw6)"
      using w s(4) unfolding s(1) by (simp add: sd_width_def)
    then show ?thesis using s(2,3,5,6) by (simp add: issued_def)
  qed
  from initMMC_reaches [OF mmc] obtain hw5 P' m c r ver where
    m: "M = mmc_width K m c r ver hw5" "sim_trace hw5 = sim_trace hwm @ P'"
      "cmd_args 6 P' = []" "hw_width hw5 = hw_width hwm" "hw_card hw5 = hw_card hwm"
    unfolding M by blast
  have 3: "take 1 (cmd_args 6 (issued hwm (snd M)))
      = [switch_arg (of_nat EXT_CSD_BUS_WIDTH) (if hw_width hwm = 4 then 1 else 2)]"
    if w: "hw_width hwm = 4 \<or> hw_width hwm = 8"
  proof -
    from mmc_width_first [of hw5 K m c r ver] w m(4) obtain evs where
      "sim_trace (snd M) = sim_trace hw5 @ evs"
      "take 1 (cmd_args 6 evs)
         = [switch_arg (of_nat EXT_CSD_BUS_WIDTH) (if hw_width hwm = 4 then 1 else 2)]"
      unfolding m(1) by auto
    then show ?thesis using m(2,3) by (simp add: issued_def)
  qed
  have 4: "fst M = Some UnsupportedMMCBusWidth \<and> cmd_args 6 (issued hwm (snd M)) = []
      \<and> hw_card (snd M) = hw_card hwm"
    if w: "\<not> (hw_width hwm = 4 \<or> hw_width hwm = 8)"
  proof -
    have "M = (Some UnsupportedMMCBusWidth, hw5)"
      using w m(4) unfolding m(1) by (simp add: mmc_width_def)
    then show ?thesis using m(2,3,5) by (simp add: issued_def)
  qed
  from 1 2 3 4 show ?thesis by (cases "hw_width hws = 1 \<or> hw_width hws = 4"; cases "hw_width hwm = 4 \<or> hw_width hwm = 8") (simp_all only: if_True if_False simp_thms)
qed

lemma sd_eight_lines_run:
  "fst (initSD K0 sd_eight_lines) = Some UnsupportedSDBusWidth"
  "hw_card (snd (initSD K0 sd_eight_lines))
     = \<lparr>BlockSize = 512, Blocks = 3842048, HS = False, DDR = False\<rparr>"
  "hw_card sd_eight_lines = \<lparr>BlockSize = 0, Blocks = 0, HS = False, DDR = False\<rparr>"
  by (simp_all add: run_defs sd_eight_lines_def detectCapacitySD_def sd_csd_v0_def
      SD_CSD_STRUCTURE_def SD_CSD_READ_BL_LEN_1_def SD_CSD_C_SIZE_1_def SD_CSD_C_SIZE_MULT_1_def
      SD_DEFAULT_BLOCK_SIZE_def)

text \<open>
  C6 as the specification states it fails for \<^verbatim>\<open>initSD\<close>: with width 8 the call returns
  the unsupported-width error after the capacity decode has written block size and block
  count to the descriptor.
\<close>

theorem initSD_unsupported_width_touches_descriptor:
  "sd_reaches_width K0 sd_eight_lines \<and> hw_width sd_eight_lines = 8
   \<and> fst (initSD K0 sd_eight_lines) = Some UnsupportedSDBusWidth
   \<and> hw_card (snd (initSD K0 sd_eight_lines)) \<noteq> hw_card sd_eight_lines"
proof -
  have "sd_reaches_width K0 sd_eight_lines"
    by (simp add: sd_reaches_width_def stake_6 sd_eight_lines_def ok_reply_def K0_def
        ocr_word_def sd_csd_v0_fields)
  moreover have "hw_width sd_eight_lines = 8" by (simp add: sd_eight_lines_def controller_def)
  ultimately show ?thesis by (simp add: sd_eight_lines_run)
qed

theorem bus_width_mapping_witness:
  "sd_reaches_width K0 sd_eight_lines \<and> mmc_reaches_width K0 emmc_one_line
   \<and> fst (initSD K0 sd_eight_lines) = Some UnsupportedSDBusWidth
   \<and> fst (initMMC K0 emmc_one_line) = Some UnsupportedMMCBusWidth
   \<and> hw_card (snd (initMMC K0 emmc_one_line)) = hw_card emmc_one_line
   \<and> sd_reaches_width K0 sd_wait_fails \<and> mmc_reaches_width K0 emmc_v4
   \<and> take 1 (cmd_args 6 (issued sd_wait_fails (snd (initSD K0 sd_wait_fails)))) = [0b10]
   \<and> take 1 (cmd_args 6 (issued emmc_v4 (snd (initMMC K0 emmc_v4))))
       = [switch_arg (of_nat EXT_CSD_BUS_WIDTH) 2]"
proof -
  have s8: "sd_reaches_width K0 sd_eight_lines"
    by (simp add: sd_reaches_width_def stake_6 sd_eight_lines_def ok_reply_def K0_def
        ocr_word_def sd_csd_v0_fields)
  have s4: "sd_reaches_width K0 sd_wait_fails"
    by (simp add: sd_reaches_width_def stake_6 sd_wait_fails_def ok_reply_def K0_def
        ocr_word_def sd_csd_v0_fields)
  have m1: "mmc_reaches_width K0 emmc_one_line"
    by (simp add: mmc_reaches_width_def stake_5 emmc_one_line_def ok_reply_def K0_def
        ocr_word_def mmc_csd_v4_def bit_field_def MMC_CSD_TRAN_SPEED_def CSD_RSP_OFF_def
        TRAN_SPEED_26MHZ_def)
  have m8: "mmc_reaches_width K0 emmc_v4"
    by (simp add: mmc_reaches_width_def stake_5 emmc_v4_def ok_reply_def K0_def
        ocr_word_def mmc_csd_v4_def bit_field_def MMC_CSD_TRAN_SPEED_def CSD_RSP_OFF_def
        TRAN_SPEED_26MHZ_def)
  have w: "hw_width sd_eight_lines = 8" "hw_width emmc_one_line = 1"
    "hw_width sd_wait_fails = 4" "hw_width emmc_v4 = 8"
    by (simp_all add: sd_eight_lines_def emmc_one_line_def sd_wait_fails_def emmc_v4_def
        controller_def)
  from bus_width_mapping [OF s8 m1 refl refl] bus_width_mapping [OF s4 m8 refl refl] w s8 s4 m1 m8
  show ?thesis by simp
qed

end
